theory Spec2Isabelle
  imports Complex_Main
begin

section \<open>JavaScript values\<close>

text \<open>
  A JavaScript string is a sequence of UTF-16 code units. It is modelled as the list of
  its code units, so that \<open>length\<close>, \<open>take\<close> and \<open>drop\<close> count what \<open>.length\<close>,
  \<open>.slice\<close> and \<open>.startsWith\<close> count. \<open>js\<close> turns an ASCII literal into such a list.
\<close>

type_synonym ustring = "nat list"

definition js :: "string \<Rightarrow> ustring" where
  "js s = map of_char s"

text \<open>
  A JavaScript number is an IEEE-754 double: a finite value (a rational), an infinity or
  NaN. The sign of zero is not kept: nothing in the program tells \<open>-0\<close> from \<open>0\<close>.
\<close>

datatype jsnum = Fin rat | PInf | NInf | NaN

text \<open>
  The values the program handles: the results of \<open>JSON.parse\<close>, \<open>undefined\<close>, and
  function objects (which the program meets only as members of the built-in
  prototypes and of its own handler tables; they carry their name). An object is the
  list of its own enumerable properties in the order of \<open>Object.keys\<close>. An array and a
  function are objects too: besides its elements (and \<open>length\<close>), or its name, each has
  the list of the further properties that have been assigned to it. \<open>JSON.parse\<close>
  gives arrays without such properties, \<open>JArr xs\<close>; the built-in functions are
  \<open>JFunction f\<close>. A value is given by its contents; the one place where the program
  writes to an object that it also reaches under another name, \<open>filters\<close> in the
  handlers, is modelled there.
\<close>

datatype jsval =
    JUndefined
  | JNull
  | JBool bool
  | JNum jsnum
  | JStr ustring
  | JArray "jsval list" "(ustring \<times> jsval) list"
  | JObj "(ustring \<times> jsval) list"
  | JFunc ustring "(ustring \<times> jsval) list"

abbreviation JArr :: "jsval list \<Rightarrow> jsval" where
  "JArr xs \<equiv> JArray xs []"

abbreviation JFunction :: "ustring \<Rightarrow> jsval" where
  "JFunction f \<equiv> JFunc f []"

text \<open>Truthiness, as tested by \<open>if (v)\<close>, \<open>v || d\<close>, \<open>v ? a : b\<close> and \<open>!v\<close>.\<close>

fun truthy :: "jsval \<Rightarrow> bool" where
  "truthy JUndefined = False"
| "truthy JNull = False"
| "truthy (JBool b) = b"
| "truthy (JNum (Fin q)) = (q \<noteq> 0)"
| "truthy (JNum NaN) = False"
| "truthy (JNum PInf) = True"
| "truthy (JNum NInf) = True"
| "truthy (JStr s) = (s \<noteq> [])"
| "truthy (JArray xs ps) = True"
| "truthy (JObj kvs) = True"
| "truthy (JFunc f ps) = True"

text \<open>\<open>a || b\<close> on values.\<close>

definition js_or :: "jsval \<Rightarrow> jsval \<Rightarrow> jsval" where
  "js_or a b = (if truthy a then a else b)"

definition startsWith :: "ustring \<Rightarrow> ustring \<Rightarrow> bool" where
  "startsWith s p = (take (length p) s = p)"

text \<open>\<open>arg.startsWith('--')\<close> and \<open>arg.startsWith('-')\<close>\<close>

definition is_long :: "ustring \<Rightarrow> bool" where
  "is_long a = startsWith a (js ''--'')"

definition is_dash :: "ustring \<Rightarrow> bool" where
  "is_dash a = startsWith a (js ''-'')"

section \<open>Argument parser\<close>

text \<open>
  \<open>parseArgs\<close> fills three fresh object literals. \<open>flags\<close> and \<open>options\<close> are used as
  dictionaries keyed by what the user typed, so they are modelled as maps of their own
  properties. One key is not an ordinary property: an assignment to \<open>obj['__proto__']\<close>
  goes to the accessor that \<open>obj\<close> inherits from \<open>Object.prototype\<close>. The accessor
  creates no property; it replaces the prototype of \<open>obj\<close> when the assigned value is
  an object or \<open>null\<close> and does nothing otherwise. \<open>options_proto\<close> records such a
  replacement (\<open>None\<close>: the prototype is still \<open>Object.prototype\<close>). \<open>flags\<close> is only
  ever assigned \<open>true\<close>, so its prototype stays. The prototype of \<open>options\<close> can
  become \<open>null\<close>, or an object made by \<open>JSON.parse\<close> that has a property of its own
  named \<open>__proto__\<close>: then the accessor is no longer what the assignment finds, and
  \<open>options['__proto__'] = v\<close> creates an ordinary property, as it does for any other key.
\<close>

record ParsedArgs =
  positional :: "ustring list"
  flags :: "ustring \<rightharpoonup> bool"
  options :: "ustring \<rightharpoonup> jsval"
  options_proto :: "jsval option"

definition proto_key :: ustring where
  "proto_key = js ''__proto__''"

text \<open>\<open>result.flags[key] = true\<close>\<close>

definition assign_flag :: "ParsedArgs \<Rightarrow> ustring \<Rightarrow> ParsedArgs" where
  "assign_flag r key =
     (if key = proto_key then r else r\<lparr>flags := (flags r)(key \<mapsto> True)\<rparr>)"

text \<open>\<open>result.options[key] = v\<close>\<close>

fun is_object_or_null :: "jsval \<Rightarrow> bool" where
  "is_object_or_null JNull = True"
| "is_object_or_null (JArray xs ps) = True"
| "is_object_or_null (JObj kvs) = True"
| "is_object_or_null (JFunc f ps) = True"
| "is_object_or_null v = False"

text \<open>
  Whether an assignment to \<open>options['__proto__']\<close> finds the accessor of
  \<open>Object.prototype\<close>: \<open>options\<close> has no property of that name itself, and neither has
  its prototype, whose own prototype chain ends in \<open>Object.prototype\<close> unless it is
  \<open>null\<close>.
\<close>

fun has_proto_accessor :: "jsval option \<Rightarrow> bool" where
  "has_proto_accessor None = True"
| "has_proto_accessor (Some (JObj kvs)) = (proto_key \<notin> set (map fst kvs))"
| "has_proto_accessor (Some (JArray xs ps)) = (proto_key \<notin> set (map fst ps))"
| "has_proto_accessor (Some (JFunc f ps)) = (proto_key \<notin> set (map fst ps))"
| "has_proto_accessor (Some v) = False"

definition assign_option :: "ParsedArgs \<Rightarrow> ustring \<Rightarrow> jsval \<Rightarrow> ParsedArgs" where
  "assign_option r key v =
     (if key = proto_key \<and> options r proto_key = None \<and> has_proto_accessor (options_proto r)
      then (if is_object_or_null v then r\<lparr>options_proto := Some v\<rparr> else r)
      else r\<lparr>options := (options r)(key \<mapsto> v)\<rparr>)"

text \<open>The names that are always flags: \<open>pretty\<close>, \<open>help\<close>, \<open>table\<close>, \<open>no-retry\<close>.\<close>

definition boolean_flag :: "ustring \<Rightarrow> bool" where
  "boolean_flag key \<longleftrightarrow>
     key = js ''pretty'' \<or> key = js ''help'' \<or> key = js ''table'' \<or> key = js ''no-retry''"

text \<open>
  \<open>JSON.parse\<close> is the platform's; it is the parameter \<open>jp\<close> (\<open>None\<close>: it throws).
  \<open>try { JSON.parse(next) } catch { next }\<close>:
\<close>

definition parse_value :: "(ustring \<Rightarrow> jsval option) \<Rightarrow> ustring \<Rightarrow> jsval" where
  "parse_value jp next = (case jp next of Some v \<Rightarrow> v | None \<Rightarrow> JStr next)"

text \<open>
  \<open>next && !next.startsWith('-')\<close>, where \<open>next\<close> is \<open>args[i + 1]\<close>: \<open>undefined\<close>
  past the end, and falsy also when it is the empty string.
\<close>

definition takes_value :: "ustring list \<Rightarrow> bool" where
  "takes_value rest =
     (case rest of [] \<Rightarrow> False | next # _ \<Rightarrow> next \<noteq> [] \<and> \<not> is_dash next)"

text \<open>The loop \<open>for (let i = 0; i < args.length; i++)\<close>, on the tokens from \<open>i\<close> on.\<close>

fun parse_loop :: "(ustring \<Rightarrow> jsval option) \<Rightarrow> ustring list \<Rightarrow> ParsedArgs \<Rightarrow> ParsedArgs" where
  "parse_loop jp [] r = r"
| "parse_loop jp (arg # rest) r =
     (if is_long arg then
        (if boolean_flag (drop 2 arg) then parse_loop jp rest (assign_flag r (drop 2 arg))
         else if takes_value rest
           then parse_loop jp (tl rest) (assign_option r (drop 2 arg) (parse_value jp (hd rest)))
         else parse_loop jp rest (assign_flag r (drop 2 arg)))
      else if is_dash arg then parse_loop jp rest (assign_flag r (drop 1 arg))
      else parse_loop jp rest (r\<lparr>positional := positional r @ [arg]\<rparr>))"

definition empty_result :: ParsedArgs where
  "empty_result = \<lparr>positional = [], flags = Map.empty, options = Map.empty, options_proto = None\<rparr>"

definition parseArgs :: "(ustring \<Rightarrow> jsval option) \<Rightarrow> ustring list \<Rightarrow> ParsedArgs" where
  "parseArgs jp args = parse_loop jp args empty_result"


section \<open>The platform and the injected dependencies\<close>

text \<open>
  The places where the program can raise a \<open>TypeError\<close>: calling \<open>.split\<close> on a sort
  option that is not a string; writing a property to a \<open>filters\<close> value that is a
  primitive (the file is an ES module, so it runs in strict mode); calling a member of a
  handler table that is not a function; \<open>Object.keys\<close> of \<open>null\<close> or \<open>undefined\<close>;
  reading a property of \<open>null\<close> or \<open>undefined\<close>.
\<close>

datatype site = SortSplit | FiltersAssign | HandlerCall | ObjectKeys | ReadProperty

text \<open>
  What can be thrown: a \<open>TypeError\<close> of the engine (at a site, on a value), or the error
  object with which the API client rejects.
\<close>

datatype exn = TypeError site jsval | Rejected jsval

text \<open>
  The built-ins that the program calls and that are not modelled here are the fields of
  \<open>platform\<close>: they are parameters of every function that uses them. So are the
  dependencies of the login and logout commands, which the program takes from \<open>deps\<close>
  or from \<open>api.js\<close>: \<open>promptFn\<close> is what awaiting the prompt for the API key gives
  (the prompt of the source resolves with a string), \<open>saveConfigFn\<close> whether saving
  throws, \<open>deleteConfigFn\<close> and \<open>getConfigFileFn\<close> what these calls give. The functions
  \<open>log\<close>, \<open>output\<close> and \<open>errorOutput\<close> print and return, as \<open>console.log\<close> and
  \<open>console.error\<close> do; \<open>exit\<close> is recorded by its argument; \<open>commandOverrides\<close> is
  empty.
\<close>

record platform =
  JSON_parse :: "ustring \<Rightarrow> jsval option"
  JSON_stringify :: "jsval \<Rightarrow> ustring"
  JSON_stringify_pretty :: "jsval \<Rightarrow> ustring"
  parseInt :: "jsval \<Rightarrow> exn + jsval"
  localeCompare :: "ustring \<Rightarrow> ustring \<Rightarrow> int"
  toUpperCase_unicode :: "ustring \<Rightarrow> ustring"
  number_toString :: "rat \<Rightarrow> ustring"
  function_toString :: "ustring \<Rightarrow> ustring"
  String_object :: "jsval \<Rightarrow> ustring"
  get_inherited :: "jsval \<Rightarrow> ustring \<Rightarrow> jsval"
  type_error_message :: "site \<Rightarrow> jsval \<Rightarrow> ustring"
  trim :: "ustring \<Rightarrow> ustring"
  promptFn :: "exn + ustring"
  saveConfigFn :: "jsval \<Rightarrow> exn option"
  deleteConfigFn :: "exn + jsval"
  getConfigFileFn :: "exn + jsval"

section \<open>Sort order\<close>

text \<open>\<open>s.split(':')\<close>: the pieces between the colons; never an empty list.\<close>

fun split_colon :: "ustring \<Rightarrow> ustring list" where
  "split_colon [] = [[]]"
| "split_colon (c # cs) =
     (if c = 58 then [] # split_colon cs
      else (case split_colon cs of p # ps \<Rightarrow> (c # p) # ps | [] \<Rightarrow> [[c]]))"

text \<open>
  \<open>toUpperCase\<close> on a string of ASCII code units turns \<open>a\<close>..\<open>z\<close> into \<open>A\<close>..\<open>Z\<close>;
  on other strings it follows the Unicode case mapping, which is the platform's.
\<close>

definition ascii_upper :: "nat \<Rightarrow> nat" where
  "ascii_upper c = (if 97 \<le> c \<and> c \<le> 122 then c - 32 else c)"

definition toUpperCase :: "platform \<Rightarrow> ustring \<Rightarrow> ustring" where
  "toUpperCase pf s =
     (if list_all (\<lambda>c. c < 128) s then map ascii_upper s else toUpperCase_unicode pf s)"

text \<open>\<open>const direction = (parts[1] || 'desc').toUpperCase()\<close>\<close>

definition sort_direction :: "platform \<Rightarrow> ustring list \<Rightarrow> ustring" where
  "sort_direction pf parts =
     toUpperCase pf (case parts of _ # d # _ \<Rightarrow> (if d \<noteq> [] then d else js ''desc'')
                                 | _ \<Rightarrow> js ''desc'')"

definition parseSort :: "platform \<Rightarrow> jsval \<Rightarrow> jsval \<Rightarrow> exn + jsval" where
  "parseSort pf sortOption orderByOption =
     (if truthy orderByOption then Inr orderByOption
      else if \<not> truthy sortOption then Inr JUndefined
      else (case sortOption of
              JStr s \<Rightarrow>
                (let parts = split_colon s;
                     field = hd parts;
                     direction = sort_direction pf parts
                 in Inr (JArr [JObj [(js ''field'', JStr field),
                                     (js ''direction'', JStr direction)]]))
            | _ \<Rightarrow> Inl (TypeError SortSplit sortOption)))"


section \<open>Numbers as text\<close>

text \<open>The decimal digits of a natural number.\<close>

fun digits :: "nat \<Rightarrow> ustring" where
  "digits n = (if n < 10 then [48 + n] else digits (n div 10) @ [48 + n mod 10])"

text \<open>
  Rounding a real value to the nearest double, ties to the even significand: the value
  of an arithmetic operation on doubles. \<open>bits n\<close> is the length of \<open>n\<close> in binary,
  \<open>binade a\<close> the \<open>e\<close> with \<open>2^e \<le> a < 2^(e+1)\<close> for \<open>a > 0\<close>.
\<close>

fun bits :: "nat \<Rightarrow> nat" where
  "bits n = (if n = 0 then 0 else Suc (bits (n div 2)))"

definition pow2 :: "int \<Rightarrow> rat" where
  "pow2 e = (if 0 \<le> e then 2 ^ nat e else 1 / 2 ^ nat (- e))"

definition binade :: "rat \<Rightarrow> int" where
  "binade a =
     (if 1 \<le> a then int (bits (nat \<lfloor>a\<rfloor>)) - 1
      else - int (bits (nat (\<lceil>1 / a\<rceil> - 1))))"

definition round_half_even :: "rat \<Rightarrow> int" where
  "round_half_even x =
     (let f = \<lfloor>x\<rfloor>; d = x - of_int f
      in if d < 1 / 2 then f else if 1 / 2 < d then f + 1 else if even f then f else f + 1)"

definition round64 :: "rat \<Rightarrow> jsnum" where
  "round64 x =
     (if x = 0 then Fin 0
      else
        (let a = \<bar>x\<bar>;
             p = max (binade a - 52) (- 1074);
             r = of_int (round_half_even (a / pow2 p)) * pow2 p
         in if 2 ^ 1024 \<le> r then (if 0 < x then PInf else NInf)
            else Fin (if 0 < x then r else - r)))"

text \<open>\<open>val / d\<close> for a finite non-zero constant \<open>d\<close>.\<close>

fun num_div :: "jsnum \<Rightarrow> rat \<Rightarrow> jsnum" where
  "num_div (Fin q) d = round64 (q / d)"
| "num_div PInf d = (if 0 < d then PInf else NInf)"
| "num_div NInf d = (if 0 < d then NInf else PInf)"
| "num_div NaN d = NaN"

text \<open>\<open>Math.abs(val) >= b\<close>\<close>

fun abs_ge :: "jsnum \<Rightarrow> rat \<Rightarrow> bool" where
  "abs_ge (Fin q) b = (b \<le> \<bar>q\<bar>)"
| "abs_ge PInf b = True"
| "abs_ge NInf b = True"
| "abs_ge NaN b = False"

text \<open>\<open>Number.isInteger(val)\<close>\<close>

fun isInteger :: "jsnum \<Rightarrow> bool" where
  "isInteger (Fin q) = (q = of_int \<lfloor>q\<rfloor>)"
| "isInteger x = False"

text \<open>
  \<open>Number.prototype.toString\<close> prints the shortest digits that read back as the same
  double. For an integer below \<open>2^53\<close> in absolute value these are its decimal digits
  (its neighbours are doubles too); for the other finite values they are the platform's.
\<close>

fun num_toString :: "platform \<Rightarrow> jsnum \<Rightarrow> ustring" where
  "num_toString pf (Fin q) =
     (if q = of_int \<lfloor>q\<rfloor> \<and> \<bar>q\<bar> < 2 ^ 53
      then (if q < 0 then js ''-'' else []) @ digits (nat \<bar>\<lfloor>q\<rfloor>\<bar>)
      else number_toString pf q)"
| "num_toString pf PInf = js ''Infinity''"
| "num_toString pf NInf = js ''-Infinity''"
| "num_toString pf NaN = js ''NaN''"

text \<open>
  \<open>Number.prototype.toFixed(2)\<close>, after the language definition: the sign; then, for a
  magnitude \<open>x\<close> below \<open>10^21\<close>, the integer \<open>n\<close> nearest to \<open>100 x\<close> (the larger of two),
  all its digits, padded with zeros to three at least, and a point before the last two;
  for a larger magnitude, what \<open>toString\<close> prints.
\<close>

definition fixed2_digits :: "rat \<Rightarrow> ustring" where
  "fixed2_digits x =
     (let m = digits (nat \<lfloor>x * 100 + 1 / 2\<rfloor>);
          m' = replicate (3 - length m) 48 @ m
      in take (length m' - 2) m' @ js ''.'' @ drop (length m' - 2) m')"

fun toFixed2 :: "platform \<Rightarrow> jsnum \<Rightarrow> ustring" where
  "toFixed2 pf (Fin q) =
     (if q < 0 then js ''-'' else []) @
     (if 10 ^ 21 \<le> \<bar>q\<bar> then num_toString pf (Fin \<bar>q\<bar>) else fixed2_digits \<bar>q\<bar>)"
| "toFixed2 pf PInf = js ''Infinity''"
| "toFixed2 pf NInf = js ''-Infinity''"
| "toFixed2 pf NaN = js ''NaN''"

section \<open>Output formatter\<close>

definition formatNumber :: "platform \<Rightarrow> jsnum \<Rightarrow> ustring" where
  "formatNumber pf val =
     (if abs_ge val 1000000 then toFixed2 pf (num_div val 1000000) @ js ''M''
      else if abs_ge val 1000 then toFixed2 pf (num_div val 1000) @ js ''K''
      else if isInteger val then num_toString pf val
      else toFixed2 pf val)"

fun formatValue :: "platform \<Rightarrow> jsval \<Rightarrow> ustring" where
  "formatValue pf JNull = []"
| "formatValue pf JUndefined = []"
| "formatValue pf (JNum val) = formatNumber pf val"
| "formatValue pf (JArray xs ps) = JSON_stringify pf (JArray xs ps)"
| "formatValue pf (JObj kvs) = JSON_stringify pf (JObj kvs)"
| "formatValue pf (JStr s) = s"
| "formatValue pf (JBool b) = (if b then js ''true'' else js ''false'')"
| "formatValue pf (JFunc f ps) = function_toString pf f"


subsection \<open>Property reads\<close>

text \<open>
  The own property names of \<open>Object.prototype\<close>. Every object literal and every object
  made by \<open>JSON.parse\<close> inherits them, so \<open>obj[name]\<close> finds them when \<open>obj\<close> has no
  own property of that name.
\<close>

definition object_prototype_names :: "ustring list" where
  "object_prototype_names =
     [js ''constructor'', js ''__defineGetter__'', js ''__defineSetter__'',
      js ''hasOwnProperty'', js ''__lookupGetter__'', js ''__lookupSetter__'',
      js ''isPrototypeOf'', js ''propertyIsEnumerable'', js ''toString'', js ''valueOf'',
      js ''__proto__'', js ''toLocaleString'']"

definition object_member :: "ustring \<Rightarrow> jsval" where
  "object_member k =
     (if k = proto_key then JObj []
      else if k \<in> set object_prototype_names then JFunction k
      else JUndefined)"

text \<open>
  \<open>v[k]\<close> for a \<open>v\<close> that is neither \<open>null\<close> nor \<open>undefined\<close>. An array or a function
  answers with the property of that name that was assigned to it, if there is one. What
  it answers otherwise, and what a string, a number or a boolean answers, is the
  platform's.
\<close>

definition get_property :: "platform \<Rightarrow> jsval \<Rightarrow> ustring \<Rightarrow> jsval" where
  "get_property pf v k =
     (case v of
        JObj kvs \<Rightarrow> (case map_of kvs k of Some x \<Rightarrow> x | None \<Rightarrow> object_member k)
      | JArray xs ps \<Rightarrow> (case map_of ps k of Some x \<Rightarrow> x | None \<Rightarrow> get_inherited pf v k)
      | JFunc f ps \<Rightarrow> (case map_of ps k of Some x \<Rightarrow> x | None \<Rightarrow> get_inherited pf v k)
      | _ \<Rightarrow> get_inherited pf v k)"

text \<open>\<open>v?.k\<close>\<close>

definition get_optional :: "platform \<Rightarrow> jsval \<Rightarrow> ustring \<Rightarrow> jsval" where
  "get_optional pf v k =
     (case v of JUndefined \<Rightarrow> JUndefined | JNull \<Rightarrow> JUndefined | _ \<Rightarrow> get_property pf v k)"

fun isArray :: "jsval \<Rightarrow> bool" where
  "isArray (JArray xs ps) = True"
| "isArray v = False"

fun elements :: "jsval \<Rightarrow> jsval list" where
  "elements (JArray xs ps) = xs"
| "elements v = []"

text \<open>\<open>String(v)\<close> and \<open>`${v}`\<close>\<close>

fun String_of :: "platform \<Rightarrow> jsval \<Rightarrow> ustring" where
  "String_of pf (JStr s) = s"
| "String_of pf JUndefined = js ''undefined''"
| "String_of pf JNull = js ''null''"
| "String_of pf (JBool b) = (if b then js ''true'' else js ''false'')"
| "String_of pf (JNum x) = num_toString pf x"
| "String_of pf (JFunc f ps) = function_toString pf f"
| "String_of pf (JArray xs ps) = String_object pf (JArray xs ps)"
| "String_of pf (JObj kvs) = String_object pf (JObj kvs)"

subsection \<open>Table\<close>

text \<open>The record sequence taken from the response, in the order of the tests.\<close>

definition extract_records :: "platform \<Rightarrow> jsval \<Rightarrow> jsval list" where
  "extract_records pf data =
     (let d = get_optional pf data (js ''data'');
          r = get_optional pf data (js ''results'');
          dr = get_optional pf d (js ''results'')
      in if isArray data then elements data
         else if truthy d \<and> isArray d then elements d
         else if truthy r \<and> isArray r then elements r
         else if truthy dr \<and> isArray dr then elements dr
         else (case data of JObj kvs \<Rightarrow> [data] | _ \<Rightarrow> []))"

text \<open>
  \<open>Object.keys(r)\<close>: the indices of an array or a string, then the names of the other
  properties; none for a number or a boolean; \<open>null\<close> and \<open>undefined\<close> throw.
\<close>

fun keys_of :: "jsval \<Rightarrow> exn + ustring list" where
  "keys_of (JObj kvs) = Inr (map fst kvs)"
| "keys_of (JArray xs ps) = Inr (map digits [0..<length xs] @ map fst ps)"
| "keys_of (JFunc f ps) = Inr (map fst ps)"
| "keys_of (JStr s) = Inr (map digits [0..<length s])"
| "keys_of JNull = Inl (TypeError ObjectKeys JNull)"
| "keys_of JUndefined = Inl (TypeError ObjectKeys JUndefined)"
| "keys_of (JBool b) = Inr []"
| "keys_of (JNum x) = Inr []"

text \<open>\<open>records.flatMap(r => Object.keys(r))\<close>\<close>

fun flat_keys :: "jsval list \<Rightarrow> exn + ustring list" where
  "flat_keys [] = Inr []"
| "flat_keys (r # rs) =
     (case keys_of r of
        Inl e \<Rightarrow> Inl e
      | Inr ks \<Rightarrow> (case flat_keys rs of Inl e \<Rightarrow> Inl e | Inr ks' \<Rightarrow> Inr (ks @ ks')))"

text \<open>\<open>[...new Set(xs)]\<close>: the first occurrence of each element, in order.\<close>

definition uniq :: "'a list \<Rightarrow> 'a list" where
  "uniq xs = rev (remdups (rev xs))"

definition priorityFields :: "ustring list" where
  "priorityFields =
     [js ''token_symbol'', js ''token_name'', js ''symbol'', js ''name'', js ''address'',
      js ''label'', js ''chain'', js ''value_usd'', js ''amount'', js ''pnl_usd'',
      js ''price_usd'', js ''volume_usd'', js ''net_flow_usd'', js ''timestamp'',
      js ''block_timestamp'']"

text \<open>\<open>xs.indexOf(x)\<close>, with \<open>None\<close> for \<open>-1\<close>.\<close>

fun indexOf :: "'a list \<Rightarrow> 'a \<Rightarrow> nat option" where
  "indexOf [] x = None"
| "indexOf (y # ys) x = (if x = y then Some 0 else map_option Suc (indexOf ys x))"

definition compare_columns :: "platform \<Rightarrow> ustring \<Rightarrow> ustring \<Rightarrow> int" where
  "compare_columns pf a b =
     (case (indexOf priorityFields a, indexOf priorityFields b) of
        (Some aIdx, Some bIdx) \<Rightarrow> int aIdx - int bIdx
      | (Some aIdx, None) \<Rightarrow> - 1
      | (None, Some bIdx) \<Rightarrow> 1
      | (None, None) \<Rightarrow> localeCompare pf a b)"

text \<open>
  \<open>Array.prototype.sort\<close> with a comparator is stable: for a consistent comparator the
  result is the one that insertion gives.
\<close>

fun insert_by :: "('a \<Rightarrow> 'a \<Rightarrow> int) \<Rightarrow> 'a \<Rightarrow> 'a list \<Rightarrow> 'a list" where
  "insert_by cmp x [] = [x]"
| "insert_by cmp x (y # ys) = (if cmp x y \<le> 0 then x # y # ys else y # insert_by cmp x ys)"

definition sort_by :: "('a \<Rightarrow> 'a \<Rightarrow> int) \<Rightarrow> 'a list \<Rightarrow> 'a list" where
  "sort_by cmp xs = foldr (insert_by cmp) xs []"

definition padEnd :: "nat \<Rightarrow> ustring \<Rightarrow> ustring" where
  "padEnd w s = s @ replicate (w - length s) 32"

fun join :: "ustring \<Rightarrow> ustring list \<Rightarrow> ustring" where
  "join sep [] = []"
| "join sep [x] = x"
| "join sep (x # y # ys) = x @ sep @ join sep (y # ys)"

text \<open>The separators \<open>' \<bar> '\<close>, \<open>'-'\<close> and \<open>'-+-'\<close> of the source are box-drawing characters.\<close>

definition column_separator :: ustring where
  "column_separator = [32, 9474, 32]"

definition rule_separator :: ustring where
  "rule_separator = [9472, 9532, 9472]"

definition columns_of :: "platform \<Rightarrow> ustring list \<Rightarrow> ustring list" where
  "columns_of pf allKeys = take 8 (sort_by (compare_columns pf) allKeys)"

definition width_of :: "platform \<Rightarrow> jsval list \<Rightarrow> ustring \<Rightarrow> nat" where
  "width_of pf records col =
     min (max (length col)
              (foldr max (map (\<lambda>r. length (formatValue pf (get_property pf r col))) records) 0))
         30"

definition header_line :: "ustring list \<Rightarrow> nat list \<Rightarrow> ustring" where
  "header_line columns widths =
     join column_separator (map (\<lambda>(col, w). padEnd w col) (zip columns widths))"

definition rule_line :: "nat list \<Rightarrow> ustring" where
  "rule_line widths = join rule_separator (map (\<lambda>w. replicate w 9472) widths)"

definition row_line :: "platform \<Rightarrow> ustring list \<Rightarrow> nat list \<Rightarrow> jsval \<Rightarrow> ustring" where
  "row_line pf columns widths record =
     join column_separator
       (map (\<lambda>(col, w). padEnd w (take w (formatValue pf (get_property pf record col))))
            (zip columns widths))"

definition more_line :: "nat \<Rightarrow> ustring" where
  "more_line n = js ''... and '' @ digits (n - 50) @ js '' more rows''"

text \<open>The columns chosen for a non-empty record sequence, and the lines of its table.\<close>

definition table_columns :: "platform \<Rightarrow> jsval list \<Rightarrow> exn + ustring list" where
  "table_columns pf records =
     (case flat_keys records of
        Inl e \<Rightarrow> Inl e
      | Inr keys \<Rightarrow> Inr (columns_of pf (uniq keys)))"

definition table_lines :: "platform \<Rightarrow> jsval list \<Rightarrow> exn + ustring list" where
  "table_lines pf records =
     (case table_columns pf records of
        Inl e \<Rightarrow> Inl e
      | Inr columns \<Rightarrow>
          (let widths = map (width_of pf records) columns
           in Inr ([header_line columns widths, rule_line widths]
                   @ map (row_line pf columns widths) (take 50 records)
                   @ (if 50 < length records then [more_line (length records)] else []))))"

definition formatTable :: "platform \<Rightarrow> jsval \<Rightarrow> exn + ustring" where
  "formatTable pf data =
     (let records = extract_records pf data
      in if length records = 0 then Inr (js ''No data'')
         else (case table_lines pf records of
                 Inl e \<Rightarrow> Inl e
               | Inr lines \<Rightarrow> Inr (join [10] lines)))"

subsection \<open>Envelope\<close>

text \<open>An object literal with the given properties.\<close>

definition obj :: "(string \<times> jsval) list \<Rightarrow> jsval" where
  "obj kvs = JObj (map (\<lambda>(k, v). (js k, v)) kvs)"

text \<open>\<open>formatOutput(data, { pretty, table })\<close> gives \<open>{ type, text }\<close>.\<close>

definition formatOutput :: "platform \<Rightarrow> jsval \<Rightarrow> bool \<Rightarrow> bool \<Rightarrow> exn + (ustring \<times> ustring)" where
  "formatOutput pf data pretty table =
     (if table then
        (if data = JNull \<or> data = JUndefined then Inl (TypeError ReadProperty data)
         else if get_property pf data (js ''success'') = JBool False
           then Inr (js ''error'', js ''Error: '' @ String_of pf (get_property pf data (js ''error'')))
         else (case formatTable pf (js_or (get_property pf data (js ''data'')) data) of
                 Inl e \<Rightarrow> Inl e
               | Inr text \<Rightarrow> Inr (js ''table'', text)))
      else if pretty then Inr (js ''json'', JSON_stringify_pretty pf data)
      else Inr (js ''json'', JSON_stringify pf data))"

text \<open>\<open>formatError(error)\<close>\<close>

definition formatError :: "platform \<Rightarrow> exn \<Rightarrow> exn + jsval" where
  "formatError pf error =
     (case error of
        TypeError s v \<Rightarrow>
          Inr (obj [(''success'', JBool False), (''error'', JStr (type_error_message pf s v)),
                    (''code'', JStr (js ''UNKNOWN'')), (''status'', JNull), (''details'', JNull)])
      | Rejected err \<Rightarrow>
          (if err = JNull \<or> err = JUndefined then Inl (TypeError ReadProperty err)
           else Inr (obj [(''success'', JBool False),
                          (''error'', get_property pf err (js ''message'')),
                          (''code'', js_or (get_property pf err (js ''code'')) (JStr (js ''UNKNOWN''))),
                          (''status'', js_or (get_property pf err (js ''status'')) JNull),
                          (''details'', js_or (get_property pf err (js ''data'')) JNull)])))"


section \<open>Command handlers\<close>

text \<open>
  A handler reads its \<open>flags\<close> and \<open>options\<close> arguments by property name only, so each
  is modelled by what its property reads answer (\<open>undefined\<close> for a missing property).
  The one object a handler writes to is the one bound to \<open>filters\<close>. When
  \<open>options.filters\<close> is truthy that object is \<open>options.filters\<close> itself, so the write
  shows through \<open>options\<close>: a handler returns, with its outcome, what the property reads
  of \<open>options\<close> answer afterwards.
\<close>

type_synonym view = "ustring \<Rightarrow> jsval"

text \<open>
  What a handler does: it returns a value without touching the API instance, or it
  calls one method of the API instance with one argument and returns that call's
  result, or it throws.
\<close>

datatype outcome = Returned jsval | ApiCall ustring jsval | Threw exn

text \<open>\<open>args[0] || 'help'\<close>\<close>

definition subcommand_of :: "ustring list \<Rightarrow> ustring" where
  "subcommand_of args =
     (case args of [] \<Rightarrow> js ''help'' | a # _ \<Rightarrow> (if a = [] then js ''help'' else a))"

text \<open>\<open>options.limit ? { page: 1, [per]: options.limit } : undefined\<close>\<close>

definition pagination_of :: "string \<Rightarrow> view \<Rightarrow> jsval" where
  "pagination_of per opts =
     (if truthy (opts (js ''limit''))
      then obj [(''page'', JNum (Fin 1)), (per, opts (js ''limit''))]
      else JUndefined)"

text \<open>\<open>options.days ? parseInt(options.days) : 30\<close>\<close>

definition days_of :: "platform \<Rightarrow> view \<Rightarrow> exn + jsval" where
  "days_of pf opts =
     (if truthy (opts (js ''days'')) then parseInt pf (opts (js ''days''))
      else Inr (JNum (Fin 30)))"

text \<open>
  \<open>target[k] = v\<close> in strict mode, for a key \<open>k\<close> that is not an array index nor the
  name of a built-in property of arrays or functions (the handlers use
  \<open>include_smart_money_labels\<close> and \<open>only_smart_money\<close>): an object, an array or a
  function gets or updates the property; a primitive throws.
\<close>

fun put :: "ustring \<Rightarrow> jsval \<Rightarrow> (ustring \<times> jsval) list \<Rightarrow> (ustring \<times> jsval) list" where
  "put k v [] = [(k, v)]"
| "put k v ((k', v') # kvs) = (if k' = k then (k, v) # kvs else (k', v') # put k v kvs)"

fun assign_property :: "jsval \<Rightarrow> ustring \<Rightarrow> jsval \<Rightarrow> exn + jsval" where
  "assign_property (JObj kvs) k v = Inr (JObj (put k v kvs))"
| "assign_property (JArray xs ps) k v = Inr (JArray xs (put k v ps))"
| "assign_property (JFunc f ps) k v = Inr (JFunc f (put k v ps))"
| "assign_property target k v = Inl (TypeError FiltersAssign target)"

text \<open>
  \<open>handlers[name]()\<close> for a \<open>name\<close> that the table does not have but \<open>Object.prototype\<close>
  has: the inherited member is called, with the table as \<open>this\<close> and no argument.
\<close>

definition call_inherited :: "ustring list \<Rightarrow> ustring \<Rightarrow> outcome" where
  "call_inherited names name =
     (if name = js ''constructor'' then Returned (JObj [])
      else if name = js ''toString'' \<or> name = js ''toLocaleString''
        then Returned (JStr (js ''[object Object]''))
      else if name = js ''valueOf'' then Returned (JObj (map (\<lambda>n. (n, JFunction n)) names))
      else if name = js ''hasOwnProperty'' \<or> name = js ''isPrototypeOf''
              \<or> name = js ''propertyIsEnumerable''
        then Returned (JBool False)
      else if name = js ''__lookupGetter__'' \<or> name = js ''__lookupSetter__''
        then Returned JUndefined
      else Threw (TypeError HandlerCall (object_member name)))"

text \<open>
  \<open>if (!handlers[subcommand]) return {error, available}; return handlers[subcommand]()\<close>.
  A table entry is given by what calling it does.
\<close>

definition dispatch :: "(string \<times> outcome) list \<Rightarrow> ustring \<Rightarrow> outcome" where
  "dispatch handlers subcommand =
     (case map_of (map (\<lambda>(n, h). (js n, h)) handlers) subcommand of
        Some h \<Rightarrow> h
      | None \<Rightarrow>
          (if truthy (object_member subcommand)
           then call_inherited (map (js \<circ> fst) handlers) subcommand
           else Returned (obj [(''error'', JStr (js ''Unknown subcommand: '' @ subcommand)),
                               (''available'', JArr (map (JStr \<circ> js \<circ> fst) handlers))])))"

definition help_object :: "string list \<Rightarrow> string \<Rightarrow> string \<Rightarrow> outcome" where
  "help_object commands description example =
     Returned (obj [(''commands'', JArr (map (JStr \<circ> js) commands)),
                    (''description'', JStr (js description)),
                    (''example'', JStr (js example))])"

subsection \<open>smart-money\<close>

definition smart_money_handlers ::
  "jsval \<Rightarrow> jsval \<Rightarrow> jsval \<Rightarrow> jsval \<Rightarrow> jsval \<Rightarrow> (string \<times> outcome) list" where
  "smart_money_handlers chains' filters orderBy pagination days =
     [(''netflow'', ApiCall (js ''smartMoneyNetflow'')
         (obj [(''chains'', chains'), (''filters'', filters), (''orderBy'', orderBy),
               (''pagination'', pagination)])),
      (''dex-trades'', ApiCall (js ''smartMoneyDexTrades'')
         (obj [(''chains'', chains'), (''filters'', filters), (''orderBy'', orderBy),
               (''pagination'', pagination)])),
      (''perp-trades'', ApiCall (js ''smartMoneyPerpTrades'')
         (obj [(''filters'', filters), (''orderBy'', orderBy), (''pagination'', pagination)])),
      (''holdings'', ApiCall (js ''smartMoneyHoldings'')
         (obj [(''chains'', chains'), (''filters'', filters), (''orderBy'', orderBy),
               (''pagination'', pagination)])),
      (''dcas'', ApiCall (js ''smartMoneyDcas'')
         (obj [(''filters'', filters), (''orderBy'', orderBy), (''pagination'', pagination)])),
      (''historical-holdings'', ApiCall (js ''smartMoneyHistoricalHoldings'')
         (obj [(''chains'', chains'), (''filters'', filters), (''orderBy'', orderBy),
               (''pagination'', pagination), (''days'', days)])),
      (''help'', help_object
         [''netflow'', ''dex-trades'', ''perp-trades'', ''holdings'', ''dcas'',
          ''historical-holdings'']
         ''Smart Money analytics endpoints''
         ''nansen smart-money netflow --chain solana --labels Fund'')]"

text \<open>
  \<open>if (options.labels) filters.include_smart_money_labels =
     Array.isArray(options.labels) ? options.labels : [options.labels]\<close>
\<close>

definition add_labels :: "view \<Rightarrow> jsval \<Rightarrow> exn + jsval" where
  "add_labels opts filters =
     (let labels = opts (js ''labels'')
      in if truthy labels
         then assign_property filters (js ''include_smart_money_labels'')
                (if isArray labels then labels else JArr [labels])
         else Inr filters)"

text \<open>What \<open>options\<close> answers after the object bound to \<open>filters\<close> has become \<open>filters'\<close>.\<close>

definition after_write :: "view \<Rightarrow> jsval \<Rightarrow> view" where
  "after_write opts filters' =
     (if truthy (opts (js ''filters'')) then opts(js ''filters'' := filters') else opts)"

definition smart_money :: "platform \<Rightarrow> ustring list \<Rightarrow> view \<Rightarrow> view \<Rightarrow> outcome \<times> view" where
  "smart_money pf args flgs opts =
     (let subcommand = subcommand_of args;
          chain = js_or (opts (js ''chain'')) (JStr (js ''solana''));
          chains' = js_or (opts (js ''chains'')) (JArr [chain]);
          filters = js_or (opts (js ''filters'')) (JObj [])
      in case parseSort pf (opts (js ''sort'')) (opts (js ''order-by'')) of
           Inl e \<Rightarrow> (Threw e, opts)
         | Inr orderBy \<Rightarrow>
             (let pagination = pagination_of ''per_page'' opts
              in case add_labels opts filters of
                   Inl e \<Rightarrow> (Threw e, opts)
                 | Inr filters' \<Rightarrow>
                     (case days_of pf opts of
                        Inl e \<Rightarrow> (Threw e, after_write opts filters')
                      | Inr days \<Rightarrow>
                          (dispatch (smart_money_handlers chains' filters' orderBy pagination days)
                             subcommand,
                           after_write opts filters'))))"

subsection \<open>profiler\<close>

definition profiler_handlers ::
  "view \<Rightarrow> jsval \<Rightarrow> jsval \<Rightarrow> jsval \<Rightarrow> jsval \<Rightarrow> jsval \<Rightarrow> jsval \<Rightarrow> jsval
   \<Rightarrow> (string \<times> outcome) list" where
  "profiler_handlers opts address entityName chain filters orderBy pagination days =
     [(''balance'', ApiCall (js ''addressBalance'')
         (obj [(''address'', address), (''entityName'', entityName), (''chain'', chain),
               (''filters'', filters), (''orderBy'', orderBy)])),
      (''labels'', ApiCall (js ''addressLabels'')
         (obj [(''address'', address), (''chain'', chain), (''pagination'', pagination)])),
      (''transactions'', ApiCall (js ''addressTransactions'')
         (obj [(''address'', address), (''chain'', chain), (''filters'', filters),
               (''orderBy'', orderBy), (''pagination'', pagination)])),
      (''pnl'', ApiCall (js ''addressPnl'')
         (obj [(''address'', address), (''chain'', chain)])),
      (''search'', ApiCall (js ''entitySearch'')
         (obj [(''query'', opts (js ''query'')), (''pagination'', pagination)])),
      (''historical-balances'', ApiCall (js ''addressHistoricalBalances'')
         (obj [(''address'', address), (''chain'', chain), (''filters'', filters),
               (''orderBy'', orderBy), (''pagination'', pagination), (''days'', days)])),
      (''related-wallets'', ApiCall (js ''addressRelatedWallets'')
         (obj [(''address'', address), (''chain'', chain), (''filters'', filters),
               (''orderBy'', orderBy), (''pagination'', pagination)])),
      (''counterparties'', ApiCall (js ''addressCounterparties'')
         (obj [(''address'', address), (''chain'', chain), (''filters'', filters),
               (''orderBy'', orderBy), (''pagination'', pagination), (''days'', days)])),
      (''pnl-summary'', ApiCall (js ''addressPnlSummary'')
         (obj [(''address'', address), (''chain'', chain), (''filters'', filters),
               (''orderBy'', orderBy), (''pagination'', pagination), (''days'', days)])),
      (''perp-positions'', ApiCall (js ''addressPerpPositions'')
         (obj [(''address'', address), (''filters'', filters), (''orderBy'', orderBy),
               (''pagination'', pagination)])),
      (''perp-trades'', ApiCall (js ''addressPerpTrades'')
         (obj [(''address'', address), (''filters'', filters), (''orderBy'', orderBy),
               (''pagination'', pagination), (''days'', days)])),
      (''help'', help_object
         [''balance'', ''labels'', ''transactions'', ''pnl'', ''search'', ''historical-balances'',
          ''related-wallets'', ''counterparties'', ''pnl-summary'', ''perp-positions'',
          ''perp-trades'']
         ''Wallet profiling endpoints''
         ''nansen profiler balance --address 0x123... --chain ethereum'')]"

definition profiler :: "platform \<Rightarrow> ustring list \<Rightarrow> view \<Rightarrow> view \<Rightarrow> outcome \<times> view" where
  "profiler pf args flgs opts =
     (let subcommand = subcommand_of args;
          address = opts (js ''address'');
          entityName = js_or (opts (js ''entity'')) (opts (js ''entity-name''));
          chain = js_or (opts (js ''chain'')) (JStr (js ''ethereum''));
          filters = js_or (opts (js ''filters'')) (JObj [])
      in case parseSort pf (opts (js ''sort'')) (opts (js ''order-by'')) of
           Inl e \<Rightarrow> (Threw e, opts)
         | Inr orderBy \<Rightarrow>
             (let pagination = pagination_of ''recordsPerPage'' opts
              in case days_of pf opts of
                   Inl e \<Rightarrow> (Threw e, opts)
                 | Inr days \<Rightarrow>
                     (dispatch (profiler_handlers opts address entityName chain filters
                                  orderBy pagination days) subcommand,
                      opts)))"


subsection \<open>token\<close>

definition token_handlers ::
  "jsval \<Rightarrow> jsval \<Rightarrow> jsval \<Rightarrow> jsval \<Rightarrow> jsval \<Rightarrow> jsval \<Rightarrow> jsval \<Rightarrow> jsval \<Rightarrow> jsval
   \<Rightarrow> jsval \<Rightarrow> (string \<times> outcome) list" where
  "token_handlers tokenAddress tokenSymbol chain chains' timeframe filters orderBy pagination
     days onlySmartMoney =
     [(''screener'', ApiCall (js ''tokenScreener'')
         (obj [(''chains'', chains'), (''timeframe'', timeframe), (''filters'', filters),
               (''orderBy'', orderBy), (''pagination'', pagination)])),
      (''holders'', ApiCall (js ''tokenHolders'')
         (obj [(''tokenAddress'', tokenAddress), (''chain'', chain), (''filters'', filters),
               (''orderBy'', orderBy), (''pagination'', pagination)])),
      (''flows'', ApiCall (js ''tokenFlows'')
         (obj [(''tokenAddress'', tokenAddress), (''chain'', chain), (''filters'', filters),
               (''orderBy'', orderBy), (''pagination'', pagination)])),
      (''dex-trades'', ApiCall (js ''tokenDexTrades'')
         (obj [(''tokenAddress'', tokenAddress), (''chain'', chain),
               (''onlySmartMoney'', onlySmartMoney), (''filters'', filters),
               (''orderBy'', orderBy), (''pagination'', pagination), (''days'', days)])),
      (''pnl'', ApiCall (js ''tokenPnlLeaderboard'')
         (obj [(''tokenAddress'', tokenAddress), (''chain'', chain), (''filters'', filters),
               (''orderBy'', orderBy), (''pagination'', pagination), (''days'', days)])),
      (''who-bought-sold'', ApiCall (js ''tokenWhoBoughtSold'')
         (obj [(''tokenAddress'', tokenAddress), (''chain'', chain), (''filters'', filters),
               (''orderBy'', orderBy), (''pagination'', pagination)])),
      (''flow-intelligence'', ApiCall (js ''tokenFlowIntelligence'')
         (obj [(''tokenAddress'', tokenAddress), (''chain'', chain), (''filters'', filters),
               (''orderBy'', orderBy), (''pagination'', pagination)])),
      (''transfers'', ApiCall (js ''tokenTransfers'')
         (obj [(''tokenAddress'', tokenAddress), (''chain'', chain), (''filters'', filters),
               (''orderBy'', orderBy), (''pagination'', pagination), (''days'', days)])),
      (''jup-dca'', ApiCall (js ''tokenJupDca'')
         (obj [(''tokenAddress'', tokenAddress), (''filters'', filters), (''orderBy'', orderBy),
               (''pagination'', pagination)])),
      (''perp-trades'', ApiCall (js ''tokenPerpTrades'')
         (obj [(''tokenSymbol'', tokenSymbol), (''filters'', filters), (''orderBy'', orderBy),
               (''pagination'', pagination), (''days'', days)])),
      (''perp-positions'', ApiCall (js ''tokenPerpPositions'')
         (obj [(''tokenSymbol'', tokenSymbol), (''filters'', filters), (''orderBy'', orderBy),
               (''pagination'', pagination)])),
      (''perp-pnl-leaderboard'', ApiCall (js ''tokenPerpPnlLeaderboard'')
         (obj [(''tokenSymbol'', tokenSymbol), (''filters'', filters), (''orderBy'', orderBy),
               (''pagination'', pagination), (''days'', days)])),
      (''help'', help_object
         [''screener'', ''holders'', ''flows'', ''dex-trades'', ''pnl'', ''who-bought-sold'',
          ''flow-intelligence'', ''transfers'', ''jup-dca'', ''perp-trades'', ''perp-positions'',
          ''perp-pnl-leaderboard'']
         ''Token God Mode endpoints''
         ''nansen token screener --chain solana --timeframe 24h --smart-money'')]"

text \<open>\<open>if (onlySmartMoney) filters.only_smart_money = true\<close>\<close>

definition add_only_smart_money :: "jsval \<Rightarrow> jsval \<Rightarrow> exn + jsval" where
  "add_only_smart_money onlySmartMoney filters =
     (if truthy onlySmartMoney
      then assign_property filters (js ''only_smart_money'') (JBool True)
      else Inr filters)"

definition token :: "platform \<Rightarrow> ustring list \<Rightarrow> view \<Rightarrow> view \<Rightarrow> outcome \<times> view" where
  "token pf args flgs opts =
     (let subcommand = subcommand_of args;
          tokenAddress = js_or (opts (js ''token'')) (opts (js ''token-address''));
          tokenSymbol = js_or (opts (js ''symbol'')) (opts (js ''token-symbol''));
          chain = js_or (opts (js ''chain'')) (JStr (js ''solana''));
          chains' = js_or (opts (js ''chains'')) (JArr [chain]);
          timeframe = js_or (opts (js ''timeframe'')) (JStr (js ''24h''));
          filters = js_or (opts (js ''filters'')) (JObj [])
      in case parseSort pf (opts (js ''sort'')) (opts (js ''order-by'')) of
           Inl e \<Rightarrow> (Threw e, opts)
         | Inr orderBy \<Rightarrow>
             (let pagination = pagination_of ''per_page'' opts
              in case days_of pf opts of
                   Inl e \<Rightarrow> (Threw e, opts)
                 | Inr days \<Rightarrow>
                     (let onlySmartMoney =
                            js_or (js_or (opts (js ''smart-money'')) (flgs (js ''smart-money'')))
                                  (JBool False)
                      in case add_only_smart_money onlySmartMoney filters of
                           Inl e \<Rightarrow> (Threw e, opts)
                         | Inr filters' \<Rightarrow>
                             (dispatch (token_handlers tokenAddress tokenSymbol chain chains'
                                          timeframe filters' orderBy pagination days
                                          onlySmartMoney) subcommand,
                              after_write opts filters'))))"

subsection \<open>portfolio\<close>

definition portfolio_handlers :: "jsval \<Rightarrow> (string \<times> outcome) list" where
  "portfolio_handlers walletAddress =
     [(''defi'', ApiCall (js ''portfolioDefiHoldings'') (obj [(''walletAddress'', walletAddress)])),
      (''defi-holdings'',
         ApiCall (js ''portfolioDefiHoldings'') (obj [(''walletAddress'', walletAddress)])),
      (''help'', help_object [''defi'', ''defi-holdings'']
         ''Portfolio analytics endpoints''
         ''nansen portfolio defi --wallet 0x123...'')]"

definition portfolio :: "platform \<Rightarrow> ustring list \<Rightarrow> view \<Rightarrow> view \<Rightarrow> outcome \<times> view" where
  "portfolio pf args flgs opts =
     (let subcommand = subcommand_of args;
          walletAddress = js_or (opts (js ''wallet'')) (opts (js ''address''))
      in (dispatch (portfolio_handlers walletAddress) subcommand, opts))"

section \<open>Command router\<close>

text \<open>What the property reads of the parsed \<open>flags\<close> and \<open>options\<close> objects answer.\<close>

definition flag_view :: "ParsedArgs \<Rightarrow> view" where
  "flag_view pa k = (case flags pa k of Some b \<Rightarrow> JBool b | None \<Rightarrow> object_member k)"

definition option_view :: "platform \<Rightarrow> ParsedArgs \<Rightarrow> view" where
  "option_view pf pa k =
     (case options pa k of
        Some v \<Rightarrow> v
      | None \<Rightarrow>
          (case options_proto pa of
             None \<Rightarrow> object_member k
           | Some p \<Rightarrow> get_optional pf p k))"

text \<open>
  The API client class is injected (\<open>deps.NansenAPIClass\<close>). \<open>new NansenAPIClass(...)\<close>,
  with the list of its arguments, throws or gives an instance, which is an object and
  not a function; a method of the instance, called with one argument, rejects or
  resolves.
\<close>

type_synonym api = "ustring \<Rightarrow> jsval \<Rightarrow> exn + jsval"

type_synonym api_class = "jsval list \<Rightarrow> exn + api"

text \<open>
  The login command: no key, or a blank one, ends with \<open>exit(1)\<close>; otherwise the key
  is tried on one request and saved, and whatever is thrown on the way is caught and
  ends with \<open>exit(1)\<close> as well. The handler gives the status passed to \<open>exit\<close>, if it
  is called; what it logs and saves is not part of the result. An exception leaves
  the handler when the prompt rejects, or when the value caught is \<open>null\<close> or
  \<open>undefined\<close>, whose \<open>message\<close> cannot be read.
\<close>

definition validate_key :: "platform \<Rightarrow> api_class \<Rightarrow> ustring \<Rightarrow> exn option" where
  "validate_key pf NansenAPIClass key =
     (case NansenAPIClass [JStr key] of
        Inl e \<Rightarrow> Some e
      | Inr testApi \<Rightarrow>
          (case testApi (js ''tokenScreener'')
                  (obj [(''chains'', JArr [JStr (js ''solana'')]),
                        (''pagination'', obj [(''page'', JNum (Fin 1)),
                                              (''per_page'', JNum (Fin 1))])]) of
             Inl e \<Rightarrow> Some e
           | Inr r \<Rightarrow>
               (case saveConfigFn pf (obj [(''apiKey'', JStr key),
                                           (''baseUrl'', JStr (js ''https://api.nansen.ai''))]) of
                  Some e \<Rightarrow> Some e
                | None \<Rightarrow> (case getConfigFileFn pf of Inl e \<Rightarrow> Some e | Inr f \<Rightarrow> None))))"

definition login :: "platform \<Rightarrow> api_class \<Rightarrow> exn + nat option" where
  "login pf NansenAPIClass =
     (case promptFn pf of
        Inl e \<Rightarrow> Inl e
      | Inr apiKey \<Rightarrow>
          (if apiKey = [] \<or> length (trim pf apiKey) = 0 then Inr (Some 1)
           else (case validate_key pf NansenAPIClass (trim pf apiKey) of
                   None \<Rightarrow> Inr None
                 | Some (Rejected err) \<Rightarrow>
                     (if err = JNull \<or> err = JUndefined then Inl (TypeError ReadProperty err)
                      else Inr (Some 1))
                 | Some (TypeError s v) \<Rightarrow> Inr (Some 1))))"

text \<open>The logout command never calls \<open>exit\<close>.\<close>

definition logout :: "platform \<Rightarrow> exn + nat option" where
  "logout pf =
     (case deleteConfigFn pf of
        Inl e \<Rightarrow> Inl e
      | Inr deleted \<Rightarrow>
          (if truthy deleted
           then (case getConfigFileFn pf of Inl e \<Rightarrow> Inl e | Inr f \<Rightarrow> Inr None)
           else Inr None))"

text \<open>
  What a run of \<open>runCLI\<close> does. \<open>Help\<close>: the help text goes to the output.
  \<open>UnknownCommand\<close>: the error data and its text go to the output, \<open>exit(1)\<close>.
  \<open>NoAuth\<close>: the login or logout handler has run, with the status it passed to \<open>exit\<close>,
  if any. \<open>Success\<close> and \<open>Failure\<close>: the retry options given to the client class, the
  API calls made, the data, and the text printed (to the output, or to the error output
  followed by \<open>exit(1)\<close>). \<open>Uncaught\<close>: an exception leaves \<open>runCLI\<close>.
\<close>

datatype run =
    Help
  | UnknownCommand jsval ustring
  | NoAuth ustring "nat option"
  | Success jsval "(ustring \<times> jsval) list" jsval ustring
  | Failure jsval "(ustring \<times> jsval) list" jsval ustring
  | Uncaught exn

text \<open>The status with which \<open>exit\<close> is called, if it is.\<close>

fun exit_status :: "run \<Rightarrow> nat option" where
  "exit_status Help = None"
| "exit_status (UnknownCommand d t) = Some 1"
| "exit_status (NoAuth c status) = status"
| "exit_status (Success r c d t) = None"
| "exit_status (Failure r c d t) = Some 1"
| "exit_status (Uncaught e) = None"

text \<open>The \<open>maxRetries\<close> given to the client class, if one is constructed.\<close>

fun maxRetries :: "platform \<Rightarrow> run \<Rightarrow> jsval option" where
  "maxRetries pf (Success r c d t) = Some (get_property pf r (js ''maxRetries''))"
| "maxRetries pf (Failure r c d t) = Some (get_property pf r (js ''maxRetries''))"
| "maxRetries pf x = None"

text \<open>The \<open>catch\<close> block.\<close>

definition failure ::
  "platform \<Rightarrow> bool \<Rightarrow> bool \<Rightarrow> jsval \<Rightarrow> (ustring \<times> jsval) list \<Rightarrow> exn \<Rightarrow> run" where
  "failure pf pretty table retryOptions calls error =
     (case formatError pf error of
        Inl e \<Rightarrow> Uncaught e
      | Inr errorData \<Rightarrow>
          (case formatOutput pf errorData pretty table of
             Inl e \<Rightarrow> Uncaught e
           | Inr formatted \<Rightarrow> Failure retryOptions calls errorData (snd formatted)))"

text \<open>The end of the \<open>try\<close> block, once the handler's result has arrived.\<close>

definition success ::
  "platform \<Rightarrow> bool \<Rightarrow> bool \<Rightarrow> jsval \<Rightarrow> (ustring \<times> jsval) list \<Rightarrow> jsval \<Rightarrow> run" where
  "success pf pretty table retryOptions calls result =
     (case formatOutput pf (obj [(''success'', JBool True), (''data'', result)]) pretty table of
        Inl e \<Rightarrow> failure pf pretty table retryOptions calls e
      | Inr formatted \<Rightarrow> Success retryOptions calls result (snd formatted))"

text \<open>The handlers of \<open>buildCommands\<close> that call the API.\<close>

definition family_handler ::
  "ustring \<Rightarrow> (platform \<Rightarrow> ustring list \<Rightarrow> view \<Rightarrow> view \<Rightarrow> outcome \<times> view) option" where
  "family_handler command =
     (if command = js ''smart-money'' then Some smart_money
      else if command = js ''profiler'' then Some profiler
      else if command = js ''token'' then Some token
      else if command = js ''portfolio'' then Some portfolio
      else None)"

definition command_names :: "ustring list" where
  "command_names =
     [js ''login'', js ''logout'', js ''help'', js ''smart-money'', js ''profiler'',
      js ''token'', js ''portfolio'']"

definition NO_AUTH_COMMANDS :: "ustring list" where
  "NO_AUTH_COMMANDS = [js ''login'', js ''logout'', js ''help'']"

text \<open>
  \<open>commands[command](subArgs, api, flags, options)\<close> for a \<open>command\<close> that the table of
  commands does not have but \<open>Object.prototype\<close> has: the inherited member is called,
  with the table as \<open>this\<close>. \<open>Object(subArgs)\<close> is \<open>subArgs\<close>; the members that take a
  property name take the one that \<open>subArgs\<close> converts to, its elements joined by commas;
  \<open>__defineGetter__\<close> and \<open>__defineSetter__\<close> refuse the instance, which is not a
  function; \<open>__proto__\<close> is not a function.
\<close>

definition call_inherited_command :: "ustring \<Rightarrow> ustring list \<Rightarrow> outcome" where
  "call_inherited_command name subArgs =
     (let key = join [44] subArgs
      in if name = js ''constructor'' then Returned (JArr (map JStr subArgs))
         else if name = js ''toString'' \<or> name = js ''toLocaleString''
           then Returned (JStr (js ''[object Object]''))
         else if name = js ''valueOf''
           then Returned (JObj (map (\<lambda>n. (n, JFunction n)) command_names))
         else if name = js ''hasOwnProperty'' \<or> name = js ''propertyIsEnumerable''
           then Returned (JBool (key \<in> set command_names))
         else if name = js ''isPrototypeOf'' then Returned (JBool False)
         else if name = js ''__lookupGetter__''
           then Returned (if key = proto_key then JFunction (js ''get __proto__'') else JUndefined)
         else if name = js ''__lookupSetter__''
           then Returned (if key = proto_key then JFunction (js ''set __proto__'') else JUndefined)
         else Threw (TypeError HandlerCall (object_member name)))"

text \<open>What the call of \<open>commands[command]\<close> in the \<open>try\<close> block does.\<close>

definition call_command ::
  "platform \<Rightarrow> ustring \<Rightarrow> ustring list \<Rightarrow> view \<Rightarrow> view \<Rightarrow> outcome" where
  "call_command pf command subArgs flgs opts =
     (case family_handler command of
        Some handler \<Rightarrow> fst (handler pf subArgs flgs opts)
      | None \<Rightarrow> call_inherited_command command subArgs)"

text \<open>
  \<open>flags['no-retry'] ? { maxRetries: 0 } : { maxRetries: options.retries || 3 }\<close>
\<close>

definition retry_options :: "view \<Rightarrow> view \<Rightarrow> jsval" where
  "retry_options flgs opts =
     (if truthy (flgs (js ''no-retry'')) then obj [(''maxRetries'', JNum (Fin 0))]
      else obj [(''maxRetries'', js_or (opts (js ''retries'')) (JNum (Fin 3)))])"

definition runCLI :: "platform \<Rightarrow> api_class \<Rightarrow> ustring list \<Rightarrow> run" where
  "runCLI pf NansenAPIClass rawArgs =
     (let pa = parseArgs (JSON_parse pf) rawArgs;
          flgs = flag_view pa;
          opts = option_view pf pa;
          command = subcommand_of (positional pa);
          subArgs = drop 1 (positional pa);
          pretty = truthy (js_or (flgs (js ''pretty'')) (flgs (js ''p'')));
          table = truthy (js_or (flgs (js ''table'')) (flgs (js ''t'')))
      in if command = js ''help'' \<or> truthy (flgs (js ''help'')) \<or> truthy (flgs (js ''h''))
           then Help
         else if command \<notin> set command_names \<and> \<not> truthy (object_member command) then
           (let errorData = obj [(''error'', JStr (js ''Unknown command: '' @ command)),
                                 (''available'', JArr (map JStr command_names))]
            in case formatOutput pf errorData pretty table of
                 Inl e \<Rightarrow> Uncaught e
               | Inr formatted \<Rightarrow> UnknownCommand errorData (snd formatted))
         else if command \<in> set NO_AUTH_COMMANDS then
           (case (if command = js ''login'' then login pf NansenAPIClass else logout pf) of
              Inl e \<Rightarrow> Uncaught e
            | Inr status \<Rightarrow> NoAuth command status)
         else
           (let retryOptions = retry_options flgs opts
            in case NansenAPIClass [JUndefined, JUndefined, obj [(''retry'', retryOptions)]] of
                 Inl e \<Rightarrow> failure pf pretty table retryOptions [] e
               | Inr api \<Rightarrow>
                   (case call_command pf command subArgs flgs opts of
                      Threw e \<Rightarrow> failure pf pretty table retryOptions [] e
                    | Returned result \<Rightarrow> success pf pretty table retryOptions [] result
                    | ApiCall method params \<Rightarrow>
                        (case api method params of
                           Inl e \<Rightarrow> failure pf pretty table retryOptions [(method, params)] e
                         | Inr result \<Rightarrow>
                             success pf pretty table retryOptions [(method, params)] result))))"


section \<open>The roles of the tokens\<close>

text \<open>
  The specification describes \<open>parseArgs\<close> by the role of each token. These are its
  words, with positions counted from \<open>0\<close>. The token after position \<open>i\<close> is taken as the
  value of the long name at \<open>i\<close>:
\<close>

definition value_at :: "ustring list \<Rightarrow> nat \<Rightarrow> bool" where
  "value_at args i \<longleftrightarrow>
     Suc i < length args \<and> is_long (args ! i) \<and> \<not> boolean_flag (drop 2 (args ! i)) \<and>
     args ! Suc i \<noteq> [] \<and> \<not> is_dash (args ! Suc i)"

text \<open>The token at \<open>i\<close> is a flag named \<open>k\<close>: a long name without a value, or a short one.\<close>

definition flag_at :: "ustring list \<Rightarrow> nat \<Rightarrow> ustring \<Rightarrow> bool" where
  "flag_at args i k \<longleftrightarrow>
     i < length args \<and>
     (if is_long (args ! i) then drop 2 (args ! i) = k \<and> \<not> value_at args i
      else is_dash (args ! i) \<and> drop 1 (args ! i) = k)"

text \<open>The token at \<open>i\<close> is the long name \<open>k\<close> and takes the next token as its value.\<close>

definition option_at :: "ustring list \<Rightarrow> nat \<Rightarrow> ustring \<Rightarrow> bool" where
  "option_at args i k \<longleftrightarrow> value_at args i \<and> drop 2 (args ! i) = k"

text \<open>The token at \<open>i\<close> is positional: no dash in front, and not taken as a value.\<close>

definition positional_at :: "ustring list \<Rightarrow> nat \<Rightarrow> bool" where
  "positional_at args i \<longleftrightarrow>
     i < length args \<and> \<not> is_dash (args ! i) \<and> (i = 0 \<or> \<not> value_at args (i - 1))"

text \<open>The value tokens given to the name \<open>k\<close>, and the positional tokens, in input order.\<close>

definition values_for :: "ustring list \<Rightarrow> ustring \<Rightarrow> ustring list" where
  "values_for args k =
     map (\<lambda>i. args ! Suc i) (filter (\<lambda>i. option_at args i k) [0..<length args])"

definition positionals :: "ustring list \<Rightarrow> ustring list" where
  "positionals args = map (\<lambda>i. args ! i) (filter (positional_at args) [0..<length args])"

section \<open>Two decimal places\<close>

text \<open>
  The specification renders a number "with two decimal places". In its words: the sign,
  the integer part, a point and the two digits of the nearest hundredth of the
  magnitude (the upper one when two are equally near).
\<close>

definition two_decimals :: "rat \<Rightarrow> ustring" where
  "two_decimals x =
     (let n = nat \<lfloor>\<bar>x\<bar> * 100 + 1 / 2\<rfloor>
      in (if x < 0 then js ''-'' else []) @ digits (n div 100) @ js ''.'' @
         [48 + (n div 10) mod 10, 48 + n mod 10])"

section \<open>Inputs for the examples\<close>

text \<open>
  A stand-in for \<open>JSON.parse\<close> in the examples. It is right on \<open>true\<close>, \<open>false\<close>,
  \<open>null\<close> and on the unsigned decimal integers of at most fifteen digits, and it is
  right to fail on a text that is not JSON, such as a bare word. The examples give it
  no other text.
\<close>

definition digits_value :: "ustring \<Rightarrow> nat" where
  "digits_value s = foldl (\<lambda>a c. 10 * a + (c - 48)) 0 s"

definition JSON_parse_literal :: "ustring \<Rightarrow> jsval option" where
  "JSON_parse_literal s =
     (if s = js ''true'' then Some (JBool True)
      else if s = js ''false'' then Some (JBool False)
      else if s = js ''null'' then Some JNull
      else if s \<noteq> [] \<and> list_all (\<lambda>c. 48 \<le> c \<and> c \<le> 57) s \<and> (length s = 1 \<or> hd s \<noteq> 48)
              \<and> length s \<le> 15
        then Some (JNum (Fin (of_nat (digits_value s))))
      else None)"

text \<open>
  A second stand-in, which is also right on these texts with blanks around them
  (space, tab, line feed, carriage return) and on the decimal integers with a minus
  sign in front.
\<close>

definition is_json_blank :: "nat \<Rightarrow> bool" where
  "is_json_blank c \<longleftrightarrow> c = 32 \<or> c = 9 \<or> c = 10 \<or> c = 13"

definition JSON_parse_signed :: "ustring \<Rightarrow> jsval option" where
  "JSON_parse_signed s =
     (case dropWhile is_json_blank (rev (dropWhile is_json_blank (rev s))) of
        [] \<Rightarrow> None
      | c # ds \<Rightarrow>
          (if c = 45
           then (case JSON_parse_literal ds of
                   Some (JNum (Fin q)) \<Rightarrow> Some (JNum (Fin (- q)))
                 | _ \<Rightarrow> None)
           else JSON_parse_literal (c # ds)))"

text \<open>
  A platform for the examples. Its \<open>parseInt\<close> is right on the integers below \<open>10^21\<close>,
  the only values the examples give it; the fields that no example reaches are empty.
\<close>

definition example_platform :: platform where
  "example_platform =
     \<lparr>JSON_parse = JSON_parse_literal,
      JSON_stringify = (\<lambda>v. []),
      JSON_stringify_pretty = (\<lambda>v. []),
      parseInt = (\<lambda>v. Inr v),
      localeCompare = (\<lambda>a b. 0),
      toUpperCase_unicode = (\<lambda>s. s),
      number_toString = (\<lambda>q. []),
      function_toString = (\<lambda>f. []),
      String_object = (\<lambda>v. []),
      get_inherited = (\<lambda>v k. JUndefined),
      type_error_message = (\<lambda>s v. []),
      trim = (\<lambda>s. s),
      promptFn = Inr [],
      saveConfigFn = (\<lambda>v. None),
      deleteConfigFn = Inr (JBool False),
      getConfigFileFn = Inr (JStr [])\<rparr>"

text \<open>The property reads of an object literal with the given properties.\<close>

definition view_of :: "(string \<times> jsval) list \<Rightarrow> view" where
  "view_of kvs k =
     (case map_of (map (\<lambda>(n, v). (js n, v)) kvs) k of Some v \<Rightarrow> v | None \<Rightarrow> object_member k)"

text \<open>An API client class whose constructor succeeds and whose methods resolve with \<open>{}\<close>.\<close>

definition example_api :: api_class where
  "example_api arguments = Inr (\<lambda>method params. Inr (JObj []))"

section \<open>Properties of the argument parser\<close>

subsection \<open>One step of the loop\<close>

lemma long_dash: "is_long a \<Longrightarrow> is_dash a"
  by (cases a; cases "tl a") (auto simp: is_long_def is_dash_def startsWith_def js_def)

lemma parse_loop_long_bool:
  "is_long arg \<Longrightarrow> boolean_flag (drop 2 arg) \<Longrightarrow>
   parse_loop jp (arg # rest) r = parse_loop jp rest (assign_flag r (drop 2 arg))"
  by simp

lemma parse_loop_long_value:
  "is_long arg \<Longrightarrow> \<not> boolean_flag (drop 2 arg) \<Longrightarrow> takes_value (n # rest) \<Longrightarrow>
   parse_loop jp (arg # n # rest) r = parse_loop jp rest (assign_option r (drop 2 arg) (parse_value jp n))"
  by simp

lemma parse_loop_long_flag:
  "is_long arg \<Longrightarrow> \<not> boolean_flag (drop 2 arg) \<Longrightarrow> \<not> takes_value rest \<Longrightarrow>
   parse_loop jp (arg # rest) r = parse_loop jp rest (assign_flag r (drop 2 arg))"
  by simp

lemma parse_loop_short:
  "\<not> is_long arg \<Longrightarrow> is_dash arg \<Longrightarrow>
   parse_loop jp (arg # rest) r = parse_loop jp rest (assign_flag r (drop 1 arg))"
  by simp

lemma parse_loop_positional:
  "\<not> is_dash arg \<Longrightarrow>
   parse_loop jp (arg # rest) r = parse_loop jp rest (r\<lparr>positional := positional r @ [arg]\<rparr>)"
  using long_dash [of arg] by auto

declare parse_loop.simps(2) [simp del]

lemma value_at_Suc: "value_at (a # xs) (Suc i) = value_at xs i"
  by (simp add: value_at_def)

lemma value_at_0: "value_at (a # xs) 0 \<longleftrightarrow> is_long a \<and> \<not> boolean_flag (drop 2 a) \<and> takes_value xs"
  by (cases xs) (auto simp: value_at_def takes_value_def)

lemma flag_at_Suc: "flag_at (a # xs) (Suc i) k = flag_at xs i k"
  by (simp add: flag_at_def value_at_Suc)

lemma flag_at_0:
  "flag_at (a # xs) 0 k \<longleftrightarrow>
     (if is_long a then drop 2 a = k \<and> (boolean_flag (drop 2 a) \<or> \<not> takes_value xs)
      else is_dash a \<and> drop 1 a = k)"
  by (auto simp: flag_at_def value_at_0)

lemma ex_Cons: "(\<exists>i. P (i::nat)) \<longleftrightarrow> P 0 \<or> (\<exists>i. P (Suc i))"
  by (metis not0_implies_Suc)

lemma ex_flag_at_Cons:
  "(\<exists>i. flag_at (a # xs) i k) \<longleftrightarrow> flag_at (a # xs) 0 k \<or> (\<exists>i. flag_at xs i k)"
  by (subst ex_Cons) (simp only: flag_at_Suc)

lemma flags_assign_flag: "flags (assign_flag r k') k = (if k' = k \<and> k \<noteq> proto_key then Some True else flags r k)"
  by (simp add: assign_flag_def)

lemma flags_assign_option: "flags (assign_option r k' v) k = flags r k"
  by (simp add: assign_option_def)

lemma takes_value_Cons: "takes_value (n # rest) \<longleftrightarrow> n \<noteq> [] \<and> \<not> is_dash n"
  by (simp add: takes_value_def)

lemma flags_parse_loop:
  "k \<noteq> proto_key \<Longrightarrow>
   flags (parse_loop jp xs r) k = (if \<exists>i. flag_at xs i k then Some True else flags r k)"
proof (induction jp xs r rule: parse_loop.induct)
  case (1 jp r)
  then show ?case by (simp add: flag_at_def)
next
  case (2 jp arg rest r)
  note ex = ex_flag_at_Cons [of arg rest k]
  show ?case
  proof (cases "is_long arg")
    case long: True
    show ?thesis
    proof (cases "boolean_flag (drop 2 arg)")
      case True
      with 2 long show ?thesis
        by (simp add: parse_loop_long_bool ex flag_at_0 flags_assign_flag)
    next
      case nb: False
      show ?thesis
      proof (cases "takes_value rest")
        case True
        then obtain n rest' where rest: "rest = n # rest'"
          by (cases rest) (auto simp: takes_value_def)
        have n: "\<not> is_dash n" "\<not> is_long n"
          using True long_dash [of n] by (auto simp: rest takes_value_Cons)
        have "\<not> flag_at rest 0 k"
          using n by (simp add: rest flag_at_0)
        then have ex2: "(\<exists>i. flag_at rest i k) \<longleftrightarrow> (\<exists>i. flag_at rest' i k)"
          unfolding rest by (simp only: ex_flag_at_Cons) simp
        from True 2 long nb n show ?thesis
          by (simp add: ex_flag_at_Cons flag_at_0 flags_assign_option rest parse_loop_long_value)
      next
        case False
        with 2 long nb show ?thesis
          by (simp add: parse_loop_long_flag ex flag_at_0 flags_assign_flag)
      qed
    qed
  next
    case nl: False
    show ?thesis
    proof (cases "is_dash arg")
      case True
      with 2 nl show ?thesis
        by (simp add: parse_loop_short ex flag_at_0 flags_assign_flag)
    next
      case False
      with 2 nl show ?thesis
        by (simp add: parse_loop_positional ex flag_at_0)
    qed
  qed
qed


lemma pick_Cons:
  "map f (filter P [0..<Suc n]) =
     (if P 0 then [f 0] else []) @ map (\<lambda>i. f (Suc i)) (filter (\<lambda>i. P (Suc i)) [0..<n])"
proof -
  have "[0..<Suc n] = 0 # map Suc [0..<n]"
    by (simp add: upt_conv_Cons map_Suc_upt del: upt_Suc)
  then show ?thesis
    by (simp add: filter_map comp_def del: upt_Suc)
qed

lemma option_at_Suc: "option_at (a # xs) (Suc i) k = option_at xs i k"
  by (simp add: option_at_def value_at_Suc)

lemma option_at_0: "option_at (a # xs) 0 k \<longleftrightarrow> value_at (a # xs) 0 \<and> drop 2 a = k"
  by (simp add: option_at_def)

lemma values_for_Cons:
  "values_for (a # xs) k = (if option_at (a # xs) 0 k then [hd xs] else []) @ values_for xs k"
  unfolding values_for_def length_Cons pick_Cons
  by (cases xs) (auto simp add: option_at_Suc option_at_def value_at_def)

lemma values_for_Nil: "values_for [] k = []"
  by (simp add: values_for_def)

lemma positional_at_0: "positional_at (a # xs) 0 \<longleftrightarrow> \<not> is_dash a"
  by (simp add: positional_at_def)

lemma positional_at_Suc:
  "positional_at (a # xs) (Suc i) \<longleftrightarrow> positional_at xs i \<and> (i = 0 \<longrightarrow> \<not> value_at (a # xs) 0)"
  by (cases i) (auto simp: positional_at_def value_at_Suc)

lemma positionals_Nil: "positionals [] = []"
  by (simp add: positionals_def)

lemma positionals_Cons_plain:
  "\<not> value_at (a # xs) 0 \<Longrightarrow>
   positionals (a # xs) = (if is_dash a then [] else [a]) @ positionals xs"
  unfolding positionals_def length_Cons pick_Cons
  by (simp add: positional_at_0 positional_at_Suc)

lemma positionals_Cons_value:
  "value_at (a # n # xs) 0 \<Longrightarrow> positionals (a # n # xs) = positionals xs"
proof -
  assume v: "value_at (a # n # xs) 0"
  then have a: "is_dash a" and n: "\<not> is_long n"
    using long_dash [of a] long_dash [of n] by (auto simp: value_at_0 takes_value_Cons)
  have "\<not> value_at (n # xs) 0"
    using n by (simp add: value_at_0)
  then have "positionals (n # xs) = (if is_dash n then [] else [n]) @ positionals xs"
    by (rule positionals_Cons_plain)
  show ?thesis
    unfolding positionals_def length_Cons pick_Cons
    using v a n by (simp add: positional_at_0 positional_at_Suc value_at_0)
qed

lemma options_assign_flag: "options (assign_flag r k') k = options r k"
  by (simp add: assign_flag_def)

lemma options_assign_option:
  "k \<noteq> proto_key \<Longrightarrow>
   options (assign_option r k' v) k = (if k' = k then Some v else options r k)"
  by (simp add: assign_option_def)

lemma positional_assign_flag: "positional (assign_flag r k') = positional r"
  by (simp add: assign_flag_def)

lemma positional_assign_option: "positional (assign_option r k' v) = positional r"
  by (simp add: assign_option_def)

lemma options_parse_loop:
  "k \<noteq> proto_key \<Longrightarrow>
   options (parse_loop jp xs r) k =
     (if values_for xs k = [] then options r k else Some (parse_value jp (last (values_for xs k))))"
proof (induction jp xs r rule: parse_loop.induct)
  case (1 jp r)
  then show ?case by (simp add: values_for_Nil)
next
  case (2 jp arg rest r)
  show ?case
  proof (cases "is_long arg")
    case long: True
    show ?thesis
    proof (cases "boolean_flag (drop 2 arg)")
      case True
      with 2 long show ?thesis
        by (simp add: parse_loop_long_bool values_for_Cons option_at_0 value_at_0 options_assign_flag)
    next
      case nb: False
      show ?thesis
      proof (cases "takes_value rest")
        case True
        then obtain n rest' where rest: "rest = n # rest'"
          by (cases rest) (auto simp: takes_value_def)
        have n: "\<not> is_dash n" "\<not> is_long n"
          using True long_dash [of n] by (auto simp: rest takes_value_Cons)
        from True 2 long nb n show ?thesis
          by (simp add: values_for_Cons option_at_0 value_at_0 options_assign_option rest parse_loop_long_value)
      next
        case False
        with 2 long nb show ?thesis
          by (simp add: parse_loop_long_flag values_for_Cons option_at_0 value_at_0 options_assign_flag)
      qed
    qed
  next
    case nl: False
    show ?thesis
    proof (cases "is_dash arg")
      case True
      with 2 nl show ?thesis
        by (simp add: parse_loop_short values_for_Cons option_at_0 value_at_0 options_assign_flag)
    next
      case False
      with 2 nl show ?thesis
        by (simp add: parse_loop_positional values_for_Cons option_at_0 value_at_0)
    qed
  qed
qed

lemma positional_parse_loop:
  "positional (parse_loop jp xs r) = positional r @ positionals xs"
proof (induction jp xs r rule: parse_loop.induct)
  case (1 jp r)
  then show ?case by (simp add: positionals_Nil)
next
  case (2 jp arg rest r)
  show ?case
  proof (cases "is_long arg")
    case long: True
    then have dash: "is_dash arg" by (rule long_dash)
    show ?thesis
    proof (cases "boolean_flag (drop 2 arg)")
      case True
      with 2 long dash show ?thesis
        by (simp add: parse_loop_long_bool positionals_Cons_plain value_at_0 positional_assign_flag)
    next
      case nb: False
      show ?thesis
      proof (cases "takes_value rest")
        case True
        then obtain n rest' where rest: "rest = n # rest'"
          by (cases rest) (auto simp: takes_value_def)
        from True 2 long nb show ?thesis
          by (simp add: positionals_Cons_value value_at_0 positional_assign_option rest parse_loop_long_value)
      next
        case False
        with 2 long nb dash show ?thesis
          by (simp add: parse_loop_long_flag positionals_Cons_plain value_at_0 positional_assign_flag)
      qed
    qed
  next
    case nl: False
    show ?thesis
    proof (cases "is_dash arg")
      case True
      with 2 nl show ?thesis
        by (simp add: parse_loop_short positionals_Cons_plain value_at_0 positional_assign_flag)
    next
      case False
      with 2 nl show ?thesis
        by (simp add: parse_loop_positional positionals_Cons_plain value_at_0)
    qed
  qed
qed


lemma long_prefix: "is_long (js ''--'' @ N)" "drop 2 (js ''--'' @ N) = N"
  by (simp_all add: is_long_def startsWith_def js_def)

lemma values_for_nonempty: "values_for args k \<noteq> [] \<Longrightarrow> \<exists>j. option_at args j k"
  by (auto simp: values_for_def filter_empty_conv)

lemma flags_parseArgs:
  "k \<noteq> proto_key \<Longrightarrow>
   flags (parseArgs jp args) k = (if \<exists>i. flag_at args i k then Some True else None)"
  by (simp add: parseArgs_def flags_parse_loop empty_result_def)

lemma options_parseArgs:
  "k \<noteq> proto_key \<Longrightarrow>
   options (parseArgs jp args) k =
     (if values_for args k = [] then None else Some (parse_value jp (last (values_for args k))))"
  by (simp add: parseArgs_def options_parse_loop empty_result_def)

lemma positional_parseArgs: "positional (parseArgs jp args) = positionals args"
  by (simp add: parseArgs_def positional_parse_loop empty_result_def)

subsection \<open>The parsed arguments, token by token\<close>

text \<open>
  Claim C4, as the code has it. \<open>parseArgs\<close> is a total function: its loop moves forward
  by one or two tokens at every step, and the only call that can throw, \<open>JSON.parse\<close>,
  is inside a \<open>try\<close>. For every sequence of tokens and every name \<open>k\<close> other than
  \<open>__proto__\<close>: \<open>flags[k]\<close> is \<open>true\<close> exactly when some token is a flag named \<open>k\<close>
  (\<open>--k\<close> for one of the four fixed names, \<open>--k\<close> at the end of the input or before an
  empty token or a token starting with \<open>-\<close>, or the short token \<open>-k\<close>); \<open>options[k]\<close> is
  present exactly when some \<open>--k\<close>, not one of the four fixed names, stands before a
  token that is not empty and does not start with \<open>-\<close>, and it then holds the parsed
  JSON of the last such token, or the token itself when it is not JSON; and the
  positional sequence is made, in input order, of the tokens that do not start with
  \<open>-\<close> and are not taken as such a value.
\<close>

theorem parseArgs_roles:
  "positional (parseArgs jp args) = positionals args \<and>
   (k \<noteq> proto_key \<longrightarrow>
      flags (parseArgs jp args) k = (if \<exists>i. flag_at args i k then Some True else None) \<and>
      options (parseArgs jp args) k =
        (if values_for args k = [] then None
         else Some (parse_value jp (last (values_for args k)))))"
  by (simp add: flags_parseArgs options_parseArgs positional_parseArgs)

theorem parseArgs_roles_witness:
  "js ''limit'' \<noteq> proto_key \<and>
   positional (parseArgs JSON_parse_literal
      [js ''token'', js ''--limit'', js ''10'', js ''--pretty'']) = [js ''token''] \<and>
   options (parseArgs JSON_parse_literal
      [js ''token'', js ''--limit'', js ''10'', js ''--pretty'']) (js ''limit'')
     = Some (JNum (Fin 10))"
proof -
  let ?A = "[js ''token'', js ''--limit'', js ''10'', js ''--pretty'']"
  have h: "js ''limit'' \<noteq> proto_key"
    by code_simp
  have v: "values_for ?A (js ''limit'') = [js ''10'']"
    by code_simp
  have p: "parse_value JSON_parse_literal (js ''10'') = JNum (Fin 10)"
    by code_simp
  have q: "positionals ?A = [js ''token'']"
    by code_simp
  from parseArgs_roles [of JSON_parse_literal ?A "js ''limit''"] h v p q
  show ?thesis by simp
qed

text \<open>
  Claim C4 as the specification states it fails on an empty token: \<open>--chain ''\<close> is a
  name followed by a token that does not start with \<open>-\<close>, but \<open>next && ...\<close> is false
  for the empty string, so \<open>chain\<close> becomes a flag and the empty token a positional.
\<close>

theorem parseArgs_empty_value_counterexample:
  "options (parseArgs JSON_parse_literal [js ''--chain'', []]) (js ''chain'') = None \<and>
   flags (parseArgs JSON_parse_literal [js ''--chain'', []]) (js ''chain'') = Some True \<and>
   positional (parseArgs JSON_parse_literal [js ''--chain'', []]) = [[]]"
  by code_simp

subsection \<open>A name before a token that starts with a dash\<close>

text \<open>
  Claim C10, as the code has it. When \<open>--N\<close> (\<open>N\<close> other than \<open>__proto__\<close>) stands
  immediately before a token that starts with \<open>-\<close>, that occurrence gives \<open>N\<close> no value:
  \<open>flags[N]\<close> is \<open>true\<close>; the following token is handled on its own, as a short flag, or
  as a long name that becomes a flag or an option itself; and \<open>options[N]\<close> is absent
  unless another occurrence of \<open>--N\<close> in the sequence takes a value.
\<close>

theorem flag_before_dash_token:
  assumes "Suc i < length args" and "args ! i = js ''--'' @ N"
    and "is_dash (args ! Suc i)" and "N \<noteq> proto_key"
  shows "flags (parseArgs jp args) N = Some True \<and>
     (\<not> is_long (args ! Suc i) \<and> drop 1 (args ! Suc i) \<noteq> proto_key \<longrightarrow>
        flags (parseArgs jp args) (drop 1 (args ! Suc i)) = Some True) \<and>
     (is_long (args ! Suc i) \<and> drop 2 (args ! Suc i) \<noteq> proto_key \<longrightarrow>
        flags (parseArgs jp args) (drop 2 (args ! Suc i)) = Some True \<or>
        options (parseArgs jp args) (drop 2 (args ! Suc i)) \<noteq> None) \<and>
     (options (parseArgs jp args) N = None \<or> (\<exists>j. j \<noteq> i \<and> option_at args j N))"
proof -
  have nv: "\<not> value_at args i"
    using assms(3) by (simp add: value_at_def)
  have "flag_at args i N"
    using assms(1,2) nv long_prefix [of N] by (simp add: flag_at_def del: drop_append)
  then have 1: "flags (parseArgs jp args) N = Some True"
    using assms(4) by (auto simp: flags_parseArgs)
  have 2: "flags (parseArgs jp args) (drop 1 (args ! Suc i)) = Some True"
    if "\<not> is_long (args ! Suc i)" "drop 1 (args ! Suc i) \<noteq> proto_key"
  proof -
    have "flag_at args (Suc i) (drop 1 (args ! Suc i))"
      using assms(1,3) that by (simp add: flag_at_def)
    then show ?thesis
      using that by (auto simp: flags_parseArgs)
  qed
  have 3: "flags (parseArgs jp args) (drop 2 (args ! Suc i)) = Some True \<or>
        options (parseArgs jp args) (drop 2 (args ! Suc i)) \<noteq> None"
    if "is_long (args ! Suc i)" "drop 2 (args ! Suc i) \<noteq> proto_key"
  proof (cases "value_at args (Suc i)")
    case True
    then have "option_at args (Suc i) (drop 2 (args ! Suc i))"
      by (simp add: option_at_def)
    moreover have "Suc i \<in> set [0..<length args]"
      using assms(1) by simp
    ultimately have "values_for args (drop 2 (args ! Suc i)) \<noteq> []"
      unfolding values_for_def by (auto simp: filter_empty_conv)
    then show ?thesis
      using that by (simp add: options_parseArgs)
  next
    case False
    then have "flag_at args (Suc i) (drop 2 (args ! Suc i))"
      using assms(1) that by (simp add: flag_at_def)
    then show ?thesis
      using that by (auto simp: flags_parseArgs)
  qed
  have 4: "options (parseArgs jp args) N = None \<or> (\<exists>j. j \<noteq> i \<and> option_at args j N)"
  proof (cases "values_for args N = []")
    case True
    then show ?thesis using assms(4) by (simp add: options_parseArgs)
  next
    case False
    then obtain j where "option_at args j N"
      using values_for_nonempty by blast
    moreover from this nv have "j \<noteq> i"
      by (auto simp: option_at_def)
    ultimately show ?thesis by blast
  qed
  from 1 2 3 4 show ?thesis by blast
qed

theorem flag_before_dash_token_witness:
  "Suc 0 < length [js ''--limit'', js ''-5''] \<and>
   [js ''--limit'', js ''-5''] ! 0 = js ''--'' @ js ''limit'' \<and>
   is_dash ([js ''--limit'', js ''-5''] ! Suc 0) \<and>
   js ''limit'' \<noteq> proto_key \<and>
   flags (parseArgs JSON_parse_literal [js ''--limit'', js ''-5'']) (js ''limit'') = Some True"
proof -
  let ?A = "[js ''--limit'', js ''-5'']"
  have a1: "Suc 0 < length ?A" by simp
  have a2: "?A ! 0 = js ''--'' @ js ''limit''" by code_simp
  have a3: "is_dash (?A ! Suc 0)" by code_simp
  have a4: "js ''limit'' \<noteq> proto_key" by code_simp
  from flag_before_dash_token [OF a1 a2 a3 a4, of JSON_parse_literal] a1 a2 a3 a4
  show ?thesis by blast
qed

text \<open>
  Claim C10 as stated promises that \<open>options[N]\<close> is absent for every sequence that has
  \<open>--N\<close> before a token starting with \<open>-\<close>. Each occurrence is parsed on its own, so
  another occurrence can still give \<open>N\<close> a value. Nor is it so that a negative number
  cannot be an option value: only a token whose first character is \<open>-\<close> is refused, and
  the token \<open>' -5'\<close>, with a blank in front, is JSON for the number \<open>-5\<close>.
\<close>

theorem option_set_elsewhere_counterexample:
  "options (parseArgs JSON_parse_literal
      [js ''--limit'', js ''5'', js ''--limit'', js ''-5'']) (js ''limit'')
     = Some (JNum (Fin 5)) \<and>
   options (parseArgs JSON_parse_signed [js ''--limit'', js '' -5'']) (js ''limit'')
     = Some (JNum (Fin (- 5)))"
  by code_simp

section \<open>Properties of the sort order\<close>

lemma split_colon_plain: "58 \<notin> set f \<Longrightarrow> split_colon f = [f]"
  by (induction f) auto

lemma split_colon_at: "58 \<notin> set f \<Longrightarrow> split_colon (f @ 58 # rest) = f # split_colon rest"
  by (induction f) auto

lemma split_colon_nonempty: "split_colon s \<noteq> []"
  by (induction s) (auto split: list.splits)

lemma parseSort_plain:
  "58 \<notin> set f \<Longrightarrow> f \<noteq> [] \<Longrightarrow> \<not> truthy orderBy \<Longrightarrow>
   parseSort pf (JStr f) orderBy =
     Inr (JArr [JObj [(js ''field'', JStr f), (js ''direction'', JStr (js ''DESC''))]])"
  by (simp add: parseSort_def split_colon_plain sort_direction_def toUpperCase_def js_def ascii_upper_def)

text \<open>
  Claim C6, as the code has it. \<open>parseSort\<close> returns the order-by argument unchanged
  when it is truthy; otherwise \<open>undefined\<close> when the sort option is falsy (absent, or
  empty); otherwise, when the sort option is a string, the one-element sequence
  \<open>[{field, direction}]\<close>, where \<open>field\<close> is the text before the first colon and
  \<open>direction\<close> the text between the first and the second colon in upper case, or
  \<open>DESC\<close> when there is no such text; a truthy sort option that is not a string makes
  it throw a \<open>TypeError\<close>. The two examples of the specification hold.
  (Below, \<open>58\<close> is the code unit of the colon.)
\<close>

theorem parseSort_cases:
  "(truthy orderBy \<longrightarrow> parseSort pf sortOption orderBy = Inr orderBy) \<and>
   (\<not> truthy orderBy \<and> \<not> truthy sortOption \<longrightarrow> parseSort pf sortOption orderBy = Inr JUndefined) \<and>
   (\<not> truthy orderBy \<and> sortOption = JStr f \<and> f \<noteq> [] \<and> 58 \<notin> set f \<longrightarrow>
      parseSort pf sortOption orderBy =
        Inr (JArr [JObj [(js ''field'', JStr f), (js ''direction'', JStr (js ''DESC''))]])) \<and>
   (\<not> truthy orderBy \<and> sortOption = JStr (f @ 58 # d @ rest) \<and> 58 \<notin> set f \<and> 58 \<notin> set d
      \<and> (rest = [] \<or> hd rest = 58) \<longrightarrow>
      parseSort pf sortOption orderBy =
        Inr (JArr [JObj [(js ''field'', JStr f),
                         (js ''direction'',
                          JStr (if d = [] then js ''DESC'' else toUpperCase pf d))]])) \<and>
   (list_all (\<lambda>c. c < 128) d \<longrightarrow> toUpperCase pf d = map ascii_upper d) \<and>
   (\<not> truthy orderBy \<and> truthy sortOption \<and> (\<forall>s. sortOption \<noteq> JStr s) \<longrightarrow>
      parseSort pf sortOption orderBy = Inl (TypeError SortSplit sortOption)) \<and>
   parseSort pf (JStr (js ''value_usd:asc'')) JUndefined =
     Inr (JArr [JObj [(js ''field'', JStr (js ''value_usd'')),
                      (js ''direction'', JStr (js ''ASC''))]]) \<and>
   parseSort pf (JStr (js ''timestamp'')) JUndefined =
     Inr (JArr [JObj [(js ''field'', JStr (js ''timestamp'')),
                      (js ''direction'', JStr (js ''DESC''))]])"
proof -
  have 1: "truthy orderBy \<longrightarrow> parseSort pf sortOption orderBy = Inr orderBy"
    by (simp add: parseSort_def)
  have 2: "\<not> truthy orderBy \<and> \<not> truthy sortOption \<longrightarrow> parseSort pf sortOption orderBy = Inr JUndefined"
    by (simp add: parseSort_def)
  have 3: "\<not> truthy orderBy \<and> sortOption = JStr f \<and> f \<noteq> [] \<and> 58 \<notin> set f \<longrightarrow>
      parseSort pf sortOption orderBy =
        Inr (JArr [JObj [(js ''field'', JStr f), (js ''direction'', JStr (js ''DESC''))]])"
    by (simp add: parseSort_plain)
  have 4: "\<not> truthy orderBy \<and> sortOption = JStr (f @ 58 # d @ rest) \<and> 58 \<notin> set f \<and> 58 \<notin> set d
      \<and> (rest = [] \<or> hd rest = 58) \<longrightarrow>
      parseSort pf sortOption orderBy =
        Inr (JArr [JObj [(js ''field'', JStr f),
                         (js ''direction'',
                          JStr (if d = [] then js ''DESC'' else toUpperCase pf d))]])"
  proof (intro impI, elim conjE)
    assume a: "\<not> truthy orderBy" "sortOption = JStr (f @ 58 # d @ rest)" "58 \<notin> set f"
      "58 \<notin> set d" "rest = [] \<or> hd rest = 58"
    have up: "toUpperCase pf (js ''desc'') = js ''DESC''"
      by (simp add: toUpperCase_def js_def ascii_upper_def)
    have "\<exists>ps. split_colon (d @ rest) = d # ps"
    proof (cases rest)
      case Nil
      with a show ?thesis by (simp add: split_colon_plain)
    next
      case (Cons c cs)
      with a have "rest = 58 # cs" by simp
      with a show ?thesis by (simp add: split_colon_at)
    qed
    then obtain ps where "split_colon (d @ rest) = d # ps" ..
    with a up show "parseSort pf sortOption orderBy =
        Inr (JArr [JObj [(js ''field'', JStr f),
                         (js ''direction'',
                          JStr (if d = [] then js ''DESC'' else toUpperCase pf d))]])"
      by (simp add: parseSort_def split_colon_at sort_direction_def)
  qed
  have 5: "list_all (\<lambda>c. c < 128) d \<longrightarrow> toUpperCase pf d = map ascii_upper d"
    by (simp add: toUpperCase_def)
  have 6: "\<not> truthy orderBy \<and> truthy sortOption \<and> (\<forall>s. sortOption \<noteq> JStr s) \<longrightarrow>
      parseSort pf sortOption orderBy = Inl (TypeError SortSplit sortOption)"
    by (cases sortOption) (auto simp: parseSort_def)
  have 7: "parseSort pf (JStr (js ''value_usd:asc'')) JUndefined =
     Inr (JArr [JObj [(js ''field'', JStr (js ''value_usd'')),
                      (js ''direction'', JStr (js ''ASC''))]])"
    by (simp add: parseSort_def sort_direction_def toUpperCase_def js_def ascii_upper_def)
  have 8: "parseSort pf (JStr (js ''timestamp'')) JUndefined =
     Inr (JArr [JObj [(js ''field'', JStr (js ''timestamp'')),
                      (js ''direction'', JStr (js ''DESC''))]])"
    by (simp add: parseSort_def sort_direction_def toUpperCase_def js_def ascii_upper_def)
  from 1 2 3 4 5 6 7 8 show ?thesis by blast
qed

theorem parseSort_cases_witness:
  "truthy (JArr [JStr (js ''x'')]) \<and>
   parseSort example_platform (JStr (js ''price'')) (JArr [JStr (js ''x'')])
     = Inr (JArr [JStr (js ''x'')]) \<and>
   \<not> truthy JUndefined \<and>
   parseSort example_platform JUndefined JUndefined = Inr JUndefined \<and>
   parseSort example_platform (JStr (js ''price'')) JUndefined =
     Inr (JArr [JObj [(js ''field'', JStr (js ''price'')),
                      (js ''direction'', JStr (js ''DESC''))]]) \<and>
   truthy (JNum (Fin 1)) \<and>
   parseSort example_platform (JNum (Fin 1)) JUndefined
     = Inl (TypeError SortSplit (JNum (Fin 1)))"
proof -
  have f: "js ''price'' \<noteq> []" "58 \<notin> set (js ''price'')"
    by (simp_all add: js_def)
  from parseSort_cases [of "JArr [JStr (js ''x'')]" example_platform "JStr (js ''price'')"]
  have 1: "parseSort example_platform (JStr (js ''price'')) (JArr [JStr (js ''x'')])
     = Inr (JArr [JStr (js ''x'')])"
    by simp
  from parseSort_cases [of JUndefined example_platform JUndefined]
  have 2: "parseSort example_platform JUndefined JUndefined = Inr JUndefined"
    by simp
  from parseSort_cases [of JUndefined example_platform "JStr (js ''price'')" "js ''price''"] f
  have 3: "parseSort example_platform (JStr (js ''price'')) JUndefined =
     Inr (JArr [JObj [(js ''field'', JStr (js ''price'')),
                      (js ''direction'', JStr (js ''DESC''))]])"
    by simp
  from parseSort_cases [of JUndefined example_platform "JNum (Fin 1)"]
  have 4: "parseSort example_platform (JNum (Fin 1)) JUndefined
     = Inl (TypeError SortSplit (JNum (Fin 1)))"
    by simp
  from 1 2 3 4 show ?thesis by simp
qed

text \<open>
  Claim C6 as stated holds for every pair of inputs. It fails for a sort option that is
  truthy and not a string, which \<open>--sort 1\<close> produces (the token parses as JSON): there
  is no \<open>split\<close> to call, and \<open>parseSort\<close> throws instead of returning.
\<close>

theorem parseSort_number_counterexample:
  "parseSort example_platform (JNum (Fin 1)) JUndefined
     = Inl (TypeError SortSplit (JNum (Fin 1)))"
  by (simp add: parseSort_def)

section \<open>Properties of the handlers\<close>

lemma inj_of_char_nat: "inj (of_char :: char \<Rightarrow> nat)"
  by (rule injI) simp

lemma js_eq_iff [simp]: "js a = js b \<longleftrightarrow> a = b"
  by (simp add: js_def inj_map_eq_map inj_of_char_nat)

lemma js_Nil [simp]: "js [] = []"
  by (simp add: js_def)

lemma js_eq_Nil [simp]: "js s = [] \<longleftrightarrow> s = []" "[] = js s \<longleftrightarrow> s = []"
  by (auto simp: js_def)

lemma js_append: "js a @ js b = js (a @ b)"
  by (simp add: js_def)

lemma js_take: "take n (js s) = js (take n s)"
  by (simp add: js_def take_map)

lemma js_drop: "drop n (js s) = js (drop n s)"
  by (simp add: js_def drop_map)

lemma js_length: "length (js s) = length s"
  by (simp add: js_def)

lemma map_of_js: "map_of (map (\<lambda>(n, v). (js n, v)) kvs) (js k) = map_of kvs k"
  by (induction kvs) auto

lemma object_member_js:
  "object_member (js k) =
     (if k = ''__proto__'' then JObj []
      else if k \<in> set [''constructor'', ''__defineGetter__'', ''__defineSetter__'',
                       ''hasOwnProperty'', ''__lookupGetter__'', ''__lookupSetter__'',
                       ''isPrototypeOf'', ''propertyIsEnumerable'', ''toString'', ''valueOf'',
                       ''toLocaleString'']
        then JFunction (js k)
      else JUndefined)"
  by (simp add: object_member_def object_prototype_names_def proto_key_def)

lemma view_of_js:
  "view_of kvs (js k) = (case map_of kvs k of Some v \<Rightarrow> v | None \<Rightarrow> object_member (js k))"
  by (simp add: view_of_def map_of_js)

lemma dispatch_js:
  "dispatch hs (js sub) =
     (case map_of hs sub of
        Some h \<Rightarrow> h
      | None \<Rightarrow>
          (if truthy (object_member (js sub))
           then call_inherited (map (js \<circ> fst) hs) (js sub)
           else Returned (obj [(''error'', JStr (js (''Unknown subcommand: '' @ sub))),
                               (''available'', JArr (map (JStr \<circ> js \<circ> fst) hs))])))"
  by (simp add: dispatch_def map_of_js js_append split: option.split)

lemma subcommand_of_js:
  "subcommand_of (js a # rest) = (if a = [] then js ''help'' else js a)"
  by (simp add: subcommand_of_def)

lemmas handler_eval =
  smart_money_def profiler_def token_def portfolio_def Let_def subcommand_of_js js_or_def
  parseSort_def pagination_of_def add_labels_def add_only_smart_money_def days_of_def
  dispatch_js view_of_js object_member_js after_write_def obj_def help_object_def
  call_inherited_def

lemma is_long_js: "is_long (js s) \<longleftrightarrow> take 2 s = ''--''"
  by (simp add: is_long_def startsWith_def js_take js_length numeral_2_eq_2)

lemma is_dash_js: "is_dash (js s) \<longleftrightarrow> take 1 s = ''-''"
  by (simp add: is_dash_def startsWith_def js_take js_length)

lemma boolean_flag_js:
  "boolean_flag (js k) \<longleftrightarrow> k = ''pretty'' \<or> k = ''help'' \<or> k = ''table'' \<or> k = ''no-retry''"
  by (simp add: boolean_flag_def)

lemma takes_value_js:
  "takes_value (js n # rest) \<longleftrightarrow> n \<noteq> [] \<and> \<not> is_dash (js n)"
  "takes_value [] \<longleftrightarrow> False"
  by (simp_all add: takes_value_def)

lemma JSON_parse_literal_examples:
  "JSON_parse_literal (js ''0'') = Some (JNum (Fin 0))"
  "JSON_parse_literal (js ''5'') = Some (JNum (Fin 5))"
  "JSON_parse_literal (js ''10'') = Some (JNum (Fin 10))"
  by code_simp+

lemmas parse_eval =
  parseArgs_def parse_loop.simps is_long_js is_dash_js boolean_flag_js takes_value_js js_drop
  assign_flag_def assign_option_def proto_key_def parse_value_def empty_result_def
  JSON_parse_literal_examples

lemmas router_eval =
  runCLI_def Let_def flag_view_def option_view_def retry_options_def family_handler_def
  call_command_def
  command_names_def NO_AUTH_COMMANDS_def success_def failure_def formatOutput_def
  formatError_def get_property_def example_api_def

lemma call_inherited_not_ApiCall: "call_inherited names name \<noteq> ApiCall m p"
  by (simp add: call_inherited_def)

lemma dispatch_ApiCall:
  "dispatch hs sub = ApiCall m p \<Longrightarrow> \<exists>n. (n, ApiCall m p) \<in> set hs"
proof -
  assume a: "dispatch hs sub = ApiCall m p"
  show ?thesis
  proof (cases "map_of (map (\<lambda>(n, h). (js n, h)) hs) sub")
    case None
    with a show ?thesis
      by (simp add: dispatch_def call_inherited_not_ApiCall split: if_splits)
  next
    case (Some h)
    with a have "h = ApiCall m p" by (simp add: dispatch_def)
    with Some have "(sub, ApiCall m p) \<in> set (map (\<lambda>(n, h). (js n, h)) hs)"
      by (auto dest: map_of_SomeD)
    then show ?thesis by auto
  qed
qed

lemma smart_money_handlers_pagination:
  "(n, ApiCall m (JObj kvs)) \<in> set (smart_money_handlers c f ob p d) \<Longrightarrow>
   map_of kvs (js ''pagination'') = Some p"
  by (auto simp: smart_money_handlers_def obj_def help_object_def)

lemma token_handlers_pagination:
  "(n, ApiCall m (JObj kvs)) \<in> set (token_handlers ta ts c cs tf f ob p d osm) \<Longrightarrow>
   map_of kvs (js ''pagination'') = Some p"
  by (auto simp: token_handlers_def obj_def help_object_def)

lemma profiler_handlers_pagination:
  "(n, ApiCall m (JObj kvs)) \<in> set (profiler_handlers opts a en c f ob p d) \<Longrightarrow>
   m \<noteq> js ''addressBalance'' \<Longrightarrow> m \<noteq> js ''addressPnl'' \<Longrightarrow>
   map_of kvs (js ''pagination'') = Some p"
  by (auto simp: profiler_handlers_def obj_def help_object_def)

lemma params_object:
  "(n, ApiCall m p) \<in> set (smart_money_handlers c f ob pg d) \<Longrightarrow> \<exists>kvs. p = JObj kvs"
  by (auto simp: smart_money_handlers_def obj_def help_object_def)

lemma profiler_resolved:
  "parseSort pf (opts (js ''sort'')) (opts (js ''order-by'')) = Inr orderBy \<Longrightarrow>
   days_of pf opts = Inr days \<Longrightarrow>
   fst (profiler pf args flgs opts) =
     dispatch (profiler_handlers opts (opts (js ''address''))
                 (js_or (opts (js ''entity'')) (opts (js ''entity-name'')))
                 (js_or (opts (js ''chain'')) (JStr (js ''ethereum'')))
                 (js_or (opts (js ''filters'')) (JObj [])) orderBy
                 (pagination_of ''recordsPerPage'' opts) days) (subcommand_of args)"
  by (simp add: profiler_def Let_def)

lemma token_resolved:
  "parseSort pf (opts (js ''sort'')) (opts (js ''order-by'')) = Inr orderBy \<Longrightarrow>
   days_of pf opts = Inr days \<Longrightarrow>
   add_only_smart_money
     (js_or (js_or (opts (js ''smart-money'')) (flgs (js ''smart-money''))) (JBool False))
     (js_or (opts (js ''filters'')) (JObj [])) = Inr filters' \<Longrightarrow>
   fst (token pf args flgs opts) =
     dispatch (token_handlers (js_or (opts (js ''token'')) (opts (js ''token-address'')))
                 (js_or (opts (js ''symbol'')) (opts (js ''token-symbol'')))
                 (js_or (opts (js ''chain'')) (JStr (js ''solana'')))
                 (js_or (opts (js ''chains''))
                    (JArr [js_or (opts (js ''chain'')) (JStr (js ''solana''))]))
                 (js_or (opts (js ''timeframe'')) (JStr (js ''24h''))) filters' orderBy
                 (pagination_of ''per_page'' opts) days
                 (js_or (js_or (opts (js ''smart-money'')) (flgs (js ''smart-money'')))
                    (JBool False))) (subcommand_of args)"
  by (simp add: token_def Let_def)

lemma smart_money_resolved:
  "parseSort pf (opts (js ''sort'')) (opts (js ''order-by'')) = Inr orderBy \<Longrightarrow>
   add_labels opts (js_or (opts (js ''filters'')) (JObj [])) = Inr filters' \<Longrightarrow>
   days_of pf opts = Inr days \<Longrightarrow>
   fst (smart_money pf args flgs opts) =
     dispatch (smart_money_handlers
                 (js_or (opts (js ''chains''))
                    (JArr [js_or (opts (js ''chain'')) (JStr (js ''solana''))]))
                 filters' orderBy (pagination_of ''per_page'' opts) days) (subcommand_of args)"
  by (simp add: smart_money_def Let_def)

lemma call_inherited_Threw:
  "call_inherited names name = Threw e \<Longrightarrow> \<exists>v. e = TypeError HandlerCall v"
  by (auto simp: call_inherited_def split: if_splits)

lemma dispatch_Threw:
  "dispatch hs sub = Threw e \<Longrightarrow>
   (\<exists>n. (n, Threw e) \<in> set hs) \<or> (\<exists>v. e = TypeError HandlerCall v)"
proof -
  assume a: "dispatch hs sub = Threw e"
  show ?thesis
  proof (cases "map_of (map (\<lambda>(n, h). (js n, h)) hs) sub")
    case None
    with a show ?thesis
      by (auto simp: dispatch_def dest: call_inherited_Threw split: if_splits)
  next
    case (Some h)
    with a have "h = Threw e" by (simp add: dispatch_def)
    with Some have "(sub, Threw e) \<in> set (map (\<lambda>(n, h). (js n, h)) hs)"
      by (auto dest: map_of_SomeD)
    then show ?thesis by auto
  qed
qed

lemma profiler_handlers_no_Threw: "(n, Threw e) \<notin> set (profiler_handlers opts a en c f ob p d)"
  by (auto simp: profiler_handlers_def help_object_def)

lemma token_handlers_no_Threw: "(n, Threw e) \<notin> set (token_handlers ta ts c cs tf f ob p d osm)"
  by (auto simp: token_handlers_def help_object_def)

lemma profiler_Threw:
  "fst (profiler pf args flgs opts) = Threw e \<Longrightarrow>
   parseSort pf (opts (js ''sort'')) (opts (js ''order-by'')) = Inl e \<or>
   days_of pf opts = Inl e \<or> (\<exists>v. e = TypeError HandlerCall v)"
  by (auto simp: profiler_def Let_def profiler_handlers_no_Threw split: sum.splits
           dest!: dispatch_Threw)

lemma token_Threw:
  "fst (token pf args flgs opts) = Threw e \<Longrightarrow>
   parseSort pf (opts (js ''sort'')) (opts (js ''order-by'')) = Inl e \<or>
   days_of pf opts = Inl e \<or>
   add_only_smart_money
     (js_or (js_or (opts (js ''smart-money'')) (flgs (js ''smart-money''))) (JBool False))
     (js_or (opts (js ''filters'')) (JObj [])) = Inl e \<or>
   (\<exists>v. e = TypeError HandlerCall v)"
  by (auto simp: token_def Let_def token_handlers_no_Threw split: sum.splits
           dest!: dispatch_Threw)

subsection \<open>Pagination\<close>

text \<open>
  Claim C5, as the code has it. Whenever a smart-money or token handler calls the API,
  the \<open>pagination\<close> it passes is \<open>{page: 1, per_page: limit}\<close> if \<open>options.limit\<close> is
  truthy and \<open>undefined\<close> if it is falsy (absent, but also \<open>0\<close>); the profiler handler
  does the same with \<open>recordsPerPage\<close> for every method that takes a pagination (all but
  \<open>addressBalance\<close> and \<open>addressPnl\<close>). And the handlers do call the API: once the sort
  order, the days and the filters are resolved without an exception, each subcommand
  of the smart-money table (six), of the token table (twelve) and of the profiler table
  that takes a pagination (nine) calls its method with that pagination. The netflow
  example of the specification holds.
\<close>

theorem pagination_from_limit:
  "(fst (smart_money pf args flgs opts) = ApiCall m (JObj kvs) \<longrightarrow>
      map_of kvs (js ''pagination'') = Some (pagination_of ''per_page'' opts)) \<and>
   (fst (token pf args flgs opts) = ApiCall m (JObj kvs) \<longrightarrow>
      map_of kvs (js ''pagination'') = Some (pagination_of ''per_page'' opts)) \<and>
   (fst (profiler pf args flgs opts) = ApiCall m (JObj kvs) \<and>
      m \<noteq> js ''addressBalance'' \<and> m \<noteq> js ''addressPnl'' \<longrightarrow>
      map_of kvs (js ''pagination'') = Some (pagination_of ''recordsPerPage'' opts)) \<and>
   (truthy (opts (js ''limit'')) \<longrightarrow>
      pagination_of per opts = JObj [(js ''page'', JNum (Fin 1)), (js per, opts (js ''limit''))]) \<and>
   (\<not> truthy (opts (js ''limit'')) \<longrightarrow> pagination_of per opts = JUndefined) \<and>
   (parseSort pf (opts (js ''sort'')) (opts (js ''order-by'')) = Inr orderBy \<and>
    add_labels opts (js_or (opts (js ''filters'')) (JObj [])) = Inr labelled \<and>
    days_of pf opts = Inr days \<longrightarrow>
      (\<forall>(n, name) \<in> set [(''netflow'', ''smartMoneyNetflow''), (''dex-trades'', ''smartMoneyDexTrades''),
           (''perp-trades'', ''smartMoneyPerpTrades''), (''holdings'', ''smartMoneyHoldings''),
           (''dcas'', ''smartMoneyDcas''),
           (''historical-holdings'', ''smartMoneyHistoricalHoldings'')].
         \<exists>kvs'. fst (smart_money pf (js n # rest) flgs opts) = ApiCall (js name) (JObj kvs') \<and>
               map_of kvs' (js ''pagination'') = Some (pagination_of ''per_page'' opts))) \<and>
   (parseSort pf (opts (js ''sort'')) (opts (js ''order-by'')) = Inr orderBy \<and>
    days_of pf opts = Inr days \<and>
    add_only_smart_money
      (js_or (js_or (opts (js ''smart-money'')) (flgs (js ''smart-money''))) (JBool False))
      (js_or (opts (js ''filters'')) (JObj [])) = Inr filters' \<longrightarrow>
      (\<forall>(n, name) \<in> set [(''screener'', ''tokenScreener''), (''holders'', ''tokenHolders''),
           (''flows'', ''tokenFlows''), (''dex-trades'', ''tokenDexTrades''),
           (''pnl'', ''tokenPnlLeaderboard''), (''who-bought-sold'', ''tokenWhoBoughtSold''),
           (''flow-intelligence'', ''tokenFlowIntelligence''),
           (''transfers'', ''tokenTransfers''), (''jup-dca'', ''tokenJupDca''),
           (''perp-trades'', ''tokenPerpTrades''), (''perp-positions'', ''tokenPerpPositions''),
           (''perp-pnl-leaderboard'', ''tokenPerpPnlLeaderboard'')].
         \<exists>kvs'. fst (token pf (js n # rest) flgs opts) = ApiCall (js name) (JObj kvs') \<and>
               map_of kvs' (js ''pagination'') = Some (pagination_of ''per_page'' opts))) \<and>
   (parseSort pf (opts (js ''sort'')) (opts (js ''order-by'')) = Inr orderBy \<and>
    days_of pf opts = Inr days \<longrightarrow>
      (\<forall>(n, name) \<in> set [(''labels'', ''addressLabels''), (''transactions'', ''addressTransactions''),
           (''search'', ''entitySearch''),
           (''historical-balances'', ''addressHistoricalBalances''),
           (''related-wallets'', ''addressRelatedWallets''),
           (''counterparties'', ''addressCounterparties''),
           (''pnl-summary'', ''addressPnlSummary''),
           (''perp-positions'', ''addressPerpPositions''),
           (''perp-trades'', ''addressPerpTrades'')].
         \<exists>kvs'. fst (profiler pf (js n # rest) flgs opts) = ApiCall (js name) (JObj kvs') \<and>
               map_of kvs' (js ''pagination'') = Some (pagination_of ''recordsPerPage'' opts))) \<and>
   fst (smart_money pf [js ''netflow''] flgs
          (view_of [(''chain'', JStr (js ''ethereum'')), (''limit'', JNum (Fin 10))]))
     = ApiCall (js ''smartMoneyNetflow'')
         (JObj [(js ''chains'', JArr [JStr (js ''ethereum'')]),
                (js ''filters'', JObj []),
                (js ''orderBy'', JUndefined),
                (js ''pagination'',
                 JObj [(js ''page'', JNum (Fin 1)), (js ''per_page'', JNum (Fin 10))])])"
proof -
  have 1: "fst (smart_money pf args flgs opts) = ApiCall m (JObj kvs) \<longrightarrow>
      map_of kvs (js ''pagination'') = Some (pagination_of ''per_page'' opts)"
    by (auto simp: smart_money_def Let_def split: sum.splits
             dest!: dispatch_ApiCall smart_money_handlers_pagination)
  have 2: "fst (token pf args flgs opts) = ApiCall m (JObj kvs) \<longrightarrow>
      map_of kvs (js ''pagination'') = Some (pagination_of ''per_page'' opts)"
    by (auto simp: token_def Let_def split: sum.splits
             dest!: dispatch_ApiCall token_handlers_pagination)
  have 3: "fst (profiler pf args flgs opts) = ApiCall m (JObj kvs) \<and>
      m \<noteq> js ''addressBalance'' \<and> m \<noteq> js ''addressPnl'' \<longrightarrow>
      map_of kvs (js ''pagination'') = Some (pagination_of ''recordsPerPage'' opts)"
    by (auto simp: profiler_def Let_def split: sum.splits
             dest!: dispatch_ApiCall profiler_handlers_pagination)
  have 4: "truthy (opts (js ''limit'')) \<longrightarrow>
      pagination_of per opts = JObj [(js ''page'', JNum (Fin 1)), (js per, opts (js ''limit''))]"
    by (simp add: pagination_of_def obj_def)
  have 5: "\<not> truthy (opts (js ''limit'')) \<longrightarrow> pagination_of per opts = JUndefined"
    by (simp add: pagination_of_def)
  have 6: "fst (smart_money pf [js ''netflow''] flgs
          (view_of [(''chain'', JStr (js ''ethereum'')), (''limit'', JNum (Fin 10))]))
     = ApiCall (js ''smartMoneyNetflow'')
         (JObj [(js ''chains'', JArr [JStr (js ''ethereum'')]),
                (js ''filters'', JObj []),
                (js ''orderBy'', JUndefined),
                (js ''pagination'',
                 JObj [(js ''page'', JNum (Fin 1)), (js ''per_page'', JNum (Fin 10))])])"
    by (simp add: handler_eval smart_money_handlers_def)
  have 7: "(parseSort pf (opts (js ''sort'')) (opts (js ''order-by'')) = Inr orderBy \<and>
    add_labels opts (js_or (opts (js ''filters'')) (JObj [])) = Inr labelled \<and>
    days_of pf opts = Inr days \<longrightarrow>
      (\<forall>(n, name) \<in> set [(''netflow'', ''smartMoneyNetflow''), (''dex-trades'', ''smartMoneyDexTrades''),
           (''perp-trades'', ''smartMoneyPerpTrades''), (''holdings'', ''smartMoneyHoldings''),
           (''dcas'', ''smartMoneyDcas''),
           (''historical-holdings'', ''smartMoneyHistoricalHoldings'')].
         \<exists>kvs'. fst (smart_money pf (js n # rest) flgs opts) = ApiCall (js name) (JObj kvs') \<and>
               map_of kvs' (js ''pagination'') = Some (pagination_of ''per_page'' opts)))"
    by (simp add: smart_money_resolved subcommand_of_js dispatch_js smart_money_handlers_def
          obj_def)
  have 8: "(parseSort pf (opts (js ''sort'')) (opts (js ''order-by'')) = Inr orderBy \<and>
    days_of pf opts = Inr days \<and>
    add_only_smart_money
      (js_or (js_or (opts (js ''smart-money'')) (flgs (js ''smart-money''))) (JBool False))
      (js_or (opts (js ''filters'')) (JObj [])) = Inr filters' \<longrightarrow>
      (\<forall>(n, name) \<in> set [(''screener'', ''tokenScreener''), (''holders'', ''tokenHolders''),
           (''flows'', ''tokenFlows''), (''dex-trades'', ''tokenDexTrades''),
           (''pnl'', ''tokenPnlLeaderboard''), (''who-bought-sold'', ''tokenWhoBoughtSold''),
           (''flow-intelligence'', ''tokenFlowIntelligence''),
           (''transfers'', ''tokenTransfers''), (''jup-dca'', ''tokenJupDca''),
           (''perp-trades'', ''tokenPerpTrades''), (''perp-positions'', ''tokenPerpPositions''),
           (''perp-pnl-leaderboard'', ''tokenPerpPnlLeaderboard'')].
         \<exists>kvs'. fst (token pf (js n # rest) flgs opts) = ApiCall (js name) (JObj kvs') \<and>
               map_of kvs' (js ''pagination'') = Some (pagination_of ''per_page'' opts)))"
    by (simp add: token_resolved subcommand_of_js dispatch_js token_handlers_def obj_def)
  have 9: "(parseSort pf (opts (js ''sort'')) (opts (js ''order-by'')) = Inr orderBy \<and>
    days_of pf opts = Inr days \<longrightarrow>
      (\<forall>(n, name) \<in> set [(''labels'', ''addressLabels''), (''transactions'', ''addressTransactions''),
           (''search'', ''entitySearch''),
           (''historical-balances'', ''addressHistoricalBalances''),
           (''related-wallets'', ''addressRelatedWallets''),
           (''counterparties'', ''addressCounterparties''),
           (''pnl-summary'', ''addressPnlSummary''),
           (''perp-positions'', ''addressPerpPositions''),
           (''perp-trades'', ''addressPerpTrades'')].
         \<exists>kvs'. fst (profiler pf (js n # rest) flgs opts) = ApiCall (js name) (JObj kvs') \<and>
               map_of kvs' (js ''pagination'') = Some (pagination_of ''recordsPerPage'' opts)))"
    by (simp add: profiler_resolved subcommand_of_js dispatch_js profiler_handlers_def obj_def)
  from 1 2 3 4 5 6 7 8 9 show ?thesis by blast
qed

theorem pagination_from_limit_witness:
  "truthy (view_of [(''limit'', JNum (Fin 7))] (js ''limit'')) \<and>
   \<not> truthy (view_of [] (js ''limit'')) \<and>
   pagination_of ''per_page'' (view_of []) = JUndefined \<and>
   js ''addressLabels'' \<noteq> js ''addressBalance'' \<and> js ''addressLabels'' \<noteq> js ''addressPnl'' \<and>
   fst (profiler example_platform [js ''labels''] (view_of [])
          (view_of [(''limit'', JNum (Fin 7))]))
     = ApiCall (js ''addressLabels'')
         (JObj [(js ''address'', JUndefined), (js ''chain'', JStr (js ''ethereum'')),
                (js ''pagination'',
                 JObj [(js ''page'', JNum (Fin 1)), (js ''recordsPerPage'', JNum (Fin 7))])]) \<and>
   fst (token example_platform [js ''screener''] (view_of [])
          (view_of [(''limit'', JNum (Fin 7))]))
     = ApiCall (js ''tokenScreener'')
         (JObj [(js ''chains'', JArr [JStr (js ''solana'')]), (js ''timeframe'', JStr (js ''24h'')),
                (js ''filters'', JObj []), (js ''orderBy'', JUndefined),
                (js ''pagination'',
                 JObj [(js ''page'', JNum (Fin 1)), (js ''per_page'', JNum (Fin 7))])]) \<and>
   fst (smart_money example_platform [js ''dcas''] (view_of [])
          (view_of [(''limit'', JNum (Fin 7))]))
     = ApiCall (js ''smartMoneyDcas'')
         (JObj [(js ''filters'', JObj []), (js ''orderBy'', JUndefined),
                (js ''pagination'',
                 JObj [(js ''page'', JNum (Fin 1)), (js ''per_page'', JNum (Fin 7))])]) \<and>
   map_of [(js ''address'', JUndefined), (js ''chain'', JStr (js ''ethereum'')),
           (js ''pagination'',
            JObj [(js ''page'', JNum (Fin 1)), (js ''recordsPerPage'', JNum (Fin 7))])]
     (js ''pagination'')
     = Some (JObj [(js ''page'', JNum (Fin 1)), (js ''recordsPerPage'', JNum (Fin 7))]) \<and>
   map_of [(js ''chains'', JArr [JStr (js ''solana'')]), (js ''timeframe'', JStr (js ''24h'')),
           (js ''filters'', JObj []), (js ''orderBy'', JUndefined),
           (js ''pagination'',
            JObj [(js ''page'', JNum (Fin 1)), (js ''per_page'', JNum (Fin 7))])]
     (js ''pagination'')
     = Some (JObj [(js ''page'', JNum (Fin 1)), (js ''per_page'', JNum (Fin 7))]) \<and>
   map_of [(js ''filters'', JObj []), (js ''orderBy'', JUndefined),
           (js ''pagination'',
            JObj [(js ''page'', JNum (Fin 1)), (js ''per_page'', JNum (Fin 7))])]
     (js ''pagination'')
     = Some (JObj [(js ''page'', JNum (Fin 1)), (js ''per_page'', JNum (Fin 7))]) \<and>
   parseSort example_platform (view_of [(''limit'', JNum (Fin 7))] (js ''sort''))
     (view_of [(''limit'', JNum (Fin 7))] (js ''order-by'')) = Inr JUndefined \<and>
   days_of example_platform (view_of [(''limit'', JNum (Fin 7))]) = Inr (JNum (Fin 30)) \<and>
   add_labels (view_of [(''limit'', JNum (Fin 7))])
     (js_or (view_of [(''limit'', JNum (Fin 7))] (js ''filters'')) (JObj [])) = Inr (JObj []) \<and>
   add_only_smart_money
     (js_or (js_or (view_of [(''limit'', JNum (Fin 7))] (js ''smart-money''))
               (view_of [] (js ''smart-money''))) (JBool False))
     (js_or (view_of [(''limit'', JNum (Fin 7))] (js ''filters'')) (JObj [])) = Inr (JObj []) \<and>
   (\<exists>kvs. fst (profiler example_platform [js ''search''] (view_of [])
                (view_of [(''limit'', JNum (Fin 7))]))
            = ApiCall (js ''entitySearch'') (JObj kvs) \<and>
          map_of kvs (js ''pagination'') =
            Some (JObj [(js ''page'', JNum (Fin 1)), (js ''recordsPerPage'', JNum (Fin 7))])) \<and>
   (\<exists>kvs. fst (token example_platform [js ''perp-positions''] (view_of [])
                (view_of [(''limit'', JNum (Fin 7))]))
            = ApiCall (js ''tokenPerpPositions'') (JObj kvs) \<and>
          map_of kvs (js ''pagination'') =
            Some (JObj [(js ''page'', JNum (Fin 1)), (js ''per_page'', JNum (Fin 7))])) \<and>
   (\<exists>kvs. fst (smart_money example_platform [js ''holdings''] (view_of [])
                (view_of [(''limit'', JNum (Fin 7))]))
            = ApiCall (js ''smartMoneyHoldings'') (JObj kvs) \<and>
          map_of kvs (js ''pagination'') =
            Some (JObj [(js ''page'', JNum (Fin 1)), (js ''per_page'', JNum (Fin 7))]))"
proof -
  let ?l = "view_of [(''limit'', JNum (Fin 7))]"
  let ?P = "JObj [(js ''page'', JNum (Fin 1)), (js ''recordsPerPage'', JNum (Fin 7))]"
  let ?Q = "JObj [(js ''page'', JNum (Fin 1)), (js ''per_page'', JNum (Fin 7))]"
  have t: "truthy (?l (js ''limit''))"
    by (simp add: view_of_js)
  have v: "?l (js ''limit'') = JNum (Fin 7)"
    by (simp add: view_of_js)
  have n: "\<not> truthy (view_of [] (js ''limit''))"
    by (simp add: view_of_js object_member_js)
  have ne: "js ''addressLabels'' \<noteq> js ''addressBalance''" "js ''addressLabels'' \<noteq> js ''addressPnl''"
    by simp_all
  have h1: "parseSort example_platform (?l (js ''sort'')) (?l (js ''order-by'')) = Inr JUndefined"
    by (simp add: handler_eval)
  have h2: "days_of example_platform ?l = Inr (JNum (Fin 30))"
    by (simp add: handler_eval)
  have h3: "add_labels ?l (js_or (?l (js ''filters'')) (JObj [])) = Inr (JObj [])"
    by (simp add: handler_eval)
  have h4: "add_only_smart_money
     (js_or (js_or (?l (js ''smart-money'')) (view_of [] (js ''smart-money''))) (JBool False))
     (js_or (?l (js ''filters'')) (JObj [])) = Inr (JObj [])"
    by (simp add: handler_eval)
  have m1: "(''search'', ''entitySearch'') \<in> set [(''labels'', ''addressLabels''), (''transactions'', ''addressTransactions''),
           (''search'', ''entitySearch''),
           (''historical-balances'', ''addressHistoricalBalances''),
           (''related-wallets'', ''addressRelatedWallets''),
           (''counterparties'', ''addressCounterparties''),
           (''pnl-summary'', ''addressPnlSummary''),
           (''perp-positions'', ''addressPerpPositions''),
           (''perp-trades'', ''addressPerpTrades'')]"
    by simp
  have m2: "(''perp-positions'', ''tokenPerpPositions'') \<in> set [(''screener'', ''tokenScreener''), (''holders'', ''tokenHolders''),
           (''flows'', ''tokenFlows''), (''dex-trades'', ''tokenDexTrades''),
           (''pnl'', ''tokenPnlLeaderboard''), (''who-bought-sold'', ''tokenWhoBoughtSold''),
           (''flow-intelligence'', ''tokenFlowIntelligence''),
           (''transfers'', ''tokenTransfers''), (''jup-dca'', ''tokenJupDca''),
           (''perp-trades'', ''tokenPerpTrades''), (''perp-positions'', ''tokenPerpPositions''),
           (''perp-pnl-leaderboard'', ''tokenPerpPnlLeaderboard'')]"
    by simp
  have m3: "(''holdings'', ''smartMoneyHoldings'') \<in> set [(''netflow'', ''smartMoneyNetflow''), (''dex-trades'', ''smartMoneyDexTrades''),
           (''perp-trades'', ''smartMoneyPerpTrades''), (''holdings'', ''smartMoneyHoldings''),
           (''dcas'', ''smartMoneyDcas''),
           (''historical-holdings'', ''smartMoneyHistoricalHoldings'')]"
    by simp
  from pagination_from_limit [where opts = ?l and per = "''recordsPerPage''",
      THEN conjunct2, THEN conjunct2, THEN conjunct2, THEN conjunct1] t v
  have p: "pagination_of ''recordsPerPage'' ?l = ?P"
    by simp
  from pagination_from_limit [where opts = ?l and per = "''per_page''",
      THEN conjunct2, THEN conjunct2, THEN conjunct2, THEN conjunct1] t v
  have q: "pagination_of ''per_page'' ?l = ?Q"
    by simp
  from pagination_from_limit [where opts = "view_of []" and per = "''per_page''",
      THEN conjunct2, THEN conjunct2, THEN conjunct2, THEN conjunct2, THEN conjunct1] n
  have u: "pagination_of ''per_page'' (view_of []) = JUndefined"
    by blast
  have c1: "fst (profiler example_platform [js ''labels''] (view_of []) ?l)
     = ApiCall (js ''addressLabels'')
         (JObj [(js ''address'', JUndefined), (js ''chain'', JStr (js ''ethereum'')),
                (js ''pagination'', ?P)])"
    by (simp add: handler_eval profiler_handlers_def example_platform_def)
  from pagination_from_limit [where pf = example_platform and opts = ?l
      and flgs = "view_of []" and rest = "[]"
      and orderBy = JUndefined and days = "JNum (Fin 30)" and labelled = "JObj []"
      and filters' = "JObj []" and args = "[js ''labels'']" and m = "js ''addressLabels''",
      THEN conjunct2, THEN conjunct2, THEN conjunct1] c1 ne
  have d1: "map_of [(js ''address'', JUndefined), (js ''chain'', JStr (js ''ethereum'')),
                (js ''pagination'', ?P)] (js ''pagination'')
      = Some (pagination_of ''recordsPerPage'' ?l)"
    by blast
  have c2: "fst (token example_platform [js ''screener''] (view_of []) ?l)
     = ApiCall (js ''tokenScreener'')
         (JObj [(js ''chains'', JArr [JStr (js ''solana'')]), (js ''timeframe'', JStr (js ''24h'')),
                (js ''filters'', JObj []), (js ''orderBy'', JUndefined),
                (js ''pagination'', ?Q)])"
    by (simp add: handler_eval token_handlers_def example_platform_def)
  from pagination_from_limit [where pf = example_platform and opts = ?l
      and flgs = "view_of []" and rest = "[]"
      and orderBy = JUndefined and days = "JNum (Fin 30)" and labelled = "JObj []"
      and filters' = "JObj []" and args = "[js ''screener'']" and m = "js ''tokenScreener''",
      THEN conjunct2, THEN conjunct1] c2
  have d2: "map_of [(js ''chains'', JArr [JStr (js ''solana'')]),
                (js ''timeframe'', JStr (js ''24h'')),
                (js ''filters'', JObj []), (js ''orderBy'', JUndefined),
                (js ''pagination'', ?Q)] (js ''pagination'')
      = Some (pagination_of ''per_page'' ?l)"
    by blast
  have c3: "fst (smart_money example_platform [js ''dcas''] (view_of []) ?l)
     = ApiCall (js ''smartMoneyDcas'')
         (JObj [(js ''filters'', JObj []), (js ''orderBy'', JUndefined),
                (js ''pagination'', ?Q)])"
    by (simp add: handler_eval smart_money_handlers_def example_platform_def)
  from pagination_from_limit [where pf = example_platform and opts = ?l
      and flgs = "view_of []" and rest = "[]"
      and orderBy = JUndefined and days = "JNum (Fin 30)" and labelled = "JObj []"
      and filters' = "JObj []" and args = "[js ''dcas'']" and m = "js ''smartMoneyDcas''",
      THEN conjunct1] c3
  have d3: "map_of [(js ''filters'', JObj []), (js ''orderBy'', JUndefined),
                (js ''pagination'', ?Q)] (js ''pagination'')
      = Some (pagination_of ''per_page'' ?l)"
    by blast
  from pagination_from_limit [where pf = example_platform and opts = ?l
      and flgs = "view_of []" and rest = "[]"
      and orderBy = JUndefined and days = "JNum (Fin 30)" and labelled = "JObj []"
      and filters' = "JObj []",
      THEN conjunct2, THEN conjunct2, THEN conjunct2, THEN conjunct2, THEN conjunct2, THEN conjunct2, THEN conjunct2, THEN conjunct1] h1 h2 m1
  have e1: "\<exists>kvs. fst (profiler example_platform [js ''search''] (view_of []) ?l)
            = ApiCall (js ''entitySearch'') (JObj kvs) \<and>
          map_of kvs (js ''pagination'') = Some (pagination_of ''recordsPerPage'' ?l)"
    by blast
  from pagination_from_limit [where pf = example_platform and opts = ?l
      and flgs = "view_of []" and rest = "[]"
      and orderBy = JUndefined and days = "JNum (Fin 30)" and labelled = "JObj []"
      and filters' = "JObj []",
      THEN conjunct2, THEN conjunct2, THEN conjunct2, THEN conjunct2, THEN conjunct2, THEN conjunct2, THEN conjunct1] h1 h2 h4 m2
  have e2: "\<exists>kvs. fst (token example_platform [js ''perp-positions''] (view_of []) ?l)
            = ApiCall (js ''tokenPerpPositions'') (JObj kvs) \<and>
          map_of kvs (js ''pagination'') = Some (pagination_of ''per_page'' ?l)"
    by blast
  from pagination_from_limit [where pf = example_platform and opts = ?l
      and flgs = "view_of []" and rest = "[]"
      and orderBy = JUndefined and days = "JNum (Fin 30)" and labelled = "JObj []"
      and filters' = "JObj []",
      THEN conjunct2, THEN conjunct2, THEN conjunct2, THEN conjunct2, THEN conjunct2, THEN conjunct1] h1 h2 h3 m3
  have e3: "\<exists>kvs. fst (smart_money example_platform [js ''holdings''] (view_of []) ?l)
            = ApiCall (js ''smartMoneyHoldings'') (JObj kvs) \<and>
          map_of kvs (js ''pagination'') = Some (pagination_of ''per_page'' ?l)"
    by blast
  note facts = t n u ne c1 c2 c3 d1 [unfolded p] d2 [unfolded q] d3 [unfolded q] h1 h2 h3 h4
    e1 [unfolded p] e2 [unfolded q] e3 [unfolded q]
  show ?thesis
    by (intro conjI) (rule facts)+
qed

text \<open>
  Claim C5 as stated promises a pagination whenever \<open>--limit\<close> is present. \<open>--limit 0\<close>
  is present and parses to the number \<open>0\<close>, which \<open>options.limit ? ... : undefined\<close>
  treats like an absent limit:
\<close>

theorem limit_zero_counterexample:
  "fst (smart_money example_platform [js ''netflow''] (view_of [])
          (view_of [(''limit'', JNum (Fin 0))]))
     = ApiCall (js ''smartMoneyNetflow'')
         (obj [(''chains'', JArr [JStr (js ''solana'')]), (''filters'', JObj []),
               (''orderBy'', JUndefined), (''pagination'', JUndefined)])"
  by (simp add: handler_eval smart_money_handlers_def example_platform_def)

subsection \<open>What the handlers write\<close>

lemma after_write_same: "after_write opts (js_or (opts (js ''filters'')) d) = opts"
  by (auto simp: after_write_def js_or_def)

lemma after_write_other: "k \<noteq> js ''filters'' \<Longrightarrow> after_write opts v k = opts k"
  by (simp add: after_write_def)

lemma after_write_fresh: "\<not> truthy (opts (js ''filters'')) \<Longrightarrow> after_write opts v = opts"
  by (simp add: after_write_def)

lemma snd_profiler: "snd (profiler pf args flgs opts) = opts"
  by (simp add: profiler_def Let_def split: sum.splits)

lemma snd_portfolio: "snd (portfolio pf args flgs opts) = opts"
  by (simp add: portfolio_def Let_def)

lemma snd_smart_money_cases:
  "snd (smart_money pf args flgs opts) = opts \<or>
   (\<exists>v. add_labels opts (js_or (opts (js ''filters'')) (JObj [])) = Inr v \<and>
        snd (smart_money pf args flgs opts) = after_write opts v)"
  by (simp add: smart_money_def Let_def split: sum.splits)

lemma snd_token_cases:
  "snd (token pf args flgs opts) = opts \<or>
   (\<exists>v. add_only_smart_money
          (js_or (js_or (opts (js ''smart-money'')) (flgs (js ''smart-money''))) (JBool False))
          (js_or (opts (js ''filters'')) (JObj [])) = Inr v \<and>
        snd (token pf args flgs opts) = after_write opts v)"
  by (simp add: token_def Let_def split: sum.splits)

text \<open>
  Claim C7, as the code has it. The handlers never assign to the parsed arguments
  themselves, and the profiler and portfolio handlers write nothing. The smart-money
  and token handlers write to one object only, the one bound to \<open>filters\<close>: every
  property of \<open>options\<close> other than \<open>filters\<close> reads the same afterwards; when
  \<open>options.filters\<close> is falsy the object written to is a fresh one and \<open>options\<close> is
  unchanged; smart-money writes only when \<open>options.labels\<close> is truthy, token only when
  the \<open>smart-money\<close> option or flag is truthy; and an object given as \<open>--filters\<close> is
  either left as it is or gets the property \<open>include_smart_money_labels\<close> (smart-money)
  or \<open>only_smart_money = true\<close> (token). The same holds of whatever else
  \<open>options.filters\<close> is, an array for instance: afterwards it is what it was, or what
  the assignment of that property makes of it.
\<close>

theorem handlers_write_only_filters:
  "snd (profiler pf args flgs opts) = opts \<and>
   snd (portfolio pf args flgs opts) = opts \<and>
   (k \<noteq> js ''filters'' \<longrightarrow>
      snd (smart_money pf args flgs opts) k = opts k \<and>
      snd (token pf args flgs opts) k = opts k) \<and>
   (\<not> truthy (opts (js ''filters'')) \<longrightarrow>
      snd (smart_money pf args flgs opts) = opts \<and> snd (token pf args flgs opts) = opts) \<and>
   (\<not> truthy (opts (js ''labels'')) \<longrightarrow> snd (smart_money pf args flgs opts) = opts) \<and>
   (\<not> truthy (opts (js ''smart-money'')) \<and> \<not> truthy (flgs (js ''smart-money'')) \<longrightarrow>
      snd (token pf args flgs opts) = opts) \<and>
   (opts (js ''filters'') = JObj kvs \<longrightarrow>
      snd (smart_money pf args flgs opts) (js ''filters'') = JObj kvs \<or>
      snd (smart_money pf args flgs opts) (js ''filters'') =
        JObj (put (js ''include_smart_money_labels'')
                  (if isArray (opts (js ''labels'')) then opts (js ''labels'')
                   else JArr [opts (js ''labels'')]) kvs)) \<and>
   (opts (js ''filters'') = JObj kvs \<longrightarrow>
      snd (token pf args flgs opts) (js ''filters'') = JObj kvs \<or>
      snd (token pf args flgs opts) (js ''filters'') =
        JObj (put (js ''only_smart_money'') (JBool True) kvs)) \<and>
   (snd (smart_money pf args flgs opts) (js ''filters'') = opts (js ''filters'') \<or>
    assign_property (opts (js ''filters'')) (js ''include_smart_money_labels'')
      (if isArray (opts (js ''labels'')) then opts (js ''labels'')
       else JArr [opts (js ''labels'')])
      = Inr (snd (smart_money pf args flgs opts) (js ''filters''))) \<and>
   (snd (token pf args flgs opts) (js ''filters'') = opts (js ''filters'') \<or>
    assign_property (opts (js ''filters'')) (js ''only_smart_money'') (JBool True)
      = Inr (snd (token pf args flgs opts) (js ''filters'')))"
proof -
  note sm = snd_smart_money_cases [of pf args flgs opts]
  note tk = snd_token_cases [of pf args flgs opts]
  have 1: "k \<noteq> js ''filters'' \<longrightarrow>
      snd (smart_money pf args flgs opts) k = opts k \<and>
      snd (token pf args flgs opts) k = opts k"
    using sm tk by (auto simp: after_write_other)
  have 2: "\<not> truthy (opts (js ''filters'')) \<longrightarrow>
      snd (smart_money pf args flgs opts) = opts \<and> snd (token pf args flgs opts) = opts"
    using sm tk by (auto simp: after_write_fresh)
  have 3: "\<not> truthy (opts (js ''labels'')) \<longrightarrow> snd (smart_money pf args flgs opts) = opts"
    using sm by (auto simp: add_labels_def Let_def after_write_same)
  have 4: "\<not> truthy (opts (js ''smart-money'')) \<and> \<not> truthy (flgs (js ''smart-money'')) \<longrightarrow>
      snd (token pf args flgs opts) = opts"
    using tk by (auto simp: add_only_smart_money_def js_or_def after_write_same [unfolded js_or_def])
  have 5: "opts (js ''filters'') = JObj kvs \<longrightarrow>
      snd (smart_money pf args flgs opts) (js ''filters'') = JObj kvs \<or>
      snd (smart_money pf args flgs opts) (js ''filters'') =
        JObj (put (js ''include_smart_money_labels'')
                  (if isArray (opts (js ''labels'')) then opts (js ''labels'')
                   else JArr [opts (js ''labels'')]) kvs)"
    using sm by (auto simp: add_labels_def Let_def js_or_def after_write_def split: if_splits)
  have 6: "opts (js ''filters'') = JObj kvs \<longrightarrow>
      snd (token pf args flgs opts) (js ''filters'') = JObj kvs \<or>
      snd (token pf args flgs opts) (js ''filters'') =
        JObj (put (js ''only_smart_money'') (JBool True) kvs)"
    using tk by (auto simp: add_only_smart_money_def js_or_def after_write_def split: if_splits)
  have 7: "snd (smart_money pf args flgs opts) (js ''filters'') = opts (js ''filters'') \<or>
    assign_property (opts (js ''filters'')) (js ''include_smart_money_labels'')
      (if isArray (opts (js ''labels'')) then opts (js ''labels'')
       else JArr [opts (js ''labels'')])
      = Inr (snd (smart_money pf args flgs opts) (js ''filters''))"
    using sm by (auto simp: add_labels_def Let_def js_or_def after_write_def split: if_splits)
  have 8: "snd (token pf args flgs opts) (js ''filters'') = opts (js ''filters'') \<or>
    assign_property (opts (js ''filters'')) (js ''only_smart_money'') (JBool True)
      = Inr (snd (token pf args flgs opts) (js ''filters''))"
    using tk by (auto simp: add_only_smart_money_def js_or_def after_write_def split: if_splits)
  from 1 2 3 4 5 6 7 8 snd_profiler snd_portfolio show ?thesis by blast
qed

theorem handlers_write_only_filters_witness:
  "js ''labels'' \<noteq> js ''filters'' \<and>
   snd (smart_money example_platform [js ''netflow''] (view_of [])
          (view_of [(''filters'', JObj []), (''labels'', JStr (js ''Fund''))])) (js ''labels'')
     = JStr (js ''Fund'') \<and>
   \<not> truthy (view_of [(''chain'', JStr (js ''base''))] (js ''labels'')) \<and>
   snd (smart_money example_platform [js ''netflow''] (view_of [])
          (view_of [(''chain'', JStr (js ''base''))]))
     = view_of [(''chain'', JStr (js ''base''))]"
proof -
  have k: "js ''labels'' \<noteq> js ''filters''"
    by simp
  have v: "view_of [(''filters'', JObj []), (''labels'', JStr (js ''Fund''))] (js ''labels'')
      = JStr (js ''Fund'')"
    by (simp add: view_of_js)
  have n: "\<not> truthy (view_of [(''chain'', JStr (js ''base''))] (js ''labels''))"
    by (simp add: view_of_js object_member_js)
  from handlers_write_only_filters [of example_platform "[js ''netflow'']" "view_of []"
      "view_of [(''filters'', JObj []), (''labels'', JStr (js ''Fund''))]" "js ''labels''"] k v
  have 1: "snd (smart_money example_platform [js ''netflow''] (view_of [])
          (view_of [(''filters'', JObj []), (''labels'', JStr (js ''Fund''))])) (js ''labels'')
     = JStr (js ''Fund'')"
    by simp
  from handlers_write_only_filters [of example_platform "[js ''netflow'']" "view_of []"
      "view_of [(''chain'', JStr (js ''base''))]"] n
  have 2: "snd (smart_money example_platform [js ''netflow''] (view_of [])
          (view_of [(''chain'', JStr (js ''base''))]))
     = view_of [(''chain'', JStr (js ''base''))]"
    by blast
  from k n 1 2 show ?thesis by blast
qed

text \<open>
  Claim C7 as stated fails: with \<open>--filters '{}' --labels Fund\<close> the smart-money handler
  adds \<open>include_smart_money_labels\<close> to the very object that \<open>options.filters\<close> refers to.
\<close>

theorem filters_object_written_counterexample:
  "view_of [(''filters'', JObj []), (''labels'', JStr (js ''Fund''))] (js ''filters'') = JObj [] \<and>
   snd (smart_money example_platform [js ''netflow''] (view_of [])
          (view_of [(''filters'', JObj []), (''labels'', JStr (js ''Fund''))])) (js ''filters'')
     = JObj [(js ''include_smart_money_labels'', JArr [JStr (js ''Fund'')])]"
  by (simp add: handler_eval smart_money_handlers_def example_platform_def)

subsection \<open>Addresses\<close>

lemma dispatch_own:
  "map_of (map (\<lambda>(n, h). (js n, h)) hs) sub = Some h \<Longrightarrow> dispatch hs sub = h"
  by (simp add: dispatch_def)

text \<open>
  Claim C1, as the code has it. The profiler and token handlers do not look at the
  shape of an address. Once the sort order and the days (and, for token, the write to
  the filters) are resolved without an exception, every subcommand of the profiler
  that takes an address (all but \<open>search\<close>) and every subcommand of token that takes a
  token address calls its method of the API instance, with the address exactly as it
  was given, whatever it is; \<open>profiler balance\<close> and \<open>token holders\<close> are shown with
  all their parameters. When one of these handlers throws, what it throws is the
  exception of the sort order, of the days or of the write to the filters, or the
  \<open>TypeError\<close> of calling a member of the handler table that is not a function: never
  an error about the address. A validation of the address, if there is one, is the API
  client's.
\<close>

theorem handlers_forward_address:
  "(parseSort pf (opts (js ''sort'')) (opts (js ''order-by'')) = Inr orderBy \<and>
    days_of pf opts = Inr days \<longrightarrow>
      (\<forall>(n, m) \<in> set [(''balance'', ''addressBalance''), (''labels'', ''addressLabels''),
           (''transactions'', ''addressTransactions''), (''pnl'', ''addressPnl''),
           (''historical-balances'', ''addressHistoricalBalances''),
           (''related-wallets'', ''addressRelatedWallets''),
           (''counterparties'', ''addressCounterparties''),
           (''pnl-summary'', ''addressPnlSummary''),
           (''perp-positions'', ''addressPerpPositions''),
           (''perp-trades'', ''addressPerpTrades'')].
         \<exists>kvs. fst (profiler pf (js n # rest) flgs opts) = ApiCall (js m) (JObj kvs) \<and>
               map_of kvs (js ''address'') = Some (opts (js ''address''))) \<and>
      fst (profiler pf (js ''balance'' # rest) flgs opts) =
        ApiCall (js ''addressBalance'')
          (JObj [(js ''address'', opts (js ''address'')),
                 (js ''entityName'', js_or (opts (js ''entity'')) (opts (js ''entity-name''))),
                 (js ''chain'', js_or (opts (js ''chain'')) (JStr (js ''ethereum''))),
                 (js ''filters'', js_or (opts (js ''filters'')) (JObj [])),
                 (js ''orderBy'', orderBy)])) \<and>
   (parseSort pf (opts (js ''sort'')) (opts (js ''order-by'')) = Inr orderBy \<and>
    days_of pf opts = Inr days \<and>
    add_only_smart_money
      (js_or (js_or (opts (js ''smart-money'')) (flgs (js ''smart-money''))) (JBool False))
      (js_or (opts (js ''filters'')) (JObj [])) = Inr filters' \<longrightarrow>
      (\<forall>(n, m) \<in> set [(''holders'', ''tokenHolders''), (''flows'', ''tokenFlows''),
           (''dex-trades'', ''tokenDexTrades''), (''pnl'', ''tokenPnlLeaderboard''),
           (''who-bought-sold'', ''tokenWhoBoughtSold''),
           (''flow-intelligence'', ''tokenFlowIntelligence''),
           (''transfers'', ''tokenTransfers''), (''jup-dca'', ''tokenJupDca'')].
         \<exists>kvs. fst (token pf (js n # rest) flgs opts) = ApiCall (js m) (JObj kvs) \<and>
               map_of kvs (js ''tokenAddress'') =
                 Some (js_or (opts (js ''token'')) (opts (js ''token-address'')))) \<and>
      fst (token pf (js ''holders'' # rest) flgs opts) =
        ApiCall (js ''tokenHolders'')
          (JObj [(js ''tokenAddress'', js_or (opts (js ''token'')) (opts (js ''token-address''))),
                 (js ''chain'', js_or (opts (js ''chain'')) (JStr (js ''solana''))),
                 (js ''filters'', filters'),
                 (js ''orderBy'', orderBy),
                 (js ''pagination'', pagination_of ''per_page'' opts)])) \<and>
   (fst (profiler pf args flgs opts) = Threw e \<longrightarrow>
      parseSort pf (opts (js ''sort'')) (opts (js ''order-by'')) = Inl e \<or>
      days_of pf opts = Inl e \<or> (\<exists>v. e = TypeError HandlerCall v)) \<and>
   (fst (token pf args flgs opts) = Threw e \<longrightarrow>
      parseSort pf (opts (js ''sort'')) (opts (js ''order-by'')) = Inl e \<or>
      days_of pf opts = Inl e \<or>
      add_only_smart_money
        (js_or (js_or (opts (js ''smart-money'')) (flgs (js ''smart-money''))) (JBool False))
        (js_or (opts (js ''filters'')) (JObj [])) = Inl e \<or>
      (\<exists>v. e = TypeError HandlerCall v))"
proof -
  have 1: "\<forall>(n, m) \<in> set [(''balance'', ''addressBalance''), (''labels'', ''addressLabels''),
           (''transactions'', ''addressTransactions''), (''pnl'', ''addressPnl''),
           (''historical-balances'', ''addressHistoricalBalances''),
           (''related-wallets'', ''addressRelatedWallets''),
           (''counterparties'', ''addressCounterparties''),
           (''pnl-summary'', ''addressPnlSummary''),
           (''perp-positions'', ''addressPerpPositions''),
           (''perp-trades'', ''addressPerpTrades'')].
         \<exists>kvs. fst (profiler pf (js n # rest) flgs opts) = ApiCall (js m) (JObj kvs) \<and>
               map_of kvs (js ''address'') = Some (opts (js ''address''))"
    if "parseSort pf (opts (js ''sort'')) (opts (js ''order-by'')) = Inr orderBy"
      and "days_of pf opts = Inr days"
    using that
    by (simp add: profiler_resolved subcommand_of_js dispatch_js profiler_handlers_def obj_def)
  have 2: "fst (profiler pf (js ''balance'' # rest) flgs opts) =
        ApiCall (js ''addressBalance'')
          (JObj [(js ''address'', opts (js ''address'')),
                 (js ''entityName'', js_or (opts (js ''entity'')) (opts (js ''entity-name''))),
                 (js ''chain'', js_or (opts (js ''chain'')) (JStr (js ''ethereum''))),
                 (js ''filters'', js_or (opts (js ''filters'')) (JObj [])),
                 (js ''orderBy'', orderBy)])"
    if "parseSort pf (opts (js ''sort'')) (opts (js ''order-by'')) = Inr orderBy"
      and "days_of pf opts = Inr days"
    using that
    by (simp add: profiler_resolved subcommand_of_js dispatch_js profiler_handlers_def obj_def)
  have 3: "\<forall>(n, m) \<in> set [(''holders'', ''tokenHolders''), (''flows'', ''tokenFlows''),
           (''dex-trades'', ''tokenDexTrades''), (''pnl'', ''tokenPnlLeaderboard''),
           (''who-bought-sold'', ''tokenWhoBoughtSold''),
           (''flow-intelligence'', ''tokenFlowIntelligence''),
           (''transfers'', ''tokenTransfers''), (''jup-dca'', ''tokenJupDca'')].
         \<exists>kvs. fst (token pf (js n # rest) flgs opts) = ApiCall (js m) (JObj kvs) \<and>
               map_of kvs (js ''tokenAddress'') =
                 Some (js_or (opts (js ''token'')) (opts (js ''token-address'')))"
    if "parseSort pf (opts (js ''sort'')) (opts (js ''order-by'')) = Inr orderBy"
      and "days_of pf opts = Inr days"
      and "add_only_smart_money
        (js_or (js_or (opts (js ''smart-money'')) (flgs (js ''smart-money''))) (JBool False))
        (js_or (opts (js ''filters'')) (JObj [])) = Inr filters'"
    using that
    by (simp add: token_resolved subcommand_of_js dispatch_js token_handlers_def obj_def)
  have 4: "fst (token pf (js ''holders'' # rest) flgs opts) =
        ApiCall (js ''tokenHolders'')
          (JObj [(js ''tokenAddress'', js_or (opts (js ''token'')) (opts (js ''token-address''))),
                 (js ''chain'', js_or (opts (js ''chain'')) (JStr (js ''solana''))),
                 (js ''filters'', filters'),
                 (js ''orderBy'', orderBy),
                 (js ''pagination'', pagination_of ''per_page'' opts)])"
    if "parseSort pf (opts (js ''sort'')) (opts (js ''order-by'')) = Inr orderBy"
      and "days_of pf opts = Inr days"
      and "add_only_smart_money
        (js_or (js_or (opts (js ''smart-money'')) (flgs (js ''smart-money''))) (JBool False))
        (js_or (opts (js ''filters'')) (JObj [])) = Inr filters'"
    using that
    by (simp add: token_resolved subcommand_of_js dispatch_js token_handlers_def obj_def)
  from 1 2 3 4 profiler_Threw [of pf args flgs opts e] token_Threw [of pf args flgs opts e]
  show ?thesis by blast
qed

theorem handlers_forward_address_witness:
  "(parseSort example_platform (view_of [(''address'', JStr (js ''0x123''))] (js ''sort''))
      (view_of [(''address'', JStr (js ''0x123''))] (js ''order-by'')) = Inr JUndefined \<and>
    days_of example_platform (view_of [(''address'', JStr (js ''0x123''))])
      = Inr (JNum (Fin 30)) \<and>
    (\<exists>kvs. fst (profiler example_platform [js ''labels''] (view_of [])
                 (view_of [(''address'', JStr (js ''0x123''))]))
             = ApiCall (js ''addressLabels'') (JObj kvs) \<and>
           map_of kvs (js ''address'') = Some (JStr (js ''0x123''))) \<and>
    fst (profiler example_platform [js ''balance''] (view_of [])
           (view_of [(''address'', JStr (js ''0x123''))]))
      = ApiCall (js ''addressBalance'')
          (JObj [(js ''address'', JStr (js ''0x123'')), (js ''entityName'', JUndefined),
                 (js ''chain'', JStr (js ''ethereum'')), (js ''filters'', JObj []),
                 (js ''orderBy'', JUndefined)])) \<and>
   (parseSort example_platform (view_of [(''token'', JStr (js ''abc''))] (js ''sort''))
      (view_of [(''token'', JStr (js ''abc''))] (js ''order-by'')) = Inr JUndefined \<and>
    days_of example_platform (view_of [(''token'', JStr (js ''abc''))]) = Inr (JNum (Fin 30)) \<and>
    add_only_smart_money
      (js_or (js_or (view_of [(''token'', JStr (js ''abc''))] (js ''smart-money''))
                (view_of [] (js ''smart-money''))) (JBool False))
      (js_or (view_of [(''token'', JStr (js ''abc''))] (js ''filters'')) (JObj []))
      = Inr (JObj []) \<and>
    (\<exists>kvs. fst (token example_platform [js ''flows''] (view_of [])
                 (view_of [(''token'', JStr (js ''abc''))]))
             = ApiCall (js ''tokenFlows'') (JObj kvs) \<and>
           map_of kvs (js ''tokenAddress'') = Some (JStr (js ''abc''))) \<and>
    fst (token example_platform [js ''holders''] (view_of [])
           (view_of [(''token'', JStr (js ''abc''))]))
      = ApiCall (js ''tokenHolders'')
          (JObj [(js ''tokenAddress'', JStr (js ''abc'')), (js ''chain'', JStr (js ''solana'')),
                 (js ''filters'', JObj []), (js ''orderBy'', JUndefined),
                 (js ''pagination'', JUndefined)])) \<and>
   (fst (profiler example_platform [js ''balance''] (view_of [])
           (view_of [(''address'', JStr (js ''0x123'')), (''sort'', JNum (Fin 1))]))
      = Threw (TypeError SortSplit (JNum (Fin 1))) \<and>
    parseSort example_platform
      (view_of [(''address'', JStr (js ''0x123'')), (''sort'', JNum (Fin 1))] (js ''sort''))
      (view_of [(''address'', JStr (js ''0x123'')), (''sort'', JNum (Fin 1))] (js ''order-by''))
      = Inl (TypeError SortSplit (JNum (Fin 1)))) \<and>
   (fst (token example_platform [js ''holders''] (view_of [(''smart-money'', JBool True)])
           (view_of [(''token'', JStr (js ''abc'')), (''filters'', JNum (Fin 5))]))
      = Threw (TypeError FiltersAssign (JNum (Fin 5))) \<and>
    add_only_smart_money
      (js_or (js_or (view_of [(''token'', JStr (js ''abc'')), (''filters'', JNum (Fin 5))]
                       (js ''smart-money''))
                (view_of [(''smart-money'', JBool True)] (js ''smart-money''))) (JBool False))
      (js_or (view_of [(''token'', JStr (js ''abc'')), (''filters'', JNum (Fin 5))] (js ''filters''))
         (JObj []))
      = Inl (TypeError FiltersAssign (JNum (Fin 5))))"
proof -
  let ?a = "view_of [(''address'', JStr (js ''0x123''))]"
  let ?t = "view_of [(''token'', JStr (js ''abc''))]"
  let ?s = "view_of [(''address'', JStr (js ''0x123'')), (''sort'', JNum (Fin 1))]"
  let ?f = "view_of [(''token'', JStr (js ''abc'')), (''filters'', JNum (Fin 5))]"
  let ?sm = "view_of [(''smart-money'', JBool True)]"
  have a1: "parseSort example_platform (?a (js ''sort'')) (?a (js ''order-by'')) = Inr JUndefined"
    by (simp add: handler_eval)
  have a2: "days_of example_platform ?a = Inr (JNum (Fin 30))"
    by (simp add: handler_eval)
  have av: "?a (js ''address'') = JStr (js ''0x123'')"
      "js_or (?a (js ''entity'')) (?a (js ''entity-name'')) = JUndefined"
      "js_or (?a (js ''chain'')) (JStr (js ''ethereum'')) = JStr (js ''ethereum'')"
      "js_or (?a (js ''filters'')) (JObj []) = JObj []"
    by (simp_all add: handler_eval)
  have m: "(''labels'', ''addressLabels'') \<in> set [(''balance'', ''addressBalance''),
           (''labels'', ''addressLabels''),
           (''transactions'', ''addressTransactions''), (''pnl'', ''addressPnl''),
           (''historical-balances'', ''addressHistoricalBalances''),
           (''related-wallets'', ''addressRelatedWallets''),
           (''counterparties'', ''addressCounterparties''),
           (''pnl-summary'', ''addressPnlSummary''),
           (''perp-positions'', ''addressPerpPositions''),
           (''perp-trades'', ''addressPerpTrades'')]"
    by simp
  note A = handlers_forward_address [of example_platform ?a JUndefined "JNum (Fin 30)" "[]"
      "view_of []" "JObj []" "[]" "TypeError SortSplit JNull"]
  from A a1 a2 m
  have 1: "\<exists>kvs. fst (profiler example_platform [js ''labels''] (view_of []) ?a)
             = ApiCall (js ''addressLabels'') (JObj kvs) \<and>
           map_of kvs (js ''address'') = Some (?a (js ''address''))"
    by blast
  from A a1 a2
  have 2: "fst (profiler example_platform [js ''balance''] (view_of []) ?a)
      = ApiCall (js ''addressBalance'')
          (JObj [(js ''address'', ?a (js ''address'')),
                 (js ''entityName'', js_or (?a (js ''entity'')) (?a (js ''entity-name''))),
                 (js ''chain'', js_or (?a (js ''chain'')) (JStr (js ''ethereum''))),
                 (js ''filters'', js_or (?a (js ''filters'')) (JObj [])),
                 (js ''orderBy'', JUndefined)])"
    by blast
  have t1: "parseSort example_platform (?t (js ''sort'')) (?t (js ''order-by'')) = Inr JUndefined"
    by (simp add: handler_eval)
  have t2: "days_of example_platform ?t = Inr (JNum (Fin 30))"
    by (simp add: handler_eval)
  have t3: "add_only_smart_money
      (js_or (js_or (?t (js ''smart-money'')) (view_of [] (js ''smart-money''))) (JBool False))
      (js_or (?t (js ''filters'')) (JObj [])) = Inr (JObj [])"
    by (simp add: handler_eval)
  have tv: "js_or (?t (js ''token'')) (?t (js ''token-address'')) = JStr (js ''abc'')"
      "js_or (?t (js ''chain'')) (JStr (js ''solana'')) = JStr (js ''solana'')"
      "pagination_of ''per_page'' ?t = JUndefined"
    by (simp_all add: handler_eval)
  have n: "(''flows'', ''tokenFlows'') \<in> set [(''holders'', ''tokenHolders''),
           (''flows'', ''tokenFlows''),
           (''dex-trades'', ''tokenDexTrades''), (''pnl'', ''tokenPnlLeaderboard''),
           (''who-bought-sold'', ''tokenWhoBoughtSold''),
           (''flow-intelligence'', ''tokenFlowIntelligence''),
           (''transfers'', ''tokenTransfers''), (''jup-dca'', ''tokenJupDca'')]"
    by simp
  note T = handlers_forward_address [of example_platform ?t JUndefined "JNum (Fin 30)" "[]"
      "view_of []" "JObj []" "[]" "TypeError SortSplit JNull"]
  from T t1 t2 t3 n
  have 3: "\<exists>kvs. fst (token example_platform [js ''flows''] (view_of []) ?t)
             = ApiCall (js ''tokenFlows'') (JObj kvs) \<and>
           map_of kvs (js ''tokenAddress'') =
             Some (js_or (?t (js ''token'')) (?t (js ''token-address'')))"
    by blast
  from T t1 t2 t3
  have 4: "fst (token example_platform [js ''holders''] (view_of []) ?t)
      = ApiCall (js ''tokenHolders'')
          (JObj [(js ''tokenAddress'', js_or (?t (js ''token'')) (?t (js ''token-address''))),
                 (js ''chain'', js_or (?t (js ''chain'')) (JStr (js ''solana''))),
                 (js ''filters'', JObj []),
                 (js ''orderBy'', JUndefined),
                 (js ''pagination'', pagination_of ''per_page'' ?t)])"
    by blast
  have s1: "fst (profiler example_platform [js ''balance''] (view_of []) ?s)
      = Threw (TypeError SortSplit (JNum (Fin 1)))"
    by (simp add: handler_eval)
  have s2: "days_of example_platform ?s \<noteq> Inl (TypeError SortSplit (JNum (Fin 1)))"
    by (simp add: handler_eval)
  from handlers_forward_address [of example_platform ?s JUndefined JUndefined "[]"
      "view_of []" JUndefined "[js ''balance'']" "TypeError SortSplit (JNum (Fin 1))"] s1 s2
  have 5: "parseSort example_platform (?s (js ''sort'')) (?s (js ''order-by''))
      = Inl (TypeError SortSplit (JNum (Fin 1)))"
    by blast
  have f1: "fst (token example_platform [js ''holders''] ?sm ?f)
      = Threw (TypeError FiltersAssign (JNum (Fin 5)))"
    by (simp add: handler_eval example_platform_def)
  have f2: "parseSort example_platform (?f (js ''sort'')) (?f (js ''order-by''))
      \<noteq> Inl (TypeError FiltersAssign (JNum (Fin 5)))"
    "days_of example_platform ?f \<noteq> Inl (TypeError FiltersAssign (JNum (Fin 5)))"
    by (simp_all add: handler_eval)
  from handlers_forward_address [of example_platform ?f JUndefined JUndefined "[]"
      ?sm JUndefined "[js ''holders'']" "TypeError FiltersAssign (JNum (Fin 5))"] f1 f2
  have 6: "add_only_smart_money
      (js_or (js_or (?f (js ''smart-money'')) (?sm (js ''smart-money''))) (JBool False))
      (js_or (?f (js ''filters'')) (JObj []))
      = Inl (TypeError FiltersAssign (JNum (Fin 5)))"
    by blast
  from a1 a2 1 2 t1 t2 t3 3 4 s1 5 f1 6 show ?thesis
    unfolding av tv by blast
qed

text \<open>
  Claim C1 as stated fails: \<open>0x123\<close> is not an address of any chain, and the profiler
  handler passes it to \<open>addressBalance\<close> (the repository's own test of the handler
  expects this call).
\<close>

theorem malformed_address_counterexample:
  "fst (profiler example_platform [js ''balance''] (view_of [])
          (view_of [(''address'', JStr (js ''0x123'')), (''chain'', JStr (js ''ethereum''))]))
     = ApiCall (js ''addressBalance'')
         (obj [(''address'', JStr (js ''0x123'')), (''entityName'', JUndefined),
               (''chain'', JStr (js ''ethereum'')), (''filters'', JObj []),
               (''orderBy'', JUndefined)])"
  by (simp add: handler_eval profiler_handlers_def example_platform_def)

subsection \<open>Unknown subcommands\<close>

lemma dispatch_unknown:
  "map_of (map (\<lambda>(n, h). (js n, h)) hs) sub = None \<Longrightarrow> \<not> truthy (object_member sub) \<Longrightarrow>
   dispatch hs sub =
     Returned (obj [(''error'', JStr (js ''Unknown subcommand: '' @ sub)),
                    (''available'', JArr (map (JStr \<circ> js \<circ> fst) hs))])"
  by (simp add: dispatch_def)

text \<open>
  Claim C3. An unknown subcommand such as \<open>bogus\<close> gives the \<open>{error, available}\<close>
  object, no API call, a success envelope and no exit. But \<open>handlers[subcommand]\<close> also
  finds what the handler table inherits from \<open>Object.prototype\<close>: for \<open>constructor\<close>
  the handler returns \<open>{}\<close>, and for \<open>__proto__\<close> the value found is not a function, the
  call throws, and the run ends with \<open>exit(1)\<close>.
\<close>

theorem unknown_subcommand_examples:
  "fst (smart_money example_platform [js ''bogus''] (view_of []) (view_of []))
     = Returned (obj [(''error'', JStr (js ''Unknown subcommand: bogus'')),
                      (''available'',
                       JArr [JStr (js ''netflow''), JStr (js ''dex-trades''),
                             JStr (js ''perp-trades''), JStr (js ''holdings''),
                             JStr (js ''dcas''), JStr (js ''historical-holdings''),
                             JStr (js ''help'')])]) \<and>
   exit_status (runCLI example_platform example_api [js ''smart-money'', js ''bogus'']) = None \<and>
   fst (token example_platform [js ''constructor''] (view_of []) (view_of []))
     = Returned (JObj []) \<and>
   fst (smart_money example_platform [js ''__proto__''] (view_of []) (view_of []))
     = Threw (TypeError HandlerCall (JObj [])) \<and>
   exit_status (runCLI example_platform example_api [js ''smart-money'', js ''__proto__''])
     = Some 1"
  by (simp add: router_eval parse_eval handler_eval smart_money_handlers_def
        token_handlers_def example_platform_def)

section \<open>Properties of the router\<close>

text \<open>
  Claim C2. \<open>--no-retry\<close> gives \<open>maxRetries = 0\<close>, \<open>--retries 5\<close> gives \<open>5\<close>, and neither
  gives \<open>3\<close>. But \<open>--retries 0\<close> gives \<open>3\<close> as well: the token parses to the number
  \<open>0\<close>, and \<open>options.retries || 3\<close> takes \<open>0\<close> for a missing value.
\<close>

theorem retries_examples:
  "maxRetries example_platform (runCLI example_platform example_api
      [js ''smart-money'', js ''netflow'', js ''--no-retry'']) = Some (JNum (Fin 0)) \<and>
   maxRetries example_platform (runCLI example_platform example_api
      [js ''smart-money'', js ''netflow'', js ''--retries'', js ''5'']) = Some (JNum (Fin 5)) \<and>
   maxRetries example_platform (runCLI example_platform example_api
      [js ''smart-money'', js ''netflow'']) = Some (JNum (Fin 3)) \<and>
   maxRetries example_platform (runCLI example_platform example_api
      [js ''smart-money'', js ''netflow'', js ''--retries'', js ''0'']) = Some (JNum (Fin 3))"
  by (simp add: router_eval parse_eval handler_eval smart_money_handlers_def
        example_platform_def)

section \<open>Properties of the cell formatter\<close>

lemma digits_small: "n < 10 \<Longrightarrow> digits n = [48 + n]"
  by simp

lemma digits_step: "10 \<le> n \<Longrightarrow> digits n = digits (n div 10) @ [48 + n mod 10]"
  by (subst digits.simps) simp

declare digits.simps [simp del]

lemma digits_two: "10 \<le> n \<Longrightarrow> n < 100 \<Longrightarrow> digits n = [48 + n div 10, 48 + n mod 10]"
  by (simp add: digits_step digits_small)

lemma digits_hundred:
  "100 \<le> n \<Longrightarrow> digits n = digits (n div 100) @ [48 + (n div 10) mod 10, 48 + n mod 10]"
proof -
  assume a: "100 \<le> n"
  then have "10 \<le> n div 10" by simp
  then have "digits (n div 10) = digits (n div 10 div 10) @ [48 + (n div 10) mod 10]"
    by (rule digits_step)
  moreover have "n div 10 div 10 = n div 100"
    by (simp add: div_mult2_eq [symmetric])
  moreover have "digits n = digits (n div 10) @ [48 + n mod 10]"
    using a by (simp add: digits_step)
  ultimately show ?thesis by simp
qed

lemma digits_nonempty: "digits n \<noteq> []"
  by (cases "n < 10") (simp_all add: digits_small digits_step)

lemma pad_split:
  "(let m = digits n; m' = replicate (3 - length m) 48 @ m
    in take (length m' - 2) m' @ js ''.'' @ drop (length m' - 2) m')
   = digits (n div 100) @ js ''.'' @ [48 + (n div 10) mod 10, 48 + n mod 10]"
proof -
  consider "n < 10" | "10 \<le> n" "n < 100" | "100 \<le> n" by linarith
  then show ?thesis
  proof cases
    case 1
    then show ?thesis
      by (simp add: digits_small Let_def numeral_3_eq_3)
  next
    case 2
    then show ?thesis
      by (simp add: digits_two digits_small Let_def numeral_3_eq_3)
  next
    case 3
    moreover have "Suc 0 \<le> length (digits (n div 100))"
      using digits_nonempty [of "n div 100"] by (cases "digits (n div 100)") simp_all
    ultimately show ?thesis
      by (simp add: digits_hundred [of n] Let_def)
  qed
qed

lemma fixed2_digits_eq:
  "fixed2_digits x =
     digits (nat \<lfloor>x * 100 + 1 / 2\<rfloor> div 100) @ js ''.'' @
     [48 + (nat \<lfloor>x * 100 + 1 / 2\<rfloor> div 10) mod 10, 48 + nat \<lfloor>x * 100 + 1 / 2\<rfloor> mod 10]"
  unfolding fixed2_digits_def by (rule pad_split)

lemma toFixed2_two_decimals:
  "\<bar>q\<bar> < 10 ^ 21 \<Longrightarrow> toFixed2 pf (Fin q) = two_decimals q"
  by (simp add: fixed2_digits_eq two_decimals_def Let_def)

lemma digits_value_snoc: "digits_value (s @ [c]) = 10 * digits_value s + (c - 48)"
  by (simp add: digits_value_def)

lemma digits_value_digits: "digits_value (digits n) = n"
proof (induction n rule: digits.induct)
  case (1 n)
  show ?case
  proof (cases "n < 10")
    case True
    then show ?thesis by (simp add: digits_small digits_value_def)
  next
    case False
    with 1 show ?thesis
      by (simp add: digits_step digits_value_snoc)
  qed
qed


lemma formatNumber_M:
  "1000000 \<le> \<bar>q\<bar> \<Longrightarrow> num_div (Fin q) 1000000 = Fin x \<Longrightarrow> \<bar>x\<bar> < 10 ^ 21 \<Longrightarrow>
   formatNumber pf (Fin q) = two_decimals x @ js ''M''"
  by (simp add: formatNumber_def toFixed2_two_decimals del: num_div.simps toFixed2.simps)

lemma formatNumber_M_large:
  "1000000 \<le> \<bar>q\<bar> \<Longrightarrow> num_div (Fin q) 1000000 = Fin x \<Longrightarrow> 10 ^ 21 \<le> \<bar>x\<bar> \<Longrightarrow>
   formatNumber pf (Fin q) = (if x < 0 then js ''-'' else []) @ number_toString pf \<bar>x\<bar> @ js ''M''"
proof -
  assume a: "1000000 \<le> \<bar>q\<bar>" "num_div (Fin q) 1000000 = Fin x" "10 ^ 21 \<le> \<bar>x\<bar>"
  have "(2::rat) ^ 53 < 10 ^ 21"
    by simp
  with a(3) have "\<not> \<bar>x\<bar> < 2 ^ 53"
    by linarith
  with a show ?thesis
    by (simp add: formatNumber_def del: num_div.simps)
qed

lemma formatNumber_K:
  "1000 \<le> \<bar>q\<bar> \<Longrightarrow> \<bar>q\<bar> < 1000000 \<Longrightarrow> num_div (Fin q) 1000 = Fin x \<Longrightarrow> \<bar>x\<bar> < 10 ^ 21 \<Longrightarrow>
   formatNumber pf (Fin q) = two_decimals x @ js ''K''"
  by (simp add: formatNumber_def toFixed2_two_decimals del: num_div.simps toFixed2.simps)

lemma formatNumber_integer:
  "\<bar>q\<bar> < 1000 \<Longrightarrow> q = of_int i \<Longrightarrow>
   formatNumber pf (Fin q) = (if i < 0 then js ''-'' else []) @ digits (nat \<bar>i\<bar>)"
proof -
  assume a: "\<bar>q\<bar> < 1000" "q = of_int i"
  have "\<bar>q\<bar> < 10 ^ 21"
    using a(1) by simp
  then show ?thesis
    using a by (simp add: formatNumber_def del: toFixed2.simps)
qed

lemma formatNumber_fraction:
  "\<bar>q\<bar> < 1000 \<Longrightarrow> q \<noteq> of_int \<lfloor>q\<rfloor> \<Longrightarrow> formatNumber pf (Fin q) = two_decimals q"
proof -
  assume a: "\<bar>q\<bar> < 1000" "q \<noteq> of_int \<lfloor>q\<rfloor>"
  have "\<bar>q\<bar> < 10 ^ 21"
    using a(1) by simp
  then show ?thesis
    using a by (simp add: formatNumber_def toFixed2_two_decimals del: toFixed2.simps)
qed

lemma floor_rat_numeral [simp]: "\<lfloor>numeral a / numeral b :: rat\<rfloor> = numeral a div numeral b"
  using floor_divide_of_int_eq [of "numeral a" "numeral b", where ?'a = rat] by simp

lemma floor_rat_neg_numeral [simp]:
  "\<lfloor>- (numeral a / numeral b) :: rat\<rfloor> = - numeral a div numeral b"
  using floor_divide_of_int_eq [of "- numeral a" "numeral b", where ?'a = rat] by simp

lemma ceiling_rat_numeral [simp]:
  "\<lceil>numeral a / numeral b :: rat\<rceil> = - (- numeral a div numeral b)"
  by (simp add: ceiling_def)

lemma round64_examples:
  "round64 (3 / 2) = Fin (3 / 2)"
  "round64 (- (3 / 2)) = Fin (- (3 / 2))"
  "round64 (314159 / 100000) = Fin (3537115888337719 / 1125899906842624)"
  unfolding round64_def round_half_even_def Let_def by (simp add: binade_def pow2_def)+

lemma round64_large:
  "round64 (1000000000000000013287555072 / 1000000) = Fin 1000000000000000000000"
  unfolding round64_def round_half_even_def Let_def by (simp add: binade_def pow2_def)

lemma two_decimals_examples:
  "two_decimals (3 / 2) = js ''1.50''"
  "two_decimals (- (3 / 2)) = js ''-1.50''"
  "two_decimals (3537115888337719 / 1125899906842624) = js ''3.14''"
  unfolding two_decimals_def Let_def by (simp_all add: digits_small js_def)

lemma formatValue_examples:
  "formatValue pf (JNum (Fin 1500000)) = js ''1.50M''"
  "formatValue pf (JNum (Fin (- 1500))) = js ''-1.50K''"
  "formatValue pf (JNum (Fin 42)) = js ''42''"
  "formatValue pf (JNum (round64 (314159 / 100000))) = js ''3.14''"
proof -
  show "formatValue pf (JNum (Fin 1500000)) = js ''1.50M''"
    using formatNumber_M [of 1500000 "3 / 2" pf]
    by (simp add: round64_examples two_decimals_examples js_def)
  show "formatValue pf (JNum (Fin (- 1500))) = js ''-1.50K''"
    using formatNumber_K [of "- 1500" "- (3 / 2)" pf]
    by (simp add: round64_examples two_decimals_examples js_def)
  have "digits 42 = js ''42''"
    using digits_two [of 42] by (simp add: js_def)
  moreover have "formatNumber pf (Fin 42) =
      (if (42::int) < 0 then js ''-'' else []) @ digits (nat \<bar>42::int\<bar>)"
    by (rule formatNumber_integer) simp_all
  ultimately show "formatValue pf (JNum (Fin 42)) = js ''42''"
    by simp
  show "formatValue pf (JNum (round64 (314159 / 100000))) = js ''3.14''"
    using formatNumber_fraction [of "3537115888337719 / 1125899906842624" pf]
    by (simp add: round64_examples two_decimals_examples)
qed

text \<open>
  Claim C9. \<open>formatValue\<close> maps null and undefined to the empty string; a finite number of
  magnitude at least 1,000,000 to its quotient by 1,000,000 with two decimal places and \<open>M\<close>;
  one of magnitude at least 1,000 to its quotient by 1,000 with two decimal places and \<open>K\<close>;
  a remaining integer to its decimal digits; any other finite number to two decimal
  places; an array or object to its compact JSON; anything else to its string conversion.
  The quotient is the double nearest to the exact one, and it has two decimal places as
  long as its magnitude is below \<open>10^21\<close>; from there on it is printed as \<open>toString\<close>
  prints it, in exponent notation. The numbers that are not finite have no decimal
  places either: the infinities give \<open>InfinityM\<close> and \<open>-InfinityM\<close>, not-a-number
  gives \<open>NaN\<close>. So \<open>formatValue(1500000) = '1.50M'\<close>, \<open>formatValue(-1500) = '-1.50K'\<close>,
  \<open>formatValue(42) = '42'\<close> and \<open>formatValue(3.14159) = '3.14'\<close>.
\<close>

theorem formatValue_cases:
  "formatValue pf JNull = [] \<and> formatValue pf JUndefined = [] \<and>
   (1000000 \<le> \<bar>q\<bar> \<and> num_div (Fin q) 1000000 = Fin x \<and> \<bar>x\<bar> < 10 ^ 21 \<longrightarrow>
      formatValue pf (JNum (Fin q)) = two_decimals x @ js ''M'') \<and>
   (1000000 \<le> \<bar>q\<bar> \<and> num_div (Fin q) 1000000 = Fin x \<and> 10 ^ 21 \<le> \<bar>x\<bar> \<longrightarrow>
      formatValue pf (JNum (Fin q)) =
        (if x < 0 then js ''-'' else []) @ number_toString pf \<bar>x\<bar> @ js ''M'') \<and>
   (1000 \<le> \<bar>q\<bar> \<and> \<bar>q\<bar> < 1000000 \<and> num_div (Fin q) 1000 = Fin x \<and> \<bar>x\<bar> < 10 ^ 21 \<longrightarrow>
      formatValue pf (JNum (Fin q)) = two_decimals x @ js ''K'') \<and>
   (\<bar>q\<bar> < 1000 \<and> q = of_int i \<longrightarrow>
      formatValue pf (JNum (Fin q)) = (if i < 0 then js ''-'' else []) @ digits (nat \<bar>i\<bar>)) \<and>
   (\<bar>q\<bar> < 1000 \<and> q \<noteq> of_int \<lfloor>q\<rfloor> \<longrightarrow> formatValue pf (JNum (Fin q)) = two_decimals q) \<and>
   formatValue pf (JNum PInf) = js ''InfinityM'' \<and>
   formatValue pf (JNum NInf) = js ''-InfinityM'' \<and>
   formatValue pf (JNum NaN) = js ''NaN'' \<and>
   formatValue pf (JArray xs ps) = JSON_stringify pf (JArray xs ps) \<and>
   formatValue pf (JObj kvs) = JSON_stringify pf (JObj kvs) \<and>
   formatValue pf (JStr s) = String_of pf (JStr s) \<and>
   formatValue pf (JBool b) = String_of pf (JBool b) \<and>
   formatValue pf (JFunc f ps) = String_of pf (JFunc f ps) \<and>
   formatValue pf (JNum (Fin 1500000)) = js ''1.50M'' \<and>
   formatValue pf (JNum (Fin (- 1500))) = js ''-1.50K'' \<and>
   formatValue pf (JNum (Fin 42)) = js ''42'' \<and>
   formatValue pf (JNum (round64 (314159 / 100000))) = js ''3.14''"
proof -
  have 1: "formatValue pf JNull = [] \<and> formatValue pf JUndefined = []"
    by simp
  have 2: "1000000 \<le> \<bar>q\<bar> \<and> num_div (Fin q) 1000000 = Fin x \<and> \<bar>x\<bar> < 10 ^ 21 \<longrightarrow>
      formatValue pf (JNum (Fin q)) = two_decimals x @ js ''M''"
    using formatNumber_M [of q x pf] by (simp del: num_div.simps)
  have 3: "1000 \<le> \<bar>q\<bar> \<and> \<bar>q\<bar> < 1000000 \<and> num_div (Fin q) 1000 = Fin x \<and> \<bar>x\<bar> < 10 ^ 21 \<longrightarrow>
      formatValue pf (JNum (Fin q)) = two_decimals x @ js ''K''"
    using formatNumber_K [of q x pf] by (simp del: num_div.simps)
  have 4: "\<bar>q\<bar> < 1000 \<and> q = of_int i \<longrightarrow>
      formatValue pf (JNum (Fin q)) = (if i < 0 then js ''-'' else []) @ digits (nat \<bar>i\<bar>)"
    using formatNumber_integer [of q i pf] by auto
  have 5: "\<bar>q\<bar> < 1000 \<and> q \<noteq> of_int \<lfloor>q\<rfloor> \<longrightarrow> formatValue pf (JNum (Fin q)) = two_decimals q"
    using formatNumber_fraction [of q pf] by simp
  have 6: "formatValue pf (JArray xs ps) = JSON_stringify pf (JArray xs ps) \<and>
   formatValue pf (JObj kvs) = JSON_stringify pf (JObj kvs) \<and>
   formatValue pf (JStr s) = String_of pf (JStr s) \<and>
   formatValue pf (JBool b) = String_of pf (JBool b) \<and>
   formatValue pf (JFunc f ps) = String_of pf (JFunc f ps)"
    by simp
  have 7: "1000000 \<le> \<bar>q\<bar> \<and> num_div (Fin q) 1000000 = Fin x \<and> 10 ^ 21 \<le> \<bar>x\<bar> \<longrightarrow>
      formatValue pf (JNum (Fin q)) =
        (if x < 0 then js ''-'' else []) @ number_toString pf \<bar>x\<bar> @ js ''M''"
    using formatNumber_M_large [of q x pf] by (simp del: num_div.simps)
  have 8: "formatValue pf (JNum PInf) = js ''InfinityM'' \<and>
   formatValue pf (JNum NInf) = js ''-InfinityM'' \<and>
   formatValue pf (JNum NaN) = js ''NaN''"
    by (simp add: formatNumber_def js_def)
  from 1 2 3 4 5 6 7 8 formatValue_examples [of pf] show ?thesis
    by blast
qed


theorem formatValue_cases_witness:
  "((1000000::rat) \<le> \<bar>1500000\<bar> \<and> num_div (Fin 1500000) 1000000 = Fin (3 / 2) \<and>
    \<bar>3 / 2 :: rat\<bar> < 10 ^ 21 \<and>
    formatValue example_platform (JNum (Fin 1500000)) = two_decimals (3 / 2) @ js ''M'') \<and>
   ((1000::rat) \<le> \<bar>- 1500\<bar> \<and> \<bar>- 1500 :: rat\<bar> < 1000000 \<and>
    num_div (Fin (- 1500)) 1000 = Fin (- (3 / 2)) \<and> \<bar>- (3 / 2) :: rat\<bar> < 10 ^ 21 \<and>
    formatValue example_platform (JNum (Fin (- 1500))) = two_decimals (- (3 / 2)) @ js ''K'') \<and>
   (\<bar>42 :: rat\<bar> < 1000 \<and> (42::rat) = of_int 42 \<and>
    formatValue example_platform (JNum (Fin 42)) =
      (if (42::int) < 0 then js ''-'' else []) @ digits (nat \<bar>42\<bar>)) \<and>
   (\<bar>314159 / 100000 :: rat\<bar> < 1000 \<and>
    (314159 / 100000 :: rat) \<noteq> of_int \<lfloor>314159 / 100000 :: rat\<rfloor> \<and>
    formatValue example_platform (JNum (Fin (314159 / 100000))) =
      two_decimals (314159 / 100000)) \<and>
   ((1000000::rat) \<le> \<bar>1000000000000000013287555072\<bar> \<and>
    num_div (Fin 1000000000000000013287555072) 1000000 = Fin 1000000000000000000000 \<and>
    (10::rat) ^ 21 \<le> \<bar>1000000000000000000000\<bar> \<and>
    formatValue example_platform (JNum (Fin 1000000000000000013287555072)) =
      number_toString example_platform 1000000000000000000000 @ js ''M'')"
proof -
  have m: "(1000000::rat) \<le> \<bar>1500000\<bar> \<and> num_div (Fin 1500000) 1000000 = Fin (3 / 2) \<and>
      \<bar>3 / 2 :: rat\<bar> < 10 ^ 21"
    by (simp add: round64_examples)
  have k: "(1000::rat) \<le> \<bar>- 1500\<bar> \<and> \<bar>- 1500 :: rat\<bar> < 1000000 \<and>
      num_div (Fin (- 1500)) 1000 = Fin (- (3 / 2)) \<and> \<bar>- (3 / 2) :: rat\<bar> < 10 ^ 21"
    by (simp add: round64_examples)
  have i: "\<bar>42 :: rat\<bar> < 1000 \<and> (42::rat) = of_int 42"
    by simp
  have f: "\<bar>314159 / 100000 :: rat\<bar> < 1000 \<and>
      (314159 / 100000 :: rat) \<noteq> of_int \<lfloor>314159 / 100000 :: rat\<rfloor>"
    by simp
  from m formatValue_cases [of example_platform 1500000 "3 / 2"]
  have 1: "formatValue example_platform (JNum (Fin 1500000)) = two_decimals (3 / 2) @ js ''M''"
    by blast
  from k formatValue_cases [of example_platform "- 1500" "- (3 / 2)"]
  have 2: "formatValue example_platform (JNum (Fin (- 1500))) =
      two_decimals (- (3 / 2)) @ js ''K''"
    by blast
  from i formatValue_cases [of example_platform 42 _ 42]
  have 3: "formatValue example_platform (JNum (Fin 42)) =
      (if (42::int) < 0 then js ''-'' else []) @ digits (nat \<bar>42\<bar>)"
    by blast
  from f formatValue_cases [of example_platform "314159 / 100000"]
  have 4: "formatValue example_platform (JNum (Fin (314159 / 100000))) =
      two_decimals (314159 / 100000)"
    by blast
  have l: "(1000000::rat) \<le> \<bar>1000000000000000013287555072\<bar> \<and>
      num_div (Fin 1000000000000000013287555072) 1000000 = Fin 1000000000000000000000 \<and>
      (10::rat) ^ 21 \<le> \<bar>1000000000000000000000\<bar>"
    using round64_large by simp
  from l formatValue_cases [of example_platform 1000000000000000013287555072
      1000000000000000000000]
  have "formatValue example_platform (JNum (Fin 1000000000000000013287555072)) =
      (if (1000000000000000000000::rat) < 0 then js ''-'' else []) @
      number_toString example_platform \<bar>1000000000000000000000\<bar> @ js ''M''"
    by blast
  then have 5: "formatValue example_platform (JNum (Fin 1000000000000000013287555072)) =
      number_toString example_platform 1000000000000000000000 @ js ''M''"
    by simp
  from m k i f l 1 2 3 4 5 show ?thesis
    by blast
qed

text \<open>
  Claim C9 as stated, for every number, fails at the numbers that are not finite:
  infinity, which \<open>JSON.parse\<close> gives for a literal such as \<open>1e999\<close>, has an absolute
  value above 1,000,000 and is rendered as \<open>InfinityM\<close>, without decimal places.
\<close>

theorem formatValue_not_finite_counterexample:
  "formatValue example_platform (JNum PInf) = js ''InfinityM'' \<and>
   formatValue example_platform (JNum NaN) = js ''NaN''"
  by (simp add: formatNumber_def js_def)

section \<open>Properties of the table formatter\<close>

lemma keys_of_total:
  "r \<noteq> JNull \<Longrightarrow> r \<noteq> JUndefined \<Longrightarrow> \<exists>ks. keys_of r = Inr ks"
  by (cases r) simp_all

lemma keys_of_throw:
  "r = JNull \<or> r = JUndefined \<Longrightarrow> keys_of r = Inl (TypeError ObjectKeys r)"
  by auto

lemma flat_keys_total:
  "\<forall>r \<in> set rs. r \<noteq> JNull \<and> r \<noteq> JUndefined \<Longrightarrow> \<exists>ks. flat_keys rs = Inr ks"
proof (induction rs)
  case Nil
  then show ?case by simp
next
  case (Cons r rs)
  then obtain ks where "keys_of r = Inr ks"
    using keys_of_total [of r] by auto
  moreover from Cons obtain ks' where "flat_keys rs = Inr ks'"
    by auto
  ultimately show ?case by simp
qed

lemma flat_keys_throw:
  "\<exists>r \<in> set rs. r = JNull \<or> r = JUndefined \<Longrightarrow>
   \<exists>r \<in> set rs. (r = JNull \<or> r = JUndefined) \<and> flat_keys rs = Inl (TypeError ObjectKeys r)"
proof (induction rs)
  case Nil
  then show ?case by simp
next
  case (Cons r rs)
  show ?case
  proof (cases "r = JNull \<or> r = JUndefined")
    case True
    then show ?thesis by auto
  next
    case False
    then obtain ks where ks: "keys_of r = Inr ks"
      using keys_of_total [of r] by auto
    from False Cons.prems have "\<exists>r \<in> set rs. r = JNull \<or> r = JUndefined"
      by auto
    with Cons.IH obtain r' where "r' \<in> set rs" "r' = JNull \<or> r' = JUndefined"
        "flat_keys rs = Inl (TypeError ObjectKeys r')"
      by blast
    with ks show ?thesis by auto
  qed
qed

lemma set_insert_by: "set (insert_by cmp x ys) = insert x (set ys)"
  by (induction ys) auto

lemma distinct_insert_by: "distinct ys \<Longrightarrow> x \<notin> set ys \<Longrightarrow> distinct (insert_by cmp x ys)"
  by (induction ys) (auto simp: set_insert_by)

lemma set_sort_by: "set (sort_by cmp xs) = set xs"
  by (induction xs) (auto simp: sort_by_def set_insert_by)

lemma distinct_sort_by: "distinct xs \<Longrightarrow> distinct (sort_by cmp xs)"
proof (induction xs)
  case Nil
  then show ?case by (simp add: sort_by_def)
next
  case (Cons x xs)
  then have "distinct (sort_by cmp xs)" "x \<notin> set (sort_by cmp xs)"
    by (simp_all add: set_sort_by)
  then have "distinct (insert_by cmp x (sort_by cmp xs))"
    by (rule distinct_insert_by)
  then show ?case by (simp add: sort_by_def)
qed

lemma columns_of_shape:
  "length (columns_of pf (uniq keys)) \<le> 8 \<and> distinct (columns_of pf (uniq keys)) \<and>
   set (columns_of pf (uniq keys)) \<subseteq> set keys"
proof -
  have "distinct (uniq keys)" "set (uniq keys) = set keys"
    by (simp_all add: uniq_def)
  then have "distinct (sort_by (compare_columns pf) (uniq keys))"
      "set (sort_by (compare_columns pf) (uniq keys)) = set keys"
    by (simp_all add: distinct_sort_by set_sort_by)
  then show ?thesis
    unfolding columns_of_def using set_take_subset [of 8 "sort_by (compare_columns pf) (uniq keys)"]
    by (auto simp: distinct_take)
qed


lemma extract_records_array: "extract_records pf (JArray xs ps) = xs"
  by (simp add: extract_records_def Let_def)

lemma formatTable_empty:
  "extract_records pf data = [] \<Longrightarrow> formatTable pf data = Inr (js ''No data'')"
  by (simp add: formatTable_def Let_def)

lemma formatTable_records:
  "extract_records pf data = records \<Longrightarrow> records \<noteq> [] \<Longrightarrow>
   \<forall>r \<in> set records. r \<noteq> JNull \<and> r \<noteq> JUndefined \<Longrightarrow>
   \<exists>columns. table_columns pf records = Inr columns \<and> length columns \<le> 8 \<and>
     distinct columns \<and>
     formatTable pf data =
       Inr (join [10]
             ([header_line columns (map (width_of pf records) columns),
               rule_line (map (width_of pf records) columns)] @
              map (row_line pf columns (map (width_of pf records) columns)) (take 50 records) @
              (if 50 < length records
               then [js ''... and '' @ digits (length records - 50) @ js '' more rows'']
               else [])))"
proof -
  assume a: "extract_records pf data = records" "records \<noteq> []"
    "\<forall>r \<in> set records. r \<noteq> JNull \<and> r \<noteq> JUndefined"
  from a(3) obtain keys where k: "flat_keys records = Inr keys"
    using flat_keys_total by blast
  let ?c = "columns_of pf (uniq keys)"
  have c: "table_columns pf records = Inr ?c"
    by (simp add: table_columns_def k)
  have "formatTable pf data =
       Inr (join [10]
             ([header_line ?c (map (width_of pf records) ?c),
               rule_line (map (width_of pf records) ?c)] @
              map (row_line pf ?c (map (width_of pf records) ?c)) (take 50 records) @
              (if 50 < length records
               then [js ''... and '' @ digits (length records - 50) @ js '' more rows'']
               else [])))"
    using a(1,2) by (simp add: formatTable_def table_lines_def c Let_def more_line_def)
  with c columns_of_shape [of pf keys] show ?thesis
    by blast
qed

lemma formatTable_throws:
  "extract_records pf data = records \<Longrightarrow> \<exists>r \<in> set records. r = JNull \<or> r = JUndefined \<Longrightarrow>
   \<exists>r \<in> set records. (r = JNull \<or> r = JUndefined) \<and>
     formatTable pf data = Inl (TypeError ObjectKeys r)"
proof -
  assume a: "extract_records pf data = records" "\<exists>r \<in> set records. r = JNull \<or> r = JUndefined"
  from flat_keys_throw [OF a(2)] obtain r where r: "r \<in> set records" "r = JNull \<or> r = JUndefined"
      "flat_keys records = Inl (TypeError ObjectKeys r)"
    by blast
  from r(1) have "records \<noteq> []"
    by auto
  with a(1) r(3) have "formatTable pf data = Inl (TypeError ObjectKeys r)"
    by (simp add: formatTable_def table_lines_def table_columns_def Let_def)
  with r show ?thesis by blast
qed

lemma more_line_60: "js ''... and '' @ digits (60 - 50) @ js '' more rows'' = js ''... and 10 more rows''"
  by (simp add: digits_two js_def)

lemma round64_small:
  "round64 1 = Fin 1"
  "round64 2 = Fin 2"
  unfolding round64_def round_half_even_def Let_def by (simp add: binade_def pow2_def)+

lemma two_decimals_small:
  "two_decimals 1 = js ''1.00''"
  "two_decimals 2 = js ''2.00''"
  unfolding two_decimals_def Let_def by (simp_all add: digits_small js_def)

lemma formatValue_K_examples:
  "formatValue pf (JNum (Fin 1000)) = js ''1.00K''"
  "formatValue pf (JNum (Fin 2000)) = js ''2.00K''"
proof -
  show "formatValue pf (JNum (Fin 1000)) = js ''1.00K''"
    using formatNumber_K [of 1000 1 pf]
    by (simp add: round64_small two_decimals_small js_def)
  show "formatValue pf (JNum (Fin 2000)) = js ''2.00K''"
    using formatNumber_K [of 2000 2 pf]
    by (simp add: round64_small two_decimals_small js_def)
qed

lemma formatValue_one: "formatValue pf (JNum (Fin 1)) = js ''1''"
  using formatNumber_integer [of 1 1 pf] by (simp add: digits_small js_def)

lemmas table_eval =
  formatTable_def extract_records_def table_lines_def table_columns_def Let_def uniq_def
  columns_of_def sort_by_def compare_columns_def priorityFields_def width_of_def header_line_def
  rule_line_def row_line_def padEnd_def get_property_def get_optional_def


lemma flat_keys_replicate:
  "keys_of r = Inr ks \<Longrightarrow> flat_keys (replicate n r) = Inr (concat (replicate n ks))"
  by (induction n) simp_all

lemma funpow_max: "(max (x::nat) ^^ n) 0 = (if n = 0 then 0 else x)"
  by (induction n) auto

lemma concat_replicate_single: "concat (replicate n [k]) = replicate n k"
  by (induction n) simp_all

lemma remdups_replicate_same: "0 < n \<Longrightarrow> remdups (replicate n k) = [k]"
proof (induction n)
  case 0
  then show ?case by simp
next
  case (Suc n)
  then show ?case by (cases "n = 0") auto
qed

lemma uniq_replicate: "0 < n \<Longrightarrow> uniq (replicate n k) = [k]"
  by (simp add: uniq_def remdups_replicate_same)

lemma formatTable_sixty:
  "formatTable pf (JArr (replicate 60 (JObj [(js ''a'', JNum (Fin 1))])))
   = Inr (join [10] ([js ''a'', [9472]] @ replicate 50 (js ''1'') @ [js ''... and 10 more rows'']))"
proof -
  let ?r = "JObj [(js ''a'', JNum (Fin 1))]"
  let ?rs = "replicate 60 ?r"
  have k: "flat_keys ?rs = Inr (replicate 60 (js ''a''))"
    using flat_keys_replicate [of ?r "[js ''a'']" 60] by (simp add: concat_replicate_single)
  have c: "table_columns pf ?rs = Inr [js ''a'']"
    by (simp add: table_columns_def k uniq_replicate columns_of_def sort_by_def)
  have w: "width_of pf ?rs (js ''a'') = 1"
    by (simp add: width_of_def funpow_max get_property_def formatValue_one js_length
          del: formatValue.simps(3))
  have r: "row_line pf [js ''a''] [Suc 0] ?r = js ''1''"
    by (simp add: row_line_def get_property_def formatValue_one padEnd_def js_length
          del: formatValue.simps(3))
  have h: "header_line [js ''a''] [Suc 0] = js ''a''" "rule_line [Suc 0] = [9472]"
    by (simp_all add: header_line_def rule_line_def padEnd_def js_length)
  show ?thesis
    by (simp add: formatTable_def extract_records_array table_lines_def c w r h Let_def
          more_line_def more_line_60 [simplified])
qed

lemma formatTable_tokens:
  "formatTable pf
     (JArr [JObj [(js ''name'', JStr (js ''Token1'')), (js ''value_usd'', JNum (Fin 1000))],
            JObj [(js ''name'', JStr (js ''Token2'')), (js ''value_usd'', JNum (Fin 2000))]])
   = Inr (join [10]
       [js ''name  '' @ column_separator @ js ''value_usd'',
        replicate 6 9472 @ rule_separator @ replicate 9 9472,
        js ''Token1'' @ column_separator @ js ''1.00K    '',
        js ''Token2'' @ column_separator @ js ''2.00K    ''])"
  by (simp add: table_eval formatValue_K_examples js_length del: formatValue.simps(3))
    (simp add: js_def numeral_eq_Suc)

text \<open>
  Claim C8, as the code has it. When no record is extracted, \<open>formatTable\<close> returns
  \<open>No data\<close>. When records are extracted and none of them is \<open>null\<close> or \<open>undefined\<close>,
  it returns a table: a header and a rule for at most 8 columns, which are distinct
  keys of the records; one row for each of the first 50 records, so \<open>min 50 n\<close> rows for
  \<open>n\<close> records; and, when \<open>n > 50\<close>, a last line \<open>... and k more rows\<close> where \<open>k\<close> is
  \<open>n - 50\<close> in decimal digits (60 records give \<open>... and 10 more rows\<close>). When one of
  the records is \<open>null\<close> or \<open>undefined\<close>, \<open>Object.keys\<close> throws a \<open>TypeError\<close> and there
  is no table. The table of the two tokens of the specification is shown in full.
\<close>

theorem formatTable_shape:
  "(extract_records pf data = [] \<longrightarrow> formatTable pf data = Inr (js ''No data'')) \<and>
   (extract_records pf data = records \<and> records \<noteq> [] \<and>
    (\<forall>r \<in> set records. r \<noteq> JNull \<and> r \<noteq> JUndefined) \<longrightarrow>
      (\<exists>columns. table_columns pf records = Inr columns \<and> length columns \<le> 8 \<and>
         distinct columns \<and>
         formatTable pf data =
           Inr (join [10]
                 ([header_line columns (map (width_of pf records) columns),
                   rule_line (map (width_of pf records) columns)] @
                  map (row_line pf columns (map (width_of pf records) columns))
                    (take 50 records) @
                  (if 50 < length records
                   then [js ''... and '' @ digits (length records - 50) @ js '' more rows'']
                   else []))))) \<and>
   (extract_records pf data = records \<and> (\<exists>r \<in> set records. r = JNull \<or> r = JUndefined) \<longrightarrow>
      (\<exists>r. (r = JNull \<or> r = JUndefined) \<and> formatTable pf data = Inl (TypeError ObjectKeys r))) \<and>
   length (map (row_line pf columns widths) (take 50 records)) = min 50 (length records) \<and>
   digits_value (digits n) = n \<and>
   extract_records pf (JArray xs ps) = xs \<and>
   formatTable pf (JArr (replicate 60 (JObj [(js ''a'', JNum (Fin 1))])))
     = Inr (join [10] ([js ''a'', [9472]] @ replicate 50 (js ''1'') @
                       [js ''... and 10 more rows''])) \<and>
   formatTable pf
     (JArr [JObj [(js ''name'', JStr (js ''Token1'')), (js ''value_usd'', JNum (Fin 1000))],
            JObj [(js ''name'', JStr (js ''Token2'')), (js ''value_usd'', JNum (Fin 2000))]])
     = Inr (join [10]
         [js ''name  '' @ column_separator @ js ''value_usd'',
          replicate 6 9472 @ rule_separator @ replicate 9 9472,
          js ''Token1'' @ column_separator @ js ''1.00K    '',
          js ''Token2'' @ column_separator @ js ''2.00K    ''])"
proof -
  have 1: "extract_records pf data = [] \<longrightarrow> formatTable pf data = Inr (js ''No data'')"
    by (simp add: formatTable_empty)
  have 2: "extract_records pf data = records \<and> records \<noteq> [] \<and>
    (\<forall>r \<in> set records. r \<noteq> JNull \<and> r \<noteq> JUndefined) \<longrightarrow>
      (\<exists>columns. table_columns pf records = Inr columns \<and> length columns \<le> 8 \<and>
         distinct columns \<and>
         formatTable pf data =
           Inr (join [10]
                 ([header_line columns (map (width_of pf records) columns),
                   rule_line (map (width_of pf records) columns)] @
                  map (row_line pf columns (map (width_of pf records) columns))
                    (take 50 records) @
                  (if 50 < length records
                   then [js ''... and '' @ digits (length records - 50) @ js '' more rows'']
                   else []))))"
    using formatTable_records [of pf data records] by blast
  have 3: "extract_records pf data = records \<and>
      (\<exists>r \<in> set records. r = JNull \<or> r = JUndefined) \<longrightarrow>
      (\<exists>r. (r = JNull \<or> r = JUndefined) \<and> formatTable pf data = Inl (TypeError ObjectKeys r))"
    using formatTable_throws [of pf data records] by blast
  have 4: "length (map (row_line pf columns widths) (take 50 records)) = min 50 (length records)"
    by (simp add: min.commute)
  note 5 = digits_value_digits [of n] extract_records_array [of pf xs ps] formatTable_sixty [of pf]
    formatTable_tokens [of pf]
  from 1 2 3 4 5 show ?thesis
    by (intro conjI)
qed

theorem formatTable_shape_witness:
  "extract_records example_platform (JArr []) = [] \<and>
   formatTable example_platform (JArr []) = Inr (js ''No data'') \<and>
   extract_records example_platform (JArr (replicate 60 (JObj [(js ''a'', JNum (Fin 1))])))
     = replicate 60 (JObj [(js ''a'', JNum (Fin 1))]) \<and>
   replicate 60 (JObj [(js ''a'', JNum (Fin 1))]) \<noteq> [] \<and>
   set (replicate 60 (JObj [(js ''a'', JNum (Fin 1))])) = {JObj [(js ''a'', JNum (Fin 1))]} \<and>
   JObj [(js ''a'', JNum (Fin 1))] \<noteq> JNull \<and> JObj [(js ''a'', JNum (Fin 1))] \<noteq> JUndefined \<and>
   (\<exists>columns. length columns \<le> 8 \<and>
      formatTable example_platform (JArr (replicate 60 (JObj [(js ''a'', JNum (Fin 1))]))) =
        Inr (join [10]
              ([header_line columns
                  (map (width_of example_platform
                          (replicate 60 (JObj [(js ''a'', JNum (Fin 1))]))) columns),
                rule_line
                  (map (width_of example_platform
                          (replicate 60 (JObj [(js ''a'', JNum (Fin 1))]))) columns)] @
               replicate 50
                 (row_line example_platform columns
                    (map (width_of example_platform
                            (replicate 60 (JObj [(js ''a'', JNum (Fin 1))]))) columns)
                    (JObj [(js ''a'', JNum (Fin 1))])) @
               [js ''... and 10 more rows'']))) \<and>
   extract_records example_platform (JArr [JObj [], JNull]) = [JObj [], JNull] \<and>
   JNull \<in> set [JObj [], JNull] \<and>
   formatTable example_platform (JArr [JObj [], JNull]) = Inl (TypeError ObjectKeys JNull)"
proof -
  let ?r = "JObj [(js ''a'', JNum (Fin 1))]"
  let ?rs = "replicate 60 ?r"
  have e0: "extract_records example_platform (JArr []) = []"
    by (rule extract_records_array)
  from formatTable_shape [where pf = example_platform and data = "JArr []", THEN conjunct1] e0
  have 1: "formatTable example_platform (JArr []) = Inr (js ''No data'')"
    by blast
  have e1: "extract_records example_platform (JArr ?rs) = ?rs"
    by (rule extract_records_array)
  have n1: "?rs \<noteq> []" "set ?rs = {?r}" "?r \<noteq> JNull" "?r \<noteq> JUndefined"
    by simp_all
  then have a1: "\<forall>r \<in> set ?rs. r \<noteq> JNull \<and> r \<noteq> JUndefined"
    by simp
  from formatTable_shape [where pf = example_platform and data = "JArr ?rs" and records = ?rs,
      THEN conjunct2, THEN conjunct1] e1 n1(1) a1
  obtain columns where c: "length columns \<le> 8"
      "formatTable example_platform (JArr ?rs) =
           Inr (join [10]
                 ([header_line columns (map (width_of example_platform ?rs) columns),
                   rule_line (map (width_of example_platform ?rs) columns)] @
                  map (row_line example_platform columns
                         (map (width_of example_platform ?rs) columns)) (take 50 ?rs) @
                  (if 50 < length ?rs
                   then [js ''... and '' @ digits (length ?rs - 50) @ js '' more rows'']
                   else [])))"
    by blast
  have t: "take 50 ?rs = replicate 50 ?r"
    by simp
  from c(2) have 2: "formatTable example_platform (JArr ?rs) =
        Inr (join [10]
              ([header_line columns (map (width_of example_platform ?rs) columns),
                rule_line (map (width_of example_platform ?rs) columns)] @
               replicate 50
                 (row_line example_platform columns
                    (map (width_of example_platform ?rs) columns) ?r) @
               [js ''... and 10 more rows'']))"
    unfolding t map_replicate length_replicate using more_line_60 by simp
  have e2: "extract_records example_platform (JArr [JObj [], JNull]) = [JObj [], JNull]"
    by (rule extract_records_array)
  have n2: "JNull \<in> set [JObj [], JNull]"
    by simp
  then have a2: "\<exists>r \<in> set [JObj [], JNull]. r = JNull \<or> r = JUndefined"
    by blast
  from formatTable_shape [where pf = example_platform and data = "JArr [JObj [], JNull]"
      and records = "[JObj [], JNull]", THEN conjunct2, THEN conjunct2, THEN conjunct1] e2 a2
  obtain r where r: "r = JNull \<or> r = JUndefined"
      "formatTable example_platform (JArr [JObj [], JNull]) = Inl (TypeError ObjectKeys r)"
    by blast
  have "formatTable example_platform (JArr [JObj [], JNull]) \<noteq> Inl (TypeError ObjectKeys JUndefined)"
    by (simp add: formatTable_def extract_records_array table_lines_def table_columns_def Let_def)
  with r have 3: "formatTable example_platform (JArr [JObj [], JNull])
      = Inl (TypeError ObjectKeys JNull)"
    by auto
  from c(1) 2 have 4: "\<exists>columns. length columns \<le> 8 \<and>
      formatTable example_platform (JArr ?rs) =
        Inr (join [10]
              ([header_line columns (map (width_of example_platform ?rs) columns),
                rule_line (map (width_of example_platform ?rs) columns)] @
               replicate 50
                 (row_line example_platform columns
                    (map (width_of example_platform ?rs) columns) ?r) @
               [js ''... and 10 more rows'']))"
    by blast
  note facts = e0 1 e1 n1 4 e2 n2 3
  show ?thesis
    by (intro conjI) (rule facts)+
qed

text \<open>
  Claim C8 as stated, for every extracted record sequence, fails when a record is
  \<open>null\<close>: for 51 records that are all \<open>null\<close> there is no table and no last line, but
  the \<open>TypeError\<close> of \<open>Object.keys(null)\<close>.
\<close>

theorem formatTable_null_records_counterexample:
  "formatTable example_platform (JArr (replicate 51 JNull)) = Inl (TypeError ObjectKeys JNull)"
proof -
  have "replicate 51 JNull = JNull # replicate 50 JNull"
    by (simp add: numeral_eq_Suc)
  then have "flat_keys (replicate 51 JNull) = Inl (TypeError ObjectKeys JNull)"
    by simp
  then show ?thesis
    by (simp add: formatTable_def extract_records_array table_lines_def table_columns_def Let_def)
qed

end
